theory Spec2Isabelle
  imports Complex_Main "HOL-Library.Sublist"
begin

section \<open>Shot production pipeline of the director workbench\<close>

text \<open>
  The development embeds the pure helpers of \<^verbatim>\<open>components/StageDirector/utils.ts\<close>, the
  event handlers of \<^verbatim>\<open>components/StageDirector/index.tsx\<close>, the style table and the video
  templates of \<^verbatim>\<open>constants.ts\<close>, and the camera-movement guide table, whose text stands in
  the older single-file version of the component. From that older version the batch loop
  is embedded as well, and from the second copy of \<^verbatim>\<open>utils.ts\<close> its longer prompt
  template. A JavaScript string is a list of characters;
  text outside ASCII is held as its UTF-8 bytes (\<open>CHR 0xE4\<close> ...). The code only
  concatenates such text, compares it for equality and searches it for ASCII needles, and a
  position found that way is only used to cut the text there, so the encoding is not
  observable. User-facing alert messages are constructors of a datatype, since only their
  identity matters.
\<close>

subsection \<open>String primitives\<close>

text \<open>\<^verbatim>\<open>String.prototype.indexOf\<close>: the position of the first occurrence, \<open>-1\<close> when there is none.\<close>

primrec firstIndex :: "string \<Rightarrow> string \<Rightarrow> nat option" where
  "firstIndex needle [] = (if needle = [] then Some 0 else None)"
| "firstIndex needle (c # cs) =
     (if prefix needle (c # cs) then Some 0 else map_option Suc (firstIndex needle cs))"

definition indexOf :: "string \<Rightarrow> string \<Rightarrow> int" where
  "indexOf s needle = (case firstIndex needle s of None \<Rightarrow> - 1 | Some i \<Rightarrow> int i)"

text \<open>\<^verbatim>\<open>s.includes(sub)\<close>.\<close>

definition includes_str :: "string \<Rightarrow> string \<Rightarrow> bool" where
  "includes_str s sub = (firstIndex sub s \<noteq> None)"

text \<open>\<^verbatim>\<open>s.substring(0, n)\<close> for \<open>n \<ge> 0\<close>.\<close>

definition substring0 :: "string \<Rightarrow> int \<Rightarrow> string" where
  "substring0 s n = take (nat n) s"

text \<open>
  \<^verbatim>\<open>toLowerCase\<close>. The ASCII capitals go to their small letters. Two characters outside
  ASCII have a lowercase form that holds an ASCII letter: the Kelvin sign U+212A (bytes
  \<open>E2 84 AA\<close>) becomes \<open>k\<close>, and the dotted capital I U+0130 (bytes \<open>C4 B0\<close>) becomes \<open>i\<close>
  followed by the combining dot U+0307 (bytes \<open>CC 87\<close>). The bytes of every other
  character outside ASCII are left as they are: its lowercase form lies outside ASCII as
  well, so it meets no key of the guide table either way.
\<close>

definition lowerChar :: "char \<Rightarrow> char" where
  "lowerChar c =
     (case map_of (zip ''ABCDEFGHIJKLMNOPQRSTUVWXYZ'' ''abcdefghijklmnopqrstuvwxyz'') c of
        None \<Rightarrow> c
      | Some l \<Rightarrow> l)"

fun toLowerCase :: "string \<Rightarrow> string" where
  "toLowerCase [] = []"
| "toLowerCase (c # cs) =
     (if c = CHR 0xE2 \<and> take 2 cs = [CHR 0x84, CHR 0xAA]
      then CHR ''k'' # toLowerCase (drop 2 cs)
      else if c = CHR 0xC4 \<and> take 1 cs = [CHR 0xB0]
      then CHR ''i'' # CHR 0xCC # CHR 0x87 # toLowerCase (drop 1 cs)
      else lowerChar c # toLowerCase cs)"

text \<open>JavaScript truthiness of an optional string: \<^verbatim>\<open>undefined\<close> and \<^verbatim>\<open>''\<close> are falsy.\<close>

fun truthy :: "string option \<Rightarrow> bool" where
  "truthy None = False"
| "truthy (Some s) = (s \<noteq> [])"

subsection \<open>Camera-movement guide table\<close>

datatype frameType = Start | End

record guide =
  start_guide :: string
  end_guide :: string

text \<open>The object literal \<^verbatim>\<open>guides\<close>, in insertion order (the order of \<^verbatim>\<open>Object.entries\<close>).\<close>

definition guides :: "(string \<times> guide) list" where
  "guides = [
    (''horizontal left shot'',
      \<lparr>start_guide = ''Composition: Subject positioned on the right side of frame, with space on the left for movement.'',
       end_guide = ''Composition: Subject moved to left side of frame, showing the journey from right to left.''\<rparr>),
    (''horizontal right shot'',
      \<lparr>start_guide = ''Composition: Subject positioned on the left side of frame, with space on the right for movement.'',
       end_guide = ''Composition: Subject moved to right side of frame, showing the journey from left to right.''\<rparr>),
    (''pan left shot'',
      \<lparr>start_guide = ''Composition: Frame focused on right portion of scene, anticipating leftward pan.'',
       end_guide = ''Composition: Frame reveals left portion of scene, completing the pan movement.''\<rparr>),
    (''pan right shot'',
      \<lparr>start_guide = ''Composition: Frame focused on left portion of scene, anticipating rightward pan.'',
       end_guide = ''Composition: Frame reveals right portion of scene, completing the pan movement.''\<rparr>),
    (''zoom in shot'',
      \<lparr>start_guide = ''Composition: Wide establishing shot showing full scene context, subject smaller in frame.'',
       end_guide = ''Composition: Tight close-up on subject, filling frame with detail and intimacy.''\<rparr>),
    (''zoom out shot'',
      \<lparr>start_guide = ''Composition: Close-up on subject, emphasizing details and emotion.'',
       end_guide = ''Composition: Wide pullback revealing surrounding environment and context.''\<rparr>),
    (''dolly shot'',
      \<lparr>start_guide = ''Composition: Initial framing with subject at specific distance and perspective.'',
       end_guide = ''Composition: Changed perspective with subject closer/further, revealing depth and space.''\<rparr>),
    (''tilt up shot'',
      \<lparr>start_guide = ''Composition: Camera angle pointing downward or level, capturing lower portion of subject.'',
       end_guide = ''Composition: Camera tilted upward, revealing height and vertical expanse above.''\<rparr>),
    (''tilt down shot'',
      \<lparr>start_guide = ''Composition: Camera angle pointing upward or level, emphasizing upper portion.'',
       end_guide = ''Composition: Camera tilted downward, revealing lower elements and ground level.''\<rparr>),
    (''vertical up shot'',
      \<lparr>start_guide = ''Composition: Lower vertical position, subject at bottom of frame or ground level.'',
       end_guide = ''Composition: Elevated position, subject risen vertically showing upward movement.''\<rparr>),
    (''vertical down shot'',
      \<lparr>start_guide = ''Composition: Elevated vertical position, subject higher in frame.'',
       end_guide = ''Composition: Lower position, subject descended showing downward movement.''\<rparr>),
    (''tracking shot'',
      \<lparr>start_guide = ''Composition: Subject in frame with forward/lateral space for tracking movement.'',
       end_guide = ''Composition: Subject tracked through space, maintaining visual relationship.''\<rparr>),
    (''circular shot'',
      \<lparr>start_guide = ''Composition: Subject centered, camera at initial angle of circular path.'',
       end_guide = ''Composition: Subject still centered, camera at opposite side revealing new angle.''\<rparr>),
    (''360-degree circular shot'',
      \<lparr>start_guide = ''Composition: Subject centered, camera beginning 360'' @ [CHR 0xC2, CHR 0xB0] @ '' orbit.'',
       end_guide = ''Composition: Subject centered, camera completing full revolution from different angle.''\<rparr>),
    (''low angle shot'',
      \<lparr>start_guide = ''Composition: Low camera angle looking upward, emphasizing height and power.'',
       end_guide = ''Composition: Maintained low angle, subject towering with dramatic perspective.''\<rparr>),
    (''high angle shot'',
      \<lparr>start_guide = ''Composition: High camera angle looking downward, creating overview perspective.'',
       end_guide = ''Composition: Maintained high angle, emphasizing scale and spatial relationships.''\<rparr>),
    (''bird's eye view shot'',
      \<lparr>start_guide = ''Composition: Directly overhead view, showing layout and patterns from above.'',
       end_guide = ''Composition: Continued overhead perspective, revealing changed spatial arrangement.''\<rparr>),
    (''pov shot'',
      \<lparr>start_guide = ''Composition: First-person perspective from character's viewpoint.'',
       end_guide = ''Composition: Maintained POV, showing what character sees after movement/action.''\<rparr>),
    (''over the shoulder shot'',
      \<lparr>start_guide = ''Composition: Frame includes foreground character's shoulder, looking at subject.'',
       end_guide = ''Composition: Maintained over-shoulder framing, possibly with shifted focus or angle.''\<rparr>),
    (''handheld shot'',
      \<lparr>start_guide = ''Composition: Dynamic handheld framing with natural movement and energy.'',
       end_guide = ''Composition: Continued handheld aesthetic with organic repositioning.''\<rparr>),
    (''static shot'',
      \<lparr>start_guide = ''Composition: Fixed camera position, stable framing throughout.'',
       end_guide = ''Composition: Same camera position, only subject movement within frame.''\<rparr>),
    (''rotating shot'',
      \<lparr>start_guide = ''Composition: Subject in frame, camera beginning rotational movement.'',
       end_guide = ''Composition: Subject with changed orientation due to camera rotation.''\<rparr>),
    (''slow motion shot'',
      \<lparr>start_guide = ''Composition: Action captured at beginning of slow-motion sequence.'',
       end_guide = ''Composition: Action progressed, emphasizing graceful movement detail.''\<rparr>),
    (''parallel tracking shot'',
      \<lparr>start_guide = ''Composition: Subject with camera tracking parallel alongside.'',
       end_guide = ''Composition: Maintained parallel relationship, subject moved through space.''\<rparr>),
    (''diagonal tracking shot'',
      \<lparr>start_guide = ''Composition: Subject with camera on diagonal tracking path.'',
       end_guide = ''Composition: Diagonal perspective maintained, dynamic spatial progression.''\<rparr>),
    (''canted shot'',
      \<lparr>start_guide = ''Composition: Tilted horizon line creating dutch angle, dynamic unease.'',
       end_guide = ''Composition: Maintained or adjusted dutch angle, emphasizing disorientation.''\<rparr>),
    (''cinematic dolly zoom'',
      \<lparr>start_guide = ''Composition: Initial balanced framing before vertigo effect.'',
       end_guide = ''Composition: Distorted perspective with foreground/background relationship altered.''\<rparr>)]"

definition genericGuide :: "frameType \<Rightarrow> string" where
  "genericGuide frameType =
     (if frameType = Start
      then ''Composition: Initial frame composition suited for the camera movement.''
      else ''Composition: Final frame composition showing the result of camera movement.'')"

definition pickGuide :: "frameType \<Rightarrow> guide \<Rightarrow> string" where
  "pickGuide frameType g = (if frameType = Start then start_guide g else end_guide g)"

text \<open>The \<^verbatim>\<open>for ... of Object.entries(guides)\<close> loop: the first matching entry returns.\<close>

fun guideLoop :: "string \<Rightarrow> frameType \<Rightarrow> (string \<times> guide) list \<Rightarrow> string" where
  "guideLoop movement frameType [] = genericGuide frameType"
| "guideLoop movement frameType ((key, val) # rest) =
     (if includes_str movement key \<or> includes_str key movement
      then pickGuide frameType val
      else guideLoop movement frameType rest)"

definition getCameraMovementCompositionGuide :: "string \<Rightarrow> frameType \<Rightarrow> string" where
  "getCameraMovementCompositionGuide cameraMovement frameType =
     (let movement = toLowerCase cameraMovement in guideLoop movement frameType guides)"

subsection \<open>Data model\<close>

text \<open>
  The fields the handlers read and write, as \<^verbatim>\<open>types.ts\<close> declares them. An optional field is
  an \<open>option\<close>; the object \<^verbatim>\<open>characterVariations\<close> is an association list read with
  \<open>map_of\<close>. Identifiers compared through \<^verbatim>\<open>String(...)\<close> are held as strings.
\<close>

datatype status = Pending | Generating | Completed | Failed

record keyframe =
  kf_id :: string
  kf_type :: frameType
  visualPrompt :: string
  imageUrl :: "string option"
  kf_status :: status

datatype videoModel = Sora2 | Veo

record interval =
  interval_id :: string
  startKeyframeId :: string
  endKeyframeId :: string
  duration :: nat
  motionStrength :: nat
  videoPrompt :: "string option"
  videoUrl :: "string option"
  interval_status :: status

record shot =
  shot_id :: string
  sceneId :: string
  actionSummary :: string
  cameraMovement :: string
  characters :: "string list option"
  characterVariations :: "(string \<times> string) list option"
  keyframes :: "keyframe list option"
  interval :: "interval option"
  videoModel :: "videoModel option"

record variation =
  variation_id :: string
  variation_referenceImage :: "string option"

record character =
  character_id :: string
  character_referenceImage :: "string option"
  variations :: "variation list option"

record scene =
  scene_id :: string
  scene_referenceImage :: "string option"

record scriptData =
  scenes :: "scene list"
  sd_characters :: "character list"
  sd_visualStyle :: "string option"
  sd_language :: "string option"

record projectState =
  shots :: "shot list"
  project_scriptData :: "scriptData option"
  visualStyle :: "string option"
  language :: "string option"

subsection \<open>Helpers of \<^verbatim>\<open>utils.ts\<close>\<close>

text \<open>\<^verbatim>\<open>keyframes?.find(k => k.type === type)\<close>.\<close>

definition findKeyframe :: "shot \<Rightarrow> frameType \<Rightarrow> keyframe option" where
  "findKeyframe s t =
     (case keyframes s of None \<Rightarrow> None | Some kfs \<Rightarrow> find (\<lambda>k. kf_type k = t) kfs)"

text \<open>\<^verbatim>\<open>x?.imageUrl\<close> on an optional keyframe.\<close>

definition imageUrlOf :: "keyframe option \<Rightarrow> string option" where
  "imageUrlOf k = (case k of None \<Rightarrow> None | Some kf \<Rightarrow> imageUrl kf)"

text \<open>
  \<^verbatim>\<open>getRefImagesForShot\<close>: the array \<^verbatim>\<open>referenceImages\<close> is threaded through the
  \<^verbatim>\<open>forEach\<close> callback, which pushes at most one image for each character id.
\<close>

definition pushCharacterRef ::
  "shot \<Rightarrow> scriptData \<Rightarrow> string list \<Rightarrow> string \<Rightarrow> string list" where
  "pushCharacterRef sh sd referenceImages charId =
     (case find (\<lambda>c. character_id c = charId) (sd_characters sd) of
        None \<Rightarrow> referenceImages
      | Some char \<Rightarrow>
          (let varId = (case characterVariations sh of None \<Rightarrow> None | Some m \<Rightarrow> map_of m charId);
               variation =
                 (if truthy varId
                  then (case variations char of
                          None \<Rightarrow> None
                        | Some vs \<Rightarrow> find (\<lambda>v. Some (variation_id v) = varId) vs)
                  else None);
               variationImage =
                 (case variation of None \<Rightarrow> None | Some v \<Rightarrow> variation_referenceImage v)
           in if truthy varId \<and> truthy variationImage
              then referenceImages @ [the variationImage]
              else if truthy (character_referenceImage char)
              then referenceImages @ [the (character_referenceImage char)]
              else referenceImages))"

definition getRefImagesForShot :: "shot \<Rightarrow> scriptData option \<Rightarrow> string list" where
  "getRefImagesForShot sh scriptData =
     (case scriptData of
        None \<Rightarrow> []
      | Some sd \<Rightarrow>
          (let scene = find (\<lambda>s. scene_id s = sceneId sh) (scenes sd);
               sceneImage = (case scene of None \<Rightarrow> None | Some s \<Rightarrow> scene_referenceImage s);
               referenceImages = (if truthy sceneImage then [the sceneImage] else [])
           in case characters sh of
                None \<Rightarrow> referenceImages
              | Some cs \<Rightarrow> foldl (pushCharacterRef sh sd) referenceImages cs))"

text \<open>The table \<^verbatim>\<open>VISUAL_STYLE_PROMPTS\<close> of \<^verbatim>\<open>constants.ts\<close>.\<close>

definition VISUAL_STYLE_PROMPTS :: "(string \<times> string) list" where
  "VISUAL_STYLE_PROMPTS = [
    (''live-action'',
      ''photorealistic, cinematic film quality, real human actors, professional cinematography, natural lighting, 8K resolution''),
    (''anime'',
      ''Japanese anime style, cel-shaded, vibrant colors, expressive eyes, dynamic poses, Studio Ghibli/Makoto Shinkai quality''),
    (''2d-animation'',
      ''classic 2D animation, hand-drawn style, Disney/Pixar quality, smooth lines, expressive characters, painterly backgrounds''),
    (''3d-animation'',
      ''high-quality 3D CGI animation, Pixar/DreamWorks style, subsurface scattering, detailed textures, stylized characters''),
    (''cyberpunk'',
      ''cyberpunk aesthetic, neon-lit, rain-soaked streets, holographic displays, high-tech low-life, Blade Runner style''),
    (''oil-painting'',
      ''oil painting style, visible brushstrokes, rich textures, classical art composition, museum quality fine art'')]"

text \<open>
  The table is a plain object, so a lookup by a name that is not one of its keys still
  finds the members every object inherits from \<^verbatim>\<open>Object.prototype\<close>. Such a member is a
  function or, for \<^verbatim>\<open>__proto__\<close>, the prototype object; the template literal turns it into
  text, given here as V8 prints it.
\<close>

definition nativeFunctionText :: "string \<Rightarrow> string" where
  "nativeFunctionText name = ''function '' @ name @ ''() { [native code] }''"

definition inheritedMembers :: "(string \<times> string) list" where
  "inheritedMembers = [
    (''constructor'', nativeFunctionText ''Object''),
    (''__defineGetter__'', nativeFunctionText ''__defineGetter__''),
    (''__defineSetter__'', nativeFunctionText ''__defineSetter__''),
    (''hasOwnProperty'', nativeFunctionText ''hasOwnProperty''),
    (''__lookupGetter__'', nativeFunctionText ''__lookupGetter__''),
    (''__lookupSetter__'', nativeFunctionText ''__lookupSetter__''),
    (''isPrototypeOf'', nativeFunctionText ''isPrototypeOf''),
    (''propertyIsEnumerable'', nativeFunctionText ''propertyIsEnumerable''),
    (''toString'', nativeFunctionText ''toString''),
    (''valueOf'', nativeFunctionText ''valueOf''),
    (''__proto__'', ''[object Object]''),
    (''toLocaleString'', nativeFunctionText ''toLocaleString'')]"

text \<open>
  \<^verbatim>\<open>VISUAL_STYLE_PROMPTS[visualStyle] || visualStyle\<close>: an own key first, then an inherited
  member. The parameters \<^verbatim>\<open>visualStyle\<close> and \<^verbatim>\<open>cameraMovement\<close> are written \<open>style\<close> and
  \<open>movement\<close>, the field selectors having taken their names.
\<close>

definition stylePromptOf :: "string \<Rightarrow> string" where
  "stylePromptOf style =
     (let p = (case map_of VISUAL_STYLE_PROMPTS style of
                 Some own \<Rightarrow> Some own
               | None \<Rightarrow> map_of inheritedMembers style)
      in if truthy p then the p else style)"

definition styleMarker :: string where
  "styleMarker = ''\<newline>\<newline>Visual Style:''"

definition buildKeyframePrompt :: "string \<Rightarrow> string \<Rightarrow> string \<Rightarrow> frameType \<Rightarrow> string" where
  "buildKeyframePrompt basePrompt style movement frameType =
     (let stylePrompt = stylePromptOf style;
          cameraGuide = getCameraMovementCompositionGuide movement frameType
      in basePrompt @ ''\<newline>\<newline>Visual Style: '' @ stylePrompt
         @ ''\<newline>\<newline>Camera Movement: '' @ movement
         @ '' ('' @ (if frameType = Start then ''Initial'' else ''Final'') @ '' frame)\<newline>''
         @ cameraGuide
         @ ''\<newline>\<newline>Visual Requirements: High definition, cinematic composition, 16:9 widescreen format. Focus on lighting hierarchy, color saturation, and depth of field effects. Ensure the subject is clear and the background transitions naturally.'')"

definition extractBasePrompt :: "string \<Rightarrow> string \<Rightarrow> string" where
  "extractBasePrompt fullPrompt fallback =
     (let visualStyleIndex = indexOf fullPrompt styleMarker
      in if visualStyleIndex > 0 then substring0 fullPrompt visualStyleIndex
         else if fullPrompt \<noteq> [] then fullPrompt else fallback)"

text \<open>\<^verbatim>\<open>generateId\<close> appends \<^verbatim>\<open>Date.now()\<close> in decimal.\<close>

fun showNat :: "nat \<Rightarrow> string" where
  "showNat n =
     (if n < 10 then [''0123456789'' ! n] else showNat (n div 10) @ [''0123456789'' ! (n mod 10)])"

definition generateId :: "string \<Rightarrow> nat \<Rightarrow> string" where
  "generateId pfx now = pfx @ ''-'' @ showNat now"

definition createKeyframe ::
  "string \<Rightarrow> frameType \<Rightarrow> string \<Rightarrow> string option \<Rightarrow> status \<Rightarrow> keyframe" where
  "createKeyframe i t p u st =
     \<lparr>kf_id = i, kf_type = t, visualPrompt = p, imageUrl = u, kf_status = st\<rparr>"

text \<open>\<^verbatim>\<open>findIndex\<close>, with \<open>None\<close> for \<open>-1\<close>.\<close>

fun findIndex :: "('a \<Rightarrow> bool) \<Rightarrow> 'a list \<Rightarrow> nat option" where
  "findIndex P [] = None"
| "findIndex P (x # xs) = (if P x then Some 0 else map_option Suc (findIndex P xs))"

definition updateKeyframeInShot :: "shot \<Rightarrow> frameType \<Rightarrow> keyframe \<Rightarrow> shot" where
  "updateKeyframeInShot sh t kf =
     (let newKeyframes = (case keyframes sh of None \<Rightarrow> [] | Some kfs \<Rightarrow> kfs)
      in case findIndex (\<lambda>k. kf_type k = t) newKeyframes of
           Some idx \<Rightarrow> sh\<lparr>keyframes := Some (newKeyframes[idx := kf])\<rparr>
         | None \<Rightarrow> sh\<lparr>keyframes := Some (newKeyframes @ [kf])\<rparr>)"

subsection \<open>Video prompt templates\<close>

text \<open>
  \<^verbatim>\<open>String.prototype.replace\<close> with a string pattern replaces the first occurrence and
  expands \<^verbatim>\<open>$$\<close>, \<^verbatim>\<open>$&\<close>, \<^verbatim>\<open>$`\<close> and \<^verbatim>\<open>$'\<close> in the replacement text.
\<close>

fun getSubstitution :: "string \<Rightarrow> string \<Rightarrow> string \<Rightarrow> string \<Rightarrow> string" where
  "getSubstitution matched pre post [] = []"
| "getSubstitution matched pre post [c] = [c]"
| "getSubstitution matched pre post (c # d # rest) =
     (if c = CHR ''$'' \<and> d = CHR ''$'' then CHR ''$'' # getSubstitution matched pre post rest
      else if c = CHR ''$'' \<and> d = CHR ''&'' then matched @ getSubstitution matched pre post rest
      else if c = CHR ''$'' \<and> d = CHR 0x60 then pre @ getSubstitution matched pre post rest
      else if c = CHR ''$'' \<and> d = CHR 0x27 then post @ getSubstitution matched pre post rest
      else c # getSubstitution matched pre post (d # rest))"

definition replace_str :: "string \<Rightarrow> string \<Rightarrow> string \<Rightarrow> string" where
  "replace_str s pat rep =
     (case firstIndex pat s of
        None \<Rightarrow> s
      | Some i \<Rightarrow>
          (let pre = take i s; post = drop (i + length pat) s
           in pre @ getSubstitution pat pre post rep @ post))"

definition zhongwen :: string where
  "zhongwen = [CHR 0xE4, CHR 0xB8, CHR 0xAD, CHR 0xE6, CHR 0x96, CHR 0x87]"

definition sora2_chinese :: string where
  "sora2_chinese =
     [CHR 0xE5, CHR 0x9F, CHR 0xBA, CHR 0xE4, CHR 0xBA, CHR 0x8E, CHR 0xE6, CHR 0x8F, CHR 0x90,
     CHR 0xE4, CHR 0xBE, CHR 0x9B, CHR 0xE7, CHR 0x9A, CHR 0x84, CHR 0xE5, CHR 0x8F, CHR 0x82,
     CHR 0xE8, CHR 0x80, CHR 0x83, CHR 0xE5, CHR 0x9B, CHR 0xBE, CHR 0xE7, CHR 0x89, CHR 0x87,
     CHR 0xE7, CHR 0x94, CHR 0x9F, CHR 0xE6, CHR 0x88, CHR 0x90, CHR 0xE8, CHR 0xA7, CHR 0x86,
     CHR 0xE9, CHR 0xA2, CHR 0x91, CHR 0xE3, CHR 0x80, CHR 0x82] @ ''\<newline>\<newline>'' @
     [CHR 0xE5, CHR 0x8A, CHR 0xA8, CHR 0xE4, CHR 0xBD, CHR 0x9C, CHR 0xE6, CHR 0x8F, CHR 0x8F,
     CHR 0xE8, CHR 0xBF, CHR 0xB0, CHR 0xEF, CHR 0xBC, CHR 0x9A] @
     ''{actionSummary}\<newline>\<newline>'' @ [CHR 0xE6, CHR 0x8A, CHR 0x80, CHR 0xE6,
     CHR 0x9C, CHR 0xAF, CHR 0xE8, CHR 0xA6, CHR 0x81, CHR 0xE6, CHR 0xB1, CHR 0x82, CHR 0xEF,
     CHR 0xBC, CHR 0x9A] @ ''\<newline>- '' @ [CHR 0xE5, CHR 0x85, CHR 0xB3, CHR 0xE9, CHR 0x94,
     CHR 0xAE, CHR 0xEF, CHR 0xBC, CHR 0x9A, CHR 0xE8, CHR 0xA7, CHR 0x86, CHR 0xE9, CHR 0xA2,
     CHR 0x91, CHR 0xE5, CHR 0xBF, CHR 0x85, CHR 0xE9, CHR 0xA1, CHR 0xBB, CHR 0xE4, CHR 0xBB,
     CHR 0x8E, CHR 0xE5, CHR 0x8F, CHR 0x82, CHR 0xE8, CHR 0x80, CHR 0x83, CHR 0xE5, CHR 0x9B,
     CHR 0xBE, CHR 0xE7, CHR 0x89, CHR 0x87, CHR 0xE7, CHR 0x9A, CHR 0x84, CHR 0xE7, CHR 0xB2,
     CHR 0xBE, CHR 0xE7, CHR 0xA1, CHR 0xAE, CHR 0xE6, CHR 0x9E, CHR 0x84, CHR 0xE5, CHR 0x9B,
     CHR 0xBE, CHR 0xE5, CHR 0x92, CHR 0x8C, CHR 0xE7, CHR 0x94, CHR 0xBB, CHR 0xE9, CHR 0x9D,
     CHR 0xA2, CHR 0xE5, CHR 0x86, CHR 0x85, CHR 0xE5, CHR 0xAE, CHR 0xB9, CHR 0xE5, CHR 0xBC,
     CHR 0x80, CHR 0xE5, CHR 0xA7, CHR 0x8B, CHR 0xEF, CHR 0xBC, CHR 0x8C, CHR 0xE8, CHR 0x87,
     CHR 0xAA, CHR 0xE7, CHR 0x84, CHR 0xB6, CHR 0xE5, CHR 0xB1, CHR 0x95, CHR 0xE5, CHR 0xBC,
     CHR 0x80, CHR 0xE5, CHR 0x90, CHR 0x8E, CHR 0xE7, CHR 0xBB, CHR 0xAD, CHR 0xE5, CHR 0x8A,
     CHR 0xA8, CHR 0xE4, CHR 0xBD, CHR 0x9C] @ ''\<newline>- '' @ [CHR 0xE9, CHR 0x95, CHR 0x9C,
     CHR 0xE5, CHR 0xA4, CHR 0xB4, CHR 0xE8, CHR 0xBF, CHR 0x90, CHR 0xE5, CHR 0x8A, CHR 0xA8,
     CHR 0xEF, CHR 0xBC, CHR 0x9A] @ ''{cameraMovement}\<newline>- '' @ [CHR 0xE8, CHR 0xBF,
     CHR 0x90, CHR 0xE5, CHR 0x8A, CHR 0xA8, CHR 0xEF, CHR 0xBC, CHR 0x9A, CHR 0xE7, CHR 0xA1,
     CHR 0xAE, CHR 0xE4, CHR 0xBF, CHR 0x9D, CHR 0xE5, CHR 0x8A, CHR 0xA8, CHR 0xE4, CHR 0xBD,
     CHR 0x9C, CHR 0xE6, CHR 0xB5, CHR 0x81, CHR 0xE7, CHR 0x95, CHR 0x85, CHR 0xE8, CHR 0x87,
     CHR 0xAA, CHR 0xE7, CHR 0x84, CHR 0xB6, CHR 0xEF, CHR 0xBC, CHR 0x8C, CHR 0xE9, CHR 0x81,
     CHR 0xBF, CHR 0xE5, CHR 0x85, CHR 0x8D, CHR 0xE7, CHR 0xAA, CHR 0x81, CHR 0xE5, CHR 0x85,
     CHR 0x80, CHR 0xE7, CHR 0x9A, CHR 0x84, CHR 0xE8, CHR 0xB7, CHR 0xB3, CHR 0xE8, CHR 0xB7,
     CHR 0x83, CHR 0xE6, CHR 0x88, CHR 0x96, CHR 0xE4, CHR 0xB8, CHR 0x8D, CHR 0xE8, CHR 0xBF,
     CHR 0x9E, CHR 0xE7, CHR 0xBB, CHR 0xAD] @ ''\<newline>- '' @ [CHR 0xE8, CHR 0xA7, CHR 0x86,
     CHR 0xE8, CHR 0xA7, CHR 0x89, CHR 0xE9, CHR 0xA3, CHR 0x8E, CHR 0xE6, CHR 0xA0, CHR 0xBC,
     CHR 0xEF, CHR 0xBC, CHR 0x9A, CHR 0xE7, CHR 0x94, CHR 0xB5, CHR 0xE5, CHR 0xBD, CHR 0xB1,
     CHR 0xE8, CHR 0xB4, CHR 0xA8, CHR 0xE6, CHR 0x84, CHR 0x9F, CHR 0xEF, CHR 0xBC, CHR 0x8C,
     CHR 0xE5, CHR 0x85, CHR 0xA8, CHR 0xE7, CHR 0xA8, CHR 0x8B, CHR 0xE4, CHR 0xBF, CHR 0x9D,
     CHR 0xE6, CHR 0x8C, CHR 0x81, CHR 0xE4, CHR 0xB8, CHR 0x80, CHR 0xE8, CHR 0x87, CHR 0xB4,
     CHR 0xE7, CHR 0x9A, CHR 0x84, CHR 0xE5, CHR 0x85, CHR 0x89, CHR 0xE7, CHR 0x85, CHR 0xA7,
     CHR 0xE5, CHR 0x92, CHR 0x8C, CHR 0xE8, CHR 0x89, CHR 0xB2, CHR 0xE8, CHR 0xB0, CHR 0x83] @
     ''\<newline>- '' @ [CHR 0xE7, CHR 0xBB, CHR 0x86, CHR 0xE8, CHR 0x8A, CHR 0x82, CHR 0xEF,
     CHR 0xBC, CHR 0x9A, CHR 0xE4, CHR 0xBF, CHR 0x9D, CHR 0xE6, CHR 0x8C, CHR 0x81, CHR 0xE8,
     CHR 0xA7, CHR 0x92, CHR 0xE8, CHR 0x89, CHR 0xB2, CHR 0xE5, CHR 0xA4, CHR 0x96, CHR 0xE8,
     CHR 0xA7, CHR 0x82, CHR 0xE5, CHR 0x92, CHR 0x8C, CHR 0xE5, CHR 0x9C, CHR 0xBA, CHR 0xE6,
     CHR 0x99, CHR 0xAF, CHR 0xE7, CHR 0x8E, CHR 0xAF, CHR 0xE5, CHR 0xA2, CHR 0x83, CHR 0xE7,
     CHR 0x9A, CHR 0x84, CHR 0xE5, CHR 0x85, CHR 0xA8, CHR 0xE7, CHR 0xA8, CHR 0x8B, CHR 0xE4,
     CHR 0xB8, CHR 0x80, CHR 0xE8, CHR 0x87, CHR 0xB4, CHR 0xE6, CHR 0x80, CHR 0xA7] @
     ''\<newline>- '' @ [CHR 0xE8, CHR 0xAF, CHR 0xAD, CHR 0xE8, CHR 0xA8, CHR 0x80, CHR 0xEF,
     CHR 0xBC, CHR 0x9A, CHR 0xE9, CHR 0x85, CHR 0x8D, CHR 0xE9, CHR 0x9F, CHR 0xB3, CHR 0xE5,
     CHR 0x92, CHR 0x8C, CHR 0xE5, CHR 0xAD, CHR 0x97, CHR 0xE5, CHR 0xB9, CHR 0x95, CHR 0xE4,
     CHR 0xBD, CHR 0xBF, CHR 0xE7, CHR 0x94, CHR 0xA8, CHR 0xE4, CHR 0xB8, CHR 0xAD, CHR 0xE6,
     CHR 0x96, CHR 0x87]"

definition sora2_english :: string where
  "sora2_english =
     ''Generate a video based on the provided reference image.\<newline>\<newline>Action Description: {actionSummary}\<newline>\<newline>Technical Requirements:\<newline>- CRITICAL: The video MUST begin with the exact composition and content of the reference image, then naturally develop the subsequent action\<newline>- Camera Movement: {cameraMovement}\<newline>- Motion: Ensure smooth and natural movement, avoid abrupt jumps or discontinuities\<newline>- Visual Style: Cinematic quality with consistent lighting and color tone throughout\<newline>- Details: Maintain character appearance and scene environment consistency throughout\<newline>- Language: Use {language} for voiceover and subtitles''"

definition veo_simple :: string where
  "veo_simple =
     ''{actionSummary}\<newline>\<newline>'' @ [CHR 0xE9, CHR 0x95, CHR 0x9C, CHR 0xE5,
     CHR 0xA4, CHR 0xB4, CHR 0xE8, CHR 0xBF, CHR 0x90, CHR 0xE5, CHR 0x8A, CHR 0xA8, CHR 0xEF,
     CHR 0xBC, CHR 0x9A] @ ''{cameraMovement}\<newline>'' @ [CHR 0xE9, CHR 0x85, CHR 0x8D,
     CHR 0xE9, CHR 0x9F, CHR 0xB3, CHR 0xE8, CHR 0xAF, CHR 0xAD, CHR 0xE8, CHR 0xA8, CHR 0x80,
     CHR 0xEF, CHR 0xBC, CHR 0x9A, CHR 0xE4, CHR 0xBD, CHR 0xBF, CHR 0xE7, CHR 0x94, CHR 0xA8] @
     ''{language}'' @ [CHR 0xE9, CHR 0x85, CHR 0x8D, CHR 0xE9, CHR 0x9F, CHR 0xB3]"

definition buildVideoPrompt :: "string \<Rightarrow> string \<Rightarrow> videoModel \<Rightarrow> string \<Rightarrow> string" where
  "buildVideoPrompt summary movement model lang =
     (let isChinese = (lang = zhongwen \<or> lang = ''Chinese'')
      in if model = Sora2
         then (let template = (if isChinese then sora2_chinese else sora2_english)
               in replace_str
                    (replace_str (replace_str template ''{actionSummary}'' summary)
                       ''{cameraMovement}'' movement)
                    ''{language}'' lang)
         else replace_str
                (replace_str (replace_str veo_simple ''{actionSummary}'' summary)
                   ''{cameraMovement}'' movement)
                ''{language}'' (if isChinese then zhongwen else lang))"

subsection \<open>The enhanced keyframe prompt\<close>

text \<open>
  A second \<^verbatim>\<open>buildKeyframePrompt\<close> is among the sources, in a copy of \<^verbatim>\<open>utils.ts\<close> whose
  other functions are the same. It lays the same base, style, movement and guide into a
  longer template with bilingual section headers.
\<close>

definition enhancedStyleHeader :: string where
  "enhancedStyleHeader =
     ''\<newline>\<newline>'' @ [CHR 0xE2, CHR 0x94, CHR 0x81, CHR 0xE2, CHR 0x94, CHR 0x81,
     CHR 0xE2, CHR 0x94, CHR 0x81, CHR 0xE2, CHR 0x94, CHR 0x81, CHR 0xE2, CHR 0x94, CHR 0x81,
     CHR 0xE2, CHR 0x94, CHR 0x81, CHR 0xE2, CHR 0x94, CHR 0x81, CHR 0xE2, CHR 0x94, CHR 0x81,
     CHR 0xE2, CHR 0x94, CHR 0x81, CHR 0xE2, CHR 0x94, CHR 0x81, CHR 0xE2, CHR 0x94, CHR 0x81,
     CHR 0xE2, CHR 0x94, CHR 0x81, CHR 0xE2, CHR 0x94, CHR 0x81, CHR 0xE2, CHR 0x94, CHR 0x81,
     CHR 0xE2, CHR 0x94, CHR 0x81, CHR 0xE2, CHR 0x94, CHR 0x81, CHR 0xE2, CHR 0x94, CHR 0x81,
     CHR 0xE2, CHR 0x94, CHR 0x81, CHR 0xE2, CHR 0x94, CHR 0x81, CHR 0xE2, CHR 0x94, CHR 0x81,
     CHR 0xE2, CHR 0x94, CHR 0x81, CHR 0xE2, CHR 0x94, CHR 0x81, CHR 0xE2, CHR 0x94, CHR 0x81,
     CHR 0xE2, CHR 0x94, CHR 0x81, CHR 0xE2, CHR 0x94, CHR 0x81, CHR 0xE2, CHR 0x94, CHR 0x81,
     CHR 0xE2, CHR 0x94, CHR 0x81, CHR 0xE2, CHR 0x94, CHR 0x81, CHR 0xE2, CHR 0x94, CHR 0x81,
     CHR 0xE2, CHR 0x94, CHR 0x81, CHR 0xE2, CHR 0x94, CHR 0x81, CHR 0xE2, CHR 0x94, CHR 0x81,
     CHR 0xE2, CHR 0x94, CHR 0x81, CHR 0xE2, CHR 0x94, CHR 0x81] @ ''\<newline>'' @ [CHR 0xE3,
     CHR 0x80, CHR 0x90, CHR 0xE8, CHR 0xA7, CHR 0x86, CHR 0xE8, CHR 0xA7, CHR 0x89, CHR 0xE9,
     CHR 0xA3, CHR 0x8E, CHR 0xE6, CHR 0xA0, CHR 0xBC, CHR 0xE3, CHR 0x80, CHR 0x91] @
     ''Visual Style\<newline>''"

definition enhancedMovementHeader :: string where
  "enhancedMovementHeader =
     ''\<newline>\<newline>'' @ [CHR 0xE2, CHR 0x94, CHR 0x81, CHR 0xE2, CHR 0x94, CHR 0x81,
     CHR 0xE2, CHR 0x94, CHR 0x81, CHR 0xE2, CHR 0x94, CHR 0x81, CHR 0xE2, CHR 0x94, CHR 0x81,
     CHR 0xE2, CHR 0x94, CHR 0x81, CHR 0xE2, CHR 0x94, CHR 0x81, CHR 0xE2, CHR 0x94, CHR 0x81,
     CHR 0xE2, CHR 0x94, CHR 0x81, CHR 0xE2, CHR 0x94, CHR 0x81, CHR 0xE2, CHR 0x94, CHR 0x81,
     CHR 0xE2, CHR 0x94, CHR 0x81, CHR 0xE2, CHR 0x94, CHR 0x81, CHR 0xE2, CHR 0x94, CHR 0x81,
     CHR 0xE2, CHR 0x94, CHR 0x81, CHR 0xE2, CHR 0x94, CHR 0x81, CHR 0xE2, CHR 0x94, CHR 0x81,
     CHR 0xE2, CHR 0x94, CHR 0x81, CHR 0xE2, CHR 0x94, CHR 0x81, CHR 0xE2, CHR 0x94, CHR 0x81,
     CHR 0xE2, CHR 0x94, CHR 0x81, CHR 0xE2, CHR 0x94, CHR 0x81, CHR 0xE2, CHR 0x94, CHR 0x81,
     CHR 0xE2, CHR 0x94, CHR 0x81, CHR 0xE2, CHR 0x94, CHR 0x81, CHR 0xE2, CHR 0x94, CHR 0x81,
     CHR 0xE2, CHR 0x94, CHR 0x81, CHR 0xE2, CHR 0x94, CHR 0x81, CHR 0xE2, CHR 0x94, CHR 0x81,
     CHR 0xE2, CHR 0x94, CHR 0x81, CHR 0xE2, CHR 0x94, CHR 0x81, CHR 0xE2, CHR 0x94, CHR 0x81,
     CHR 0xE2, CHR 0x94, CHR 0x81, CHR 0xE2, CHR 0x94, CHR 0x81] @ ''\<newline>'' @ [CHR 0xE3,
     CHR 0x80, CHR 0x90, CHR 0xE9, CHR 0x95, CHR 0x9C, CHR 0xE5, CHR 0xA4, CHR 0xB4, CHR 0xE8,
     CHR 0xBF, CHR 0x90, CHR 0xE5, CHR 0x8A, CHR 0xA8, CHR 0xE3, CHR 0x80, CHR 0x91] @
     ''Camera Movement\<newline>''"

definition enhancedRoleName :: "frameType \<Rightarrow> string" where
  "enhancedRoleName frameType =
     (if frameType = Start
      then ''Initial Frame '' @ [CHR 0xE8, CHR 0xB5, CHR 0xB7, CHR 0xE5, CHR 0xA7, CHR 0x8B, CHR 0xE5, CHR 0xB8, CHR 0xA7]
      else ''Final Frame '' @ [CHR 0xE7, CHR 0xBB, CHR 0x93, CHR 0xE6, CHR 0x9D, CHR 0x9F, CHR 0xE5, CHR 0xB8, CHR 0xA7])"

definition enhancedGuideHeader :: string where
  "enhancedGuideHeader =
     ''\<newline>\<newline>'' @ [CHR 0xE3, CHR 0x80, CHR 0x90, CHR 0xE6, CHR 0x9E, CHR 0x84,
     CHR 0xE5, CHR 0x9B, CHR 0xBE, CHR 0xE6, CHR 0x8C, CHR 0x87, CHR 0xE5, CHR 0xAF, CHR 0xBC,
     CHR 0xE3, CHR 0x80, CHR 0x91] @ ''Composition Guide\<newline>''"

definition frameSpecificGuide :: "frameType \<Rightarrow> string" where
  "frameSpecificGuide frameType =
     (if frameType = Start
      then
        [CHR 0xE3, CHR 0x80, CHR 0x90, CHR 0xE8, CHR 0xB5, CHR 0xB7, CHR 0xE5, CHR 0xA7,
        CHR 0x8B, CHR 0xE5, CHR 0xB8, CHR 0xA7, CHR 0xE8, CHR 0xA6, CHR 0x81, CHR 0xE6,
        CHR 0xB1, CHR 0x82, CHR 0xE3, CHR 0x80, CHR 0x91] @ ''\<newline>- '' @ [CHR 0xE5,
        CHR 0xBB, CHR 0xBA, CHR 0xE7, CHR 0xAB, CHR 0x8B, CHR 0xE6, CHR 0xB8, CHR 0x85,
        CHR 0xE6, CHR 0x99, CHR 0xB0, CHR 0xE7, CHR 0x9A, CHR 0x84, CHR 0xE5, CHR 0x88,
        CHR 0x9D, CHR 0xE5, CHR 0xA7, CHR 0x8B, CHR 0xE7, CHR 0x8A, CHR 0xB6, CHR 0xE6,
        CHR 0x80, CHR 0x81, CHR 0xE5, CHR 0x92, CHR 0x8C, CHR 0xE5, CHR 0x9C, CHR 0xBA,
        CHR 0xE6, CHR 0x99, CHR 0xAF, CHR 0xE6, CHR 0xB0, CHR 0x9B, CHR 0xE5, CHR 0x9B,
        CHR 0xB4] @ ''\<newline>- '' @ [CHR 0xE4, CHR 0xBA, CHR 0xBA, CHR 0xE7, CHR 0x89,
        CHR 0xA9] @ ''/'' @ [CHR 0xE7, CHR 0x89, CHR 0xA9, CHR 0xE4, CHR 0xBD, CHR 0x93,
        CHR 0xE7, CHR 0x9A, CHR 0x84, CHR 0xE8, CHR 0xB5, CHR 0xB7, CHR 0xE5, CHR 0xA7,
        CHR 0x8B, CHR 0xE4, CHR 0xBD, CHR 0x8D, CHR 0xE7, CHR 0xBD, CHR 0xAE, CHR 0xE3,
        CHR 0x80, CHR 0x81, CHR 0xE5, CHR 0xA7, CHR 0xBF, CHR 0xE6, CHR 0x80, CHR 0x81,
        CHR 0xE5, CHR 0x92, CHR 0x8C, CHR 0xE8, CHR 0xA1, CHR 0xA8, CHR 0xE6, CHR 0x83,
        CHR 0x85, CHR 0xE8, CHR 0xA6, CHR 0x81, CHR 0xE6, CHR 0x98, CHR 0x8E, CHR 0xE7,
        CHR 0xA1, CHR 0xAE] @ ''\<newline>- '' @ [CHR 0xE4, CHR 0xB8, CHR 0xBA, CHR 0xE5,
        CHR 0x90, CHR 0x8E, CHR 0xE7, CHR 0xBB, CHR 0xAD, CHR 0xE8, CHR 0xBF, CHR 0x90,
        CHR 0xE5, CHR 0x8A, CHR 0xA8, CHR 0xE9, CHR 0xA2, CHR 0x84, CHR 0xE7, CHR 0x95,
        CHR 0x99, CHR 0xE8, CHR 0xA7, CHR 0x86, CHR 0xE8, CHR 0xA7, CHR 0x89, CHR 0xE7,
        CHR 0xA9, CHR 0xBA, CHR 0xE9, CHR 0x97, CHR 0xB4, CHR 0xE5, CHR 0x92, CHR 0x8C,
        CHR 0xE5, CHR 0x8A, CHR 0xA8, CHR 0xE5, CHR 0x8A, CHR 0xBF] @ ''\<newline>- '' @
        [CHR 0xE5, CHR 0x88, CHR 0x9D, CHR 0xE5, CHR 0xA7, CHR 0x8B, CHR 0xE5, CHR 0x85,
        CHR 0x89, CHR 0xE5, CHR 0xBD, CHR 0xB1, CHR 0xE5, CHR 0x92, CHR 0x8C, CHR 0xE8,
        CHR 0x89, CHR 0xB2, CHR 0xE8, CHR 0xB0, CHR 0x83, CHR 0xE4, CHR 0xB8, CHR 0xBA,
        CHR 0xE6, CHR 0x95, CHR 0xB4, CHR 0xE4, CHR 0xB8, CHR 0xAA, CHR 0xE9, CHR 0x95,
        CHR 0x9C, CHR 0xE5, CHR 0xA4, CHR 0xB4, CHR 0xE5, CHR 0xAE, CHR 0x9A, CHR 0xE4,
        CHR 0xB8, CHR 0x8B, CHR 0xE5, CHR 0x9F, CHR 0xBA, CHR 0xE8, CHR 0xB0, CHR 0x83] @
        ''\<newline>- '' @ [CHR 0xE7, CHR 0xA1, CHR 0xAE, CHR 0xE4, CHR 0xBF, CHR 0x9D,
        CHR 0xE6, CHR 0x9E, CHR 0x84, CHR 0xE5, CHR 0x9B, CHR 0xBE, CHR 0xE5, CHR 0x85,
        CHR 0xB7, CHR 0xE6, CHR 0x9C, CHR 0x89, CHR 0xE8, CHR 0xA7, CHR 0x86, CHR 0xE8,
        CHR 0xA7, CHR 0x89, CHR 0xE5, CHR 0xBC, CHR 0xA0, CHR 0xE5, CHR 0x8A, CHR 0x9B,
        CHR 0xEF, CHR 0xBC, CHR 0x8C, CHR 0xE5, CHR 0xBC, CHR 0x95, CHR 0xE5, CHR 0xAF,
        CHR 0xBC, CHR 0xE8, CHR 0xA7, CHR 0x82, CHR 0xE4, CHR 0xBC, CHR 0x97, CHR 0xE8,
        CHR 0xA7, CHR 0x86, CHR 0xE7, CHR 0xBA, CHR 0xBF]
      else
        [CHR 0xE3, CHR 0x80, CHR 0x90, CHR 0xE7, CHR 0xBB, CHR 0x93, CHR 0xE6, CHR 0x9D,
        CHR 0x9F, CHR 0xE5, CHR 0xB8, CHR 0xA7, CHR 0xE8, CHR 0xA6, CHR 0x81, CHR 0xE6,
        CHR 0xB1, CHR 0x82, CHR 0xE3, CHR 0x80, CHR 0x91] @ ''\<newline>- '' @ [CHR 0xE5,
        CHR 0xB1, CHR 0x95, CHR 0xE7, CHR 0x8E, CHR 0xB0, CHR 0xE5, CHR 0x8A, CHR 0xA8,
        CHR 0xE4, CHR 0xBD, CHR 0x9C, CHR 0xE5, CHR 0xAE, CHR 0x8C, CHR 0xE6, CHR 0x88,
        CHR 0x90, CHR 0xE5, CHR 0x90, CHR 0x8E, CHR 0xE7, CHR 0x9A, CHR 0x84, CHR 0xE6,
        CHR 0x9C, CHR 0x80, CHR 0xE7, CHR 0xBB, CHR 0x88, CHR 0xE7, CHR 0x8A, CHR 0xB6,
        CHR 0xE6, CHR 0x80, CHR 0x81] @ ''\<newline>- '' @ [CHR 0xE4, CHR 0xBA, CHR 0xBA,
        CHR 0xE7, CHR 0x89, CHR 0xA9] @ ''/'' @ [CHR 0xE7, CHR 0x89, CHR 0xA9, CHR 0xE4,
        CHR 0xBD, CHR 0x93, CHR 0xE7, CHR 0x9A, CHR 0x84, CHR 0xE7, CHR 0xBB, CHR 0x88,
        CHR 0xE7, CHR 0x82, CHR 0xB9, CHR 0xE4, CHR 0xBD, CHR 0x8D, CHR 0xE7, CHR 0xBD,
        CHR 0xAE, CHR 0xE3, CHR 0x80, CHR 0x81, CHR 0xE5, CHR 0xA7, CHR 0xBF, CHR 0xE6,
        CHR 0x80, CHR 0x81, CHR 0xE5, CHR 0x92, CHR 0x8C, CHR 0xE6, CHR 0x83, CHR 0x85,
        CHR 0xE7, CHR 0xBB, CHR 0xAA, CHR 0xE5, CHR 0x8F, CHR 0x98, CHR 0xE5, CHR 0x8C,
        CHR 0x96] @ ''\<newline>- '' @ [CHR 0xE4, CHR 0xBD, CHR 0x93, CHR 0xE7, CHR 0x8E,
        CHR 0xB0, CHR 0xE9, CHR 0x95, CHR 0x9C, CHR 0xE5, CHR 0xA4, CHR 0xB4, CHR 0xE8,
        CHR 0xBF, CHR 0x90, CHR 0xE5, CHR 0x8A, CHR 0xA8, CHR 0xE5, CHR 0xB8, CHR 0xA6,
        CHR 0xE6, CHR 0x9D, CHR 0xA5, CHR 0xE7, CHR 0x9A, CHR 0x84, CHR 0xE8, CHR 0xA7,
        CHR 0x86, CHR 0xE8, CHR 0xA7, CHR 0x92, CHR 0xE5, CHR 0x8F, CHR 0x98, CHR 0xE5,
        CHR 0x8C, CHR 0x96] @ ''\<newline>- '' @ [CHR 0xE5, CHR 0x85, CHR 0x89, CHR 0xE5,
        CHR 0xBD, CHR 0xB1, CHR 0xE5, CHR 0x92, CHR 0x8C, CHR 0xE8, CHR 0x89, CHR 0xB2,
        CHR 0xE5, CHR 0xBD, CHR 0xA9, CHR 0xE5, CHR 0x8F, CHR 0xAF, CHR 0xE4, CHR 0xBB,
        CHR 0xA5, CHR 0xE6, CHR 0x9C, CHR 0x89, CHR 0xE6, CHR 0x88, CHR 0x8F, CHR 0xE5,
        CHR 0x89, CHR 0xA7, CHR 0xE6, CHR 0x80, CHR 0xA7, CHR 0xE5, CHR 0x8F, CHR 0x98,
        CHR 0xE5, CHR 0x8C, CHR 0x96] @ ''\<newline>- '' @ [CHR 0xE6, CHR 0x9E, CHR 0x84,
        CHR 0xE5, CHR 0x9B, CHR 0xBE, CHR 0xE5, CHR 0xBA, CHR 0x94, CHR 0xE8, CHR 0xBE,
        CHR 0xBE, CHR 0xE5, CHR 0x88, CHR 0xB0, CHR 0xE8, CHR 0xA7, CHR 0x86, CHR 0xE8,
        CHR 0xA7, CHR 0x89, CHR 0xE9, CHR 0xAB, CHR 0x98, CHR 0xE6, CHR 0xBD, CHR 0xAE,
        CHR 0xE6, CHR 0x88, CHR 0x96, CHR 0xE6, CHR 0x83, CHR 0x85, CHR 0xE7, CHR 0xBB,
        CHR 0xAA, CHR 0xE9, CHR 0x87, CHR 0x8A, CHR 0xE6, CHR 0x94, CHR 0xBE, CHR 0xE7,
        CHR 0x82, CHR 0xB9])"

definition enhancedRequirements :: string where
  "enhancedRequirements =
     ''\<newline>\<newline>'' @ [CHR 0xE2, CHR 0x94, CHR 0x81, CHR 0xE2, CHR 0x94, CHR 0x81,
     CHR 0xE2, CHR 0x94, CHR 0x81, CHR 0xE2, CHR 0x94, CHR 0x81, CHR 0xE2, CHR 0x94, CHR 0x81,
     CHR 0xE2, CHR 0x94, CHR 0x81, CHR 0xE2, CHR 0x94, CHR 0x81, CHR 0xE2, CHR 0x94, CHR 0x81,
     CHR 0xE2, CHR 0x94, CHR 0x81, CHR 0xE2, CHR 0x94, CHR 0x81, CHR 0xE2, CHR 0x94, CHR 0x81,
     CHR 0xE2, CHR 0x94, CHR 0x81, CHR 0xE2, CHR 0x94, CHR 0x81, CHR 0xE2, CHR 0x94, CHR 0x81,
     CHR 0xE2, CHR 0x94, CHR 0x81, CHR 0xE2, CHR 0x94, CHR 0x81, CHR 0xE2, CHR 0x94, CHR 0x81,
     CHR 0xE2, CHR 0x94, CHR 0x81, CHR 0xE2, CHR 0x94, CHR 0x81, CHR 0xE2, CHR 0x94, CHR 0x81,
     CHR 0xE2, CHR 0x94, CHR 0x81, CHR 0xE2, CHR 0x94, CHR 0x81, CHR 0xE2, CHR 0x94, CHR 0x81,
     CHR 0xE2, CHR 0x94, CHR 0x81, CHR 0xE2, CHR 0x94, CHR 0x81, CHR 0xE2, CHR 0x94, CHR 0x81,
     CHR 0xE2, CHR 0x94, CHR 0x81, CHR 0xE2, CHR 0x94, CHR 0x81, CHR 0xE2, CHR 0x94, CHR 0x81,
     CHR 0xE2, CHR 0x94, CHR 0x81, CHR 0xE2, CHR 0x94, CHR 0x81, CHR 0xE2, CHR 0x94, CHR 0x81,
     CHR 0xE2, CHR 0x94, CHR 0x81, CHR 0xE2, CHR 0x94, CHR 0x81] @ ''\<newline>'' @ [CHR 0xE3,
     CHR 0x80, CHR 0x90, CHR 0xE6, CHR 0x8A, CHR 0x80, CHR 0xE6, CHR 0x9C, CHR 0xAF, CHR 0xE8,
     CHR 0xA7, CHR 0x84, CHR 0xE6, CHR 0xA0, CHR 0xBC, CHR 0xE3, CHR 0x80, CHR 0x91] @
     ''Technical Specifications\<newline>'' @ [CHR 0xE2, CHR 0x80, CHR 0xA2] @ '' '' @
     [CHR 0xE7, CHR 0x94, CHR 0xBB, CHR 0xE9, CHR 0x9D, CHR 0xA2, CHR 0xE6, CHR 0xAF, CHR 0x94,
     CHR 0xE4, CHR 0xBE, CHR 0x8B, CHR 0xEF, CHR 0xBC, CHR 0x9A] @ ''16:9 '' @ [CHR 0xE5,
     CHR 0xAE, CHR 0xBD, CHR 0xE5, CHR 0xB1, CHR 0x8F, CHR 0xE7, CHR 0x94, CHR 0xB5, CHR 0xE5,
     CHR 0xBD, CHR 0xB1, CHR 0xE6, CHR 0xA0, CHR 0xBC, CHR 0xE5, CHR 0xBC, CHR 0x8F] @
     ''\<newline>'' @ [CHR 0xE2, CHR 0x80, CHR 0xA2] @ '' '' @ [CHR 0xE5, CHR 0x88, CHR 0x86,
     CHR 0xE8, CHR 0xBE, CHR 0xA8, CHR 0xE7, CHR 0x8E, CHR 0x87, CHR 0xEF, CHR 0xBC, CHR 0x9A] @
     ''8K Ultra HD, photorealistic detail\<newline>'' @ [CHR 0xE2, CHR 0x80, CHR 0xA2] @ '' '' @
     [CHR 0xE9, CHR 0x95, CHR 0x9C, CHR 0xE5, CHR 0xA4, CHR 0xB4, CHR 0xE8, CHR 0xAF, CHR 0xAD,
     CHR 0xE8, CHR 0xA8, CHR 0x80, CHR 0xEF, CHR 0xBC, CHR 0x9A] @
     ''Professional cinema camera aesthetics\<newline>'' @ [CHR 0xE2, CHR 0x80, CHR 0xA2] @
     '' '' @ [CHR 0xE6, CHR 0x99, CHR 0xAF, CHR 0xE6, CHR 0xB7, CHR 0xB1, CHR 0xE6, CHR 0x8E,
     CHR 0xA7, CHR 0xE5, CHR 0x88, CHR 0xB6, CHR 0xEF, CHR 0xBC, CHR 0x9A] @
     ''Shallow depth of field for subject emphasis\<newline>\<newline>'' @ [CHR 0xE3, CHR 0x80,
     CHR 0x90, CHR 0xE8, CHR 0xA7, CHR 0x86, CHR 0xE8, CHR 0xA7, CHR 0x89, CHR 0xE7, CHR 0xBB,
     CHR 0x86, CHR 0xE8, CHR 0x8A, CHR 0x82, CHR 0xE3, CHR 0x80, CHR 0x91] @
     ''Visual Details\<newline>'' @ [CHR 0xE2, CHR 0x80, CHR 0xA2] @ '' '' @ [CHR 0xE5,
     CHR 0x85, CHR 0x89, CHR 0xE5, CHR 0xBD, CHR 0xB1, CHR 0xE5, CHR 0xB1, CHR 0x82, CHR 0xE6,
     CHR 0xAC, CHR 0xA1, CHR 0xEF, CHR 0xBC, CHR 0x9A] @
     ''Three-point lighting with dramatic shadows and highlights\<newline>'' @ [CHR 0xE2,
     CHR 0x80, CHR 0xA2] @ '' '' @ [CHR 0xE8, CHR 0x89, CHR 0xB2, CHR 0xE5, CHR 0xBD, CHR 0xA9,
     CHR 0xE9, CHR 0xA5, CHR 0xB1, CHR 0xE5, CHR 0x92, CHR 0x8C, CHR 0xE5, CHR 0xBA, CHR 0xA6,
     CHR 0xEF, CHR 0xBC, CHR 0x9A] @
     ''Rich, cinematic color grading with proper color temperature\<newline>'' @ [CHR 0xE2,
     CHR 0x80, CHR 0xA2] @ '' '' @ [CHR 0xE6, CHR 0x9D, CHR 0x90, CHR 0xE8, CHR 0xB4, CHR 0xA8,
     CHR 0xE8, CHR 0xB4, CHR 0xA8, CHR 0xE6, CHR 0x84, CHR 0x9F, CHR 0xEF, CHR 0xBC, CHR 0x9A] @
     ''Detailed surface textures, fabric wrinkles, skin pores, environmental details\<newline>'' @
     [CHR 0xE2, CHR 0x80, CHR 0xA2] @ '' '' @ [CHR 0xE5, CHR 0xA4, CHR 0xA7, CHR 0xE6, CHR 0xB0,
     CHR 0x94, CHR 0xE6, CHR 0x95, CHR 0x88, CHR 0xE6, CHR 0x9E, CHR 0x9C, CHR 0xEF, CHR 0xBC,
     CHR 0x9A] @
     ''Volumetric lighting, atmospheric haze, dust particles, realistic weather effects\<newline>\<newline>'' @
     [CHR 0xE3, CHR 0x80, CHR 0x90, CHR 0xE8, CHR 0xA7, CHR 0x92, CHR 0xE8, CHR 0x89, CHR 0xB2,
     CHR 0xE8, CHR 0xA6, CHR 0x81, CHR 0xE6, CHR 0xB1, CHR 0x82, CHR 0xE3, CHR 0x80, CHR 0x91] @
     ''Character Details (if applicable)\<newline>'' @ [CHR 0xE2, CHR 0x80, CHR 0xA2] @ '' '' @
     [CHR 0xE9, CHR 0x9D, CHR 0xA2, CHR 0xE9, CHR 0x83, CHR 0xA8, CHR 0xE8, CHR 0xA1, CHR 0xA8,
     CHR 0xE6, CHR 0x83, CHR 0x85, CHR 0xEF, CHR 0xBC, CHR 0x9A] @
     ''Micro-expressions, emotional authenticity, eye contact and gaze direction\<newline>'' @
     [CHR 0xE2, CHR 0x80, CHR 0xA2] @ '' '' @ [CHR 0xE8, CHR 0x82, CHR 0xA2, CHR 0xE4, CHR 0xBD,
     CHR 0x93, CHR 0xE8, CHR 0xAF, CHR 0xAD, CHR 0xE8, CHR 0xA8, CHR 0x80, CHR 0xEF, CHR 0xBC,
     CHR 0x9A] @ ''Natural body posture, weight distribution, muscle tension\<newline>'' @
     [CHR 0xE2, CHR 0x80, CHR 0xA2] @ '' '' @ [CHR 0xE6, CHR 0x9C, CHR 0x8D, CHR 0xE8, CHR 0xA3,
     CHR 0x85, CHR 0xE7, CHR 0xBB, CHR 0x86, CHR 0xE8, CHR 0x8A, CHR 0x82, CHR 0xEF, CHR 0xBC,
     CHR 0x9A] @
     ''Fabric movement, realistic clothing physics, detailed costume textures\<newline>'' @
     [CHR 0xE2, CHR 0x80, CHR 0xA2] @ '' '' @ [CHR 0xE6, CHR 0xAF, CHR 0x9B, CHR 0xE5, CHR 0x8F,
     CHR 0x91, CHR 0xE7, CHR 0xBB, CHR 0x86, CHR 0xE8, CHR 0x8A, CHR 0x82, CHR 0xEF, CHR 0xBC,
     CHR 0x9A] @
     ''Individual hair strands, natural hair movement and physics\<newline>\<newline>'' @
     [CHR 0xE3, CHR 0x80, CHR 0x90, CHR 0xE7, CHR 0x8E, CHR 0xAF, CHR 0xE5, CHR 0xA2, CHR 0x83,
     CHR 0xE8, CHR 0xA6, CHR 0x81, CHR 0xE6, CHR 0xB1, CHR 0x82, CHR 0xE3, CHR 0x80, CHR 0x91] @
     ''Environment Details\<newline>'' @ [CHR 0xE2, CHR 0x80, CHR 0xA2] @ '' '' @ [CHR 0xE8,
     CHR 0x83, CHR 0x8C, CHR 0xE6, CHR 0x99, CHR 0xAF, CHR 0xE5, CHR 0xB1, CHR 0x82, CHR 0xE6,
     CHR 0xAC, CHR 0xA1, CHR 0xEF, CHR 0xBC, CHR 0x9A] @
     ''Foreground, middle ground, background depth separation\<newline>'' @ [CHR 0xE2, CHR 0x80,
     CHR 0xA2] @ '' '' @ [CHR 0xE7, CHR 0xA9, CHR 0xBA, CHR 0xE9, CHR 0x97, CHR 0xB4, CHR 0xE9,
     CHR 0x80, CHR 0x8F, CHR 0xE8, CHR 0xA7, CHR 0x86, CHR 0xEF, CHR 0xBC, CHR 0x9A] @
     ''Accurate linear perspective, atmospheric perspective for depth\<newline>'' @ [CHR 0xE2,
     CHR 0x80, CHR 0xA2] @ '' '' @ [CHR 0xE7, CHR 0x8E, CHR 0xAF, CHR 0xE5, CHR 0xA2, CHR 0x83,
     CHR 0xE5, CHR 0x85, CHR 0x89, CHR 0xE5, CHR 0xBD, CHR 0xB1, CHR 0xEF, CHR 0xBC, CHR 0x9A] @
     ''Natural or artificial light sources, realistic shadow casting\<newline>'' @ [CHR 0xE2,
     CHR 0x80, CHR 0xA2] @ '' '' @ [CHR 0xE7, CHR 0xBB, CHR 0x86, CHR 0xE8, CHR 0x8A, CHR 0x82,
     CHR 0xE4, CHR 0xB8, CHR 0xB0, CHR 0xE5, CHR 0xAF, CHR 0x8C, CHR 0xE5, CHR 0xBA, CHR 0xA6,
     CHR 0xEF, CHR 0xBC, CHR 0x9A] @
     ''Environmental storytelling elements, textural variety\<newline>\<newline>'' @ [CHR 0xE3,
     CHR 0x80, CHR 0x90, CHR 0xE6, CHR 0xB0, CHR 0x9B, CHR 0xE5, CHR 0x9B, CHR 0xB4, CHR 0xE8,
     CHR 0x90, CHR 0xA5, CHR 0xE9, CHR 0x80, CHR 0xA0, CHR 0xE3, CHR 0x80, CHR 0x91] @
     ''Mood & Atmosphere\<newline>'' @ [CHR 0xE2, CHR 0x80, CHR 0xA2] @ '' '' @ [CHR 0xE6,
     CHR 0x83, CHR 0x85, CHR 0xE7, CHR 0xBB, CHR 0xAA, CHR 0xE5, CHR 0x9F, CHR 0xBA, CHR 0xE8,
     CHR 0xB0, CHR 0x83, CHR 0xEF, CHR 0xBC, CHR 0x9A] @
     ''Match the emotional tone of the scene\<newline>'' @ [CHR 0xE2, CHR 0x80, CHR 0xA2] @
     '' '' @ [CHR 0xE8, CHR 0x89, CHR 0xB2, CHR 0xE5, CHR 0xBD, CHR 0xA9, CHR 0xE5, CHR 0xBF,
     CHR 0x83, CHR 0xE7, CHR 0x90, CHR 0x86, CHR 0xEF, CHR 0xBC, CHR 0x9A] @
     ''Use color psychology to enhance narrative\<newline>'' @ [CHR 0xE2, CHR 0x80, CHR 0xA2] @
     '' '' @ [CHR 0xE8, CHR 0xA7, CHR 0x86, CHR 0xE8, CHR 0xA7, CHR 0x89, CHR 0xE8, CHR 0x8A,
     CHR 0x82, CHR 0xE5, CHR 0xA5, CHR 0x8F, CHR 0xEF, CHR 0xBC, CHR 0x9A] @
     ''Balance between calm and dynamic visual elements\<newline>'' @ [CHR 0xE2, CHR 0x80,
     CHR 0xA2] @ '' '' @ [CHR 0xE5, CHR 0x8F, CHR 0x99, CHR 0xE4, CHR 0xBA, CHR 0x8B, CHR 0xE6,
     CHR 0x9A, CHR 0x97, CHR 0xE7, CHR 0xA4, CHR 0xBA, CHR 0xEF, CHR 0xBC, CHR 0x9A] @
     ''Visual cues that hint at story progression\<newline>\<newline>'' @ [CHR 0xE2, CHR 0x94,
     CHR 0x81, CHR 0xE2, CHR 0x94, CHR 0x81, CHR 0xE2, CHR 0x94, CHR 0x81, CHR 0xE2, CHR 0x94,
     CHR 0x81, CHR 0xE2, CHR 0x94, CHR 0x81, CHR 0xE2, CHR 0x94, CHR 0x81, CHR 0xE2, CHR 0x94,
     CHR 0x81, CHR 0xE2, CHR 0x94, CHR 0x81, CHR 0xE2, CHR 0x94, CHR 0x81, CHR 0xE2, CHR 0x94,
     CHR 0x81, CHR 0xE2, CHR 0x94, CHR 0x81, CHR 0xE2, CHR 0x94, CHR 0x81, CHR 0xE2, CHR 0x94,
     CHR 0x81, CHR 0xE2, CHR 0x94, CHR 0x81, CHR 0xE2, CHR 0x94, CHR 0x81, CHR 0xE2, CHR 0x94,
     CHR 0x81, CHR 0xE2, CHR 0x94, CHR 0x81, CHR 0xE2, CHR 0x94, CHR 0x81, CHR 0xE2, CHR 0x94,
     CHR 0x81, CHR 0xE2, CHR 0x94, CHR 0x81, CHR 0xE2, CHR 0x94, CHR 0x81, CHR 0xE2, CHR 0x94,
     CHR 0x81, CHR 0xE2, CHR 0x94, CHR 0x81, CHR 0xE2, CHR 0x94, CHR 0x81, CHR 0xE2, CHR 0x94,
     CHR 0x81, CHR 0xE2, CHR 0x94, CHR 0x81, CHR 0xE2, CHR 0x94, CHR 0x81, CHR 0xE2, CHR 0x94,
     CHR 0x81, CHR 0xE2, CHR 0x94, CHR 0x81, CHR 0xE2, CHR 0x94, CHR 0x81, CHR 0xE2, CHR 0x94,
     CHR 0x81, CHR 0xE2, CHR 0x94, CHR 0x81, CHR 0xE2, CHR 0x94, CHR 0x81, CHR 0xE2, CHR 0x94,
     CHR 0x81] @ ''\<newline>'' @ [CHR 0xE3, CHR 0x80, CHR 0x90, CHR 0xE8, CHR 0xB4, CHR 0xA8,
     CHR 0xE9, CHR 0x87, CHR 0x8F, CHR 0xE4, CHR 0xBF, CHR 0x9D, CHR 0xE8, CHR 0xAF, CHR 0x81,
     CHR 0xE3, CHR 0x80, CHR 0x91] @ ''Quality Assurance\<newline>'' @ [CHR 0xE2, CHR 0x9C,
     CHR 0x93] @ '' '' @ [CHR 0xE4, CHR 0xB8, CHR 0xBB, CHR 0xE4, CHR 0xBD, CHR 0x93, CHR 0xE6,
     CHR 0xB8, CHR 0x85, CHR 0xE6, CHR 0x99, CHR 0xB0, CHR 0xEF, CHR 0xBC, CHR 0x9A] @
     ''Subject is in sharp focus with clear silhouette\<newline>'' @ [CHR 0xE2, CHR 0x9C,
     CHR 0x93] @ '' '' @ [CHR 0xE8, CHR 0x83, CHR 0x8C, CHR 0xE6, CHR 0x99, CHR 0xAF, CHR 0xE8,
     CHR 0xBF, CHR 0x87, CHR 0xE6, CHR 0xB8, CHR 0xA1, CHR 0xEF, CHR 0xBC, CHR 0x9A] @
     ''Background elements transition naturally without abrupt changes\<newline>'' @ [CHR 0xE2,
     CHR 0x9C, CHR 0x93] @ '' '' @ [CHR 0xE5, CHR 0x85, CHR 0x89, CHR 0xE5, CHR 0xBD, CHR 0xB1,
     CHR 0xE4, CHR 0xB8, CHR 0x80, CHR 0xE8, CHR 0x87, CHR 0xB4, CHR 0xEF, CHR 0xBC, CHR 0x9A] @
     ''Consistent lighting direction and quality\<newline>'' @ [CHR 0xE2, CHR 0x9C, CHR 0x93] @
     '' '' @ [CHR 0xE8, CHR 0x89, CHR 0xB2, CHR 0xE5, CHR 0xBD, CHR 0xA9, CHR 0xE5, CHR 0x8D,
     CHR 0x8F, CHR 0xE8, CHR 0xB0, CHR 0x83, CHR 0xEF, CHR 0xBC, CHR 0x9A] @
     ''Harmonious color palette throughout the frame\<newline>'' @ [CHR 0xE2, CHR 0x9C,
     CHR 0x93] @ '' '' @ [CHR 0xE6, CHR 0x9E, CHR 0x84, CHR 0xE5, CHR 0x9B, CHR 0xBE, CHR 0xE5,
     CHR 0xB9, CHR 0xB3, CHR 0xE8, CHR 0xA1, CHR 0xA1, CHR 0xEF, CHR 0xBC, CHR 0x9A] @
     ''Visual weight distribution follows rule of thirds or golden ratio\<newline>'' @
     [CHR 0xE2, CHR 0x9C, CHR 0x93] @ '' '' @ [CHR 0xE5, CHR 0x8A, CHR 0xA8, CHR 0xE4, CHR 0xBD,
     CHR 0x9C, CHR 0xE8, CHR 0xBF, CHR 0x9E, CHR 0xE8, CHR 0xB4, CHR 0xAF, CHR 0xE6, CHR 0x80,
     CHR 0xA7, CHR 0xEF, CHR 0xBC, CHR 0x9A] @
     ''Frame composition supports smooth transition to next frame''"

definition buildKeyframePromptEnhanced ::
  "string \<Rightarrow> string \<Rightarrow> string \<Rightarrow> frameType \<Rightarrow> string" where
  "buildKeyframePromptEnhanced basePrompt style movement frameType =
     (let stylePrompt = stylePromptOf style;
          cameraGuide = getCameraMovementCompositionGuide movement frameType
      in basePrompt @ enhancedStyleHeader @ stylePrompt @ enhancedMovementHeader @ movement
         @ '' ('' @ enhancedRoleName frameType @ '')'' @ enhancedGuideHeader @ cameraGuide
         @ ''\<newline>\<newline>'' @ frameSpecificGuide frameType @ enhancedRequirements)"

text \<open>
  Every occurrence of the style marker starts with two line breaks and a \<open>V\<close>. The scanner
  reads a text from the left and ends in state \<open>3\<close> once it has met that start; its
  states \<open>1\<close> and \<open>2\<close> count the line breaks just read.
\<close>

fun scanStep :: "nat \<Rightarrow> char \<Rightarrow> nat" where
  "scanStep q c =
     (if q = 3 then 3
      else if c = CHR ''\<newline>'' then (if q = 0 then 1 else 2)
      else if c = CHR ''V'' \<and> q = 2 then 3
      else 0)"

definition scan :: "nat \<Rightarrow> string \<Rightarrow> nat" where
  "scan q s = foldl scanStep q s"

subsection \<open>The component's surroundings\<close>

text \<open>
  The handlers of \<^verbatim>\<open>index.tsx\<close> act on the project held by the parent (reached only through
  \<^verbatim>\<open>updateProject\<close>), raise alerts, write to the console, set the batch progress and call
  the generation services. The record \<open>world\<close> holds all of that; the calls made are kept
  in a log, an image request together with the id of the shot it was issued for. The record \<open>env\<close> is what the surroundings answer: the outcome of the \<open>n\<close>-th
  service call, the optional credential handler and the answer to \<^verbatim>\<open>window.confirm\<close>.
\<close>

datatype error = Error (message: string)

datatype alert =
    PleaseGenerateStartFrame
  | PreviousEndFrameMissing
  | GenerationFailed string
  | VideoGenerationFailed string
  | PleaseSelectImageFile
  | ReadFileFailed

datatype consoleEntry = Logged error | FailedToGenerateForShot string error

datatype batchMessage = RegeneratingAll | GeneratingMissing | GeneratingShot nat nat

record progress =
  current :: nat
  total :: nat
  progress_message :: batchMessage

record env =
  generateImage :: "nat \<Rightarrow> string \<Rightarrow> string list \<Rightarrow> error + string"
  generateVideo :: "nat \<Rightarrow> string \<Rightarrow> string \<Rightarrow> string option \<Rightarrow> videoModel \<Rightarrow> error + string"
  onApiKeyError :: "(error \<Rightarrow> bool) option"
  windowConfirm :: bool

record world =
  project :: projectState
  clock :: nat
  alerts :: "alert list"
  console :: "consoleEntry list"
  imageRequests :: "(string \<times> string \<times> string list) list"
  videoRequests :: "(string \<times> string \<times> string option \<times> videoModel) list"
  batchProgress :: "progress option"

definition updateProject :: "(projectState \<Rightarrow> projectState) \<Rightarrow> world \<Rightarrow> world" where
  "updateProject f w = w\<lparr>project := f (project w)\<rparr>"

definition raiseAlert :: "alert \<Rightarrow> world \<Rightarrow> world" where
  "raiseAlert a w = w\<lparr>alerts := alerts w @ [a]\<rparr>"

definition consoleError :: "consoleEntry \<Rightarrow> world \<Rightarrow> world" where
  "consoleError c w = w\<lparr>console := console w @ [c]\<rparr>"

definition setBatchProgress :: "progress option \<Rightarrow> world \<Rightarrow> world" where
  "setBatchProgress p w = w\<lparr>batchProgress := p\<rparr>"

definition delay :: "nat \<Rightarrow> world \<Rightarrow> world" where
  "delay ms w = w\<lparr>clock := clock w + ms\<rparr>"

text \<open>\<^verbatim>\<open>onApiKeyError && onApiKeyError(e)\<close>.\<close>

definition apiKeyErrorHandled :: "env \<Rightarrow> error \<Rightarrow> bool" where
  "apiKeyErrorHandled e err = (case onApiKeyError e of None \<Rightarrow> False | Some h \<Rightarrow> h err)"

text \<open>\<^verbatim>\<open>updateShot\<close>: a functional update of every shot that carries the id.\<close>

definition updateShot :: "string \<Rightarrow> (shot \<Rightarrow> shot) \<Rightarrow> world \<Rightarrow> world" where
  "updateShot shotId transform =
     updateProject (\<lambda>prevProject.
       prevProject\<lparr>shots := map (\<lambda>s. if shot_id s = shotId then transform s else s)
                                 (shots prevProject)\<rparr>)"

definition frameTypeName :: "frameType \<Rightarrow> string" where
  "frameTypeName t = (if t = Start then ''start'' else ''end'')"

subsection \<open>Keyframe generation\<close>

text \<open>\<^verbatim>\<open>existingKf?.id || generateId(`kf-${shot.id}-${type}`)\<close>.\<close>

definition keyframeIdFor :: "shot \<Rightarrow> frameType \<Rightarrow> nat \<Rightarrow> string" where
  "keyframeIdFor sh t now =
     (case findKeyframe sh t of
        Some k \<Rightarrow> if kf_id k \<noteq> [] then kf_id k
                  else generateId (''kf-'' @ shot_id sh @ ''-'' @ frameTypeName t) now
      | None \<Rightarrow> generateId (''kf-'' @ shot_id sh @ ''-'' @ frameTypeName t) now)"

text \<open>The base prompt: extracted from the existing prompt when there is one.\<close>

definition basePromptFor :: "shot \<Rightarrow> frameType \<Rightarrow> string" where
  "basePromptFor sh t =
     (case findKeyframe sh t of
        Some k \<Rightarrow> if visualPrompt k \<noteq> [] then extractBasePrompt (visualPrompt k) (actionSummary sh)
                  else actionSummary sh
      | None \<Rightarrow> actionSummary sh)"

text \<open>\<^verbatim>\<open>project.visualStyle || project.scriptData?.visualStyle || 'live-action'\<close>.\<close>

definition visualStyleOf :: "projectState \<Rightarrow> string" where
  "visualStyleOf p =
     (if truthy (visualStyle p) then the (visualStyle p)
      else case project_scriptData p of
             None \<Rightarrow> ''live-action''
           | Some sd \<Rightarrow> if truthy (sd_visualStyle sd) then the (sd_visualStyle sd)
                        else ''live-action'')"

definition keyframePromptFor :: "projectState \<Rightarrow> shot \<Rightarrow> frameType \<Rightarrow> string" where
  "keyframePromptFor p sh t =
     buildKeyframePrompt (basePromptFor sh t) (visualStyleOf p) (cameraMovement sh) t"

text \<open>
  The same two lines of the handler, linked with the later \<^verbatim>\<open>utils.ts\<close>: the stored
  prompt goes through \<^verbatim>\<open>extractBasePrompt\<close> and the result through the enhanced
  \<^verbatim>\<open>buildKeyframePrompt\<close>.
\<close>

definition keyframePromptForEnhanced :: "projectState \<Rightarrow> shot \<Rightarrow> frameType \<Rightarrow> string" where
  "keyframePromptForEnhanced p sh t =
     buildKeyframePromptEnhanced (basePromptFor sh t) (visualStyleOf p) (cameraMovement sh) t"

text \<open>The three project updates of \<^verbatim>\<open>handleGenerateKeyframe\<close> write a whole new keyframe.\<close>

definition putKeyframe :: "string \<Rightarrow> frameType \<Rightarrow> keyframe \<Rightarrow> world \<Rightarrow> world" where
  "putKeyframe shotId t kf =
     updateProject (\<lambda>prevProject.
       prevProject\<lparr>shots := map (\<lambda>s. if shot_id s \<noteq> shotId then s
                                      else updateKeyframeInShot s t kf)
                                 (shots prevProject)\<rparr>)"

text \<open>
  \<^verbatim>\<open>handleGenerateKeyframe(shot, type)\<close> runs in two parts, before and after the
  \<^verbatim>\<open>await\<close> on the image service. The arguments \<open>p\<close> and \<open>sh\<close> are the project and the
  shot the closure captured; \<open>project w\<close> is the state the updates apply to. The part
  before the \<^verbatim>\<open>await\<close> stores the keyframe as generating and issues the request.
\<close>

definition generateKeyframeBegin ::
  "projectState \<Rightarrow> shot \<Rightarrow> frameType \<Rightarrow> world \<Rightarrow> (string \<times> string \<times> string list) \<times> world" where
  "generateKeyframeBegin p sh t w =
     (let kfId = keyframeIdFor sh t (clock w);
          prompt = keyframePromptFor p sh t;
          w1 = putKeyframe (shot_id sh) t (createKeyframe kfId t prompt None Generating) w;
          referenceImages = getRefImagesForShot sh (project_scriptData p)
      in ((kfId, prompt, referenceImages),
          w1\<lparr>imageRequests := imageRequests w1 @ [(shot_id sh, prompt, referenceImages)]\<rparr>))"

text \<open>
  The part after the \<^verbatim>\<open>await\<close>, on the answer \<open>r\<close> of the service. The first component
  of the result is the error the promise of \<^verbatim>\<open>handleGenerateKeyframe\<close> rejects with: the
  \<^verbatim>\<open>catch\<close> block takes every error of the service, so it is \<open>None\<close> on each path.
\<close>

definition generateKeyframeSettle ::
  "env \<Rightarrow> shot \<Rightarrow> frameType \<Rightarrow> string \<Rightarrow> string \<Rightarrow> error + string \<Rightarrow> world
     \<Rightarrow> error option \<times> world" where
  "generateKeyframeSettle e sh t kfId prompt r w =
     (case r of
        Inr url \<Rightarrow>
          (None, putKeyframe (shot_id sh) t (createKeyframe kfId t prompt (Some url) Completed) w)
      | Inl err \<Rightarrow>
          (let w3 = putKeyframe (shot_id sh) t (createKeyframe kfId t prompt None Failed)
                      (consoleError (Logged err) w)
           in if apiKeyErrorHandled e err then (None, w3)
              else (None, raiseAlert (GenerationFailed (message err)) w3)))"

definition handleGenerateKeyframe ::
  "env \<Rightarrow> projectState \<Rightarrow> shot \<Rightarrow> frameType \<Rightarrow> world \<Rightarrow> error option \<times> world" where
  "handleGenerateKeyframe e p sh t w =
     (case generateKeyframeBegin p sh t w of
        ((kfId, prompt, referenceImages), w2) \<Rightarrow>
          generateKeyframeSettle e sh t kfId prompt
            (generateImage e (length (imageRequests w)) prompt referenceImages) w2)"

subsection \<open>Upload, copy and edit\<close>

record uploadedFile =
  file_type :: string
  readAsDataURL :: "error + string"

text \<open>\<^verbatim>\<open>handleUploadKeyframeImage\<close>, from the \<^verbatim>\<open>onchange\<close> event on; \<open>f\<close> is \<^verbatim>\<open>files?.[0]\<close>.\<close>

definition handleUploadKeyframeImage ::
  "shot \<Rightarrow> frameType \<Rightarrow> uploadedFile option \<Rightarrow> world \<Rightarrow> world" where
  "handleUploadKeyframeImage sh t f w =
     (case f of
        None \<Rightarrow> w
      | Some fl \<Rightarrow>
          if \<not> prefix ''image/'' (file_type fl) then raiseAlert PleaseSelectImageFile w
          else case readAsDataURL fl of
                 Inl err \<Rightarrow> raiseAlert ReadFileFailed w
               | Inr base64Url \<Rightarrow>
                   (let existingKf = findKeyframe sh t;
                        kfId = keyframeIdFor sh t (clock w);
                        prompt = (case existingKf of
                                    None \<Rightarrow> actionSummary sh
                                  | Some k \<Rightarrow> if visualPrompt k \<noteq> [] then visualPrompt k
                                              else actionSummary sh)
                    in putKeyframe (shot_id sh) t
                         (createKeyframe kfId t prompt (Some base64Url) Completed) w))"

text \<open>
  \<^verbatim>\<open>handleCopyPreviousEndFrame\<close>; \<open>p\<close> is the captured project and \<open>activeShotId\<close> the
  component's state. \<^verbatim>\<open>activeShot\<close> is \<^verbatim>\<open>project.shots[activeShotIndex]\<close>, undefined when
  \<^verbatim>\<open>findIndex\<close> gives \<open>-1\<close>.
\<close>

definition handleCopyPreviousEndFrame :: "projectState \<Rightarrow> string option \<Rightarrow> world \<Rightarrow> world" where
  "handleCopyPreviousEndFrame p activeShotId w =
     (case findIndex (\<lambda>s. Some (shot_id s) = activeShotId) (shots p) of
        None \<Rightarrow> w
      | Some activeShotIndex \<Rightarrow>
          if activeShotIndex = 0 then w
          else (let activeShot = shots p ! activeShotIndex;
                    previousShot = shots p ! (activeShotIndex - 1)
                in case findKeyframe previousShot End of
                     None \<Rightarrow> raiseAlert PreviousEndFrameMissing w
                   | Some previousEndKf \<Rightarrow>
                       if \<not> truthy (imageUrl previousEndKf)
                       then raiseAlert PreviousEndFrameMissing w
                       else (let newStartKfId = keyframeIdFor activeShot Start (clock w)
                             in updateShot (shot_id activeShot)
                                  (\<lambda>s. updateKeyframeInShot s Start
                                         (createKeyframe newStartKfId Start
                                            (visualPrompt previousEndKf)
                                            (imageUrl previousEndKf) Completed)) w)))"

datatype editKind = ActionEdit | KeyframeEdit | VideoEdit

record editModal =
  edit_kind :: editKind
  edit_value :: string
  edit_frameType :: "frameType option"

text \<open>\<^verbatim>\<open>handleSaveEdit\<close>; the keyframe case is the prompt edit.\<close>

definition handleSaveEdit ::
  "projectState \<Rightarrow> string option \<Rightarrow> editModal option \<Rightarrow> world \<Rightarrow> world" where
  "handleSaveEdit p activeShotId em w =
     (case (em, findIndex (\<lambda>s. Some (shot_id s) = activeShotId) (shots p)) of
        (Some m, Some activeShotIndex) \<Rightarrow>
          (let activeShot = shots p ! activeShotIndex
           in case edit_kind m of
                ActionEdit \<Rightarrow>
                  updateShot (shot_id activeShot) (\<lambda>s. s\<lparr>actionSummary := edit_value m\<rparr>) w
              | KeyframeEdit \<Rightarrow>
                  updateShot (shot_id activeShot)
                    (\<lambda>s. s\<lparr>keyframes :=
                          Some (case keyframes s of
                                  None \<Rightarrow> []
                                | Some kfs \<Rightarrow>
                                    map (\<lambda>kf. if Some (kf_type kf) = edit_frameType m
                                              then kf\<lparr>visualPrompt := edit_value m\<rparr> else kf)
                                      kfs)\<rparr>) w
              | VideoEdit \<Rightarrow>
                  updateShot (shot_id activeShot)
                    (\<lambda>s. s\<lparr>interval :=
                          (case interval s of
                             None \<Rightarrow> None
                           | Some iv \<Rightarrow> Some (iv\<lparr>videoPrompt := Some (edit_value m)\<rparr>))\<rparr>) w)
      | _ \<Rightarrow> w)"

subsection \<open>Video generation\<close>

text \<open>\<^verbatim>\<open>project.language || project.scriptData?.language || ...\<close>, the default being the
  word \<open>zhongwen\<close>.\<close>

definition projectLanguageOf :: "projectState \<Rightarrow> string" where
  "projectLanguageOf p =
     (if truthy (language p) then the (language p)
      else case project_scriptData p of
             None \<Rightarrow> zhongwen
           | Some sd \<Rightarrow> if truthy (sd_language sd) then the (sd_language sd) else zhongwen)"

definition newInterval ::
  "string \<Rightarrow> keyframe \<Rightarrow> keyframe option \<Rightarrow> string \<Rightarrow> string option \<Rightarrow> status \<Rightarrow> interval" where
  "newInterval intervalId sKf eKf prompt url st =
     \<lparr>interval_id = intervalId, startKeyframeId = kf_id sKf,
      endKeyframeId = (case eKf of None \<Rightarrow> [] | Some k \<Rightarrow> kf_id k),
      duration = 10, motionStrength = 5, videoPrompt = Some prompt, videoUrl = url,
      interval_status = st\<rparr>"

text \<open>\<^verbatim>\<open>handleGenerateVideo(shot)\<close>; the first test is the validation of the start frame.\<close>

definition handleGenerateVideo :: "env \<Rightarrow> projectState \<Rightarrow> shot \<Rightarrow> world \<Rightarrow> world" where
  "handleGenerateVideo e p sh w =
     (let eKf = findKeyframe sh End
      in case findKeyframe sh Start of
           None \<Rightarrow> raiseAlert PleaseGenerateStartFrame w
         | Some sKf \<Rightarrow>
             if \<not> truthy (imageUrl sKf) then raiseAlert PleaseGenerateStartFrame w
             else
               (let selectedModel = (case videoModel sh of None \<Rightarrow> Sora2 | Some m \<Rightarrow> m);
                    prompt = buildVideoPrompt (actionSummary sh) (cameraMovement sh) selectedModel
                               (projectLanguageOf p);
                    intervalId =
                      (case interval sh of
                         Some iv \<Rightarrow> if interval_id iv \<noteq> [] then interval_id iv
                                    else generateId (''int-'' @ shot_id sh) (clock w)
                       | None \<Rightarrow> generateId (''int-'' @ shot_id sh) (clock w));
                    w1 = updateShot (shot_id sh)
                           (\<lambda>s. s\<lparr>interval :=
                                 Some (case interval s of
                                         Some iv \<Rightarrow> iv\<lparr>interval_status := Generating,
                                                        videoPrompt := Some prompt\<rparr>
                                       | None \<Rightarrow> newInterval intervalId sKf eKf prompt None
                                                   Generating)\<rparr>) w;
                    w2 = w1\<lparr>videoRequests := videoRequests w1
                              @ [(prompt, the (imageUrl sKf), imageUrlOf eKf, selectedModel)]\<rparr>
                in case generateVideo e (length (videoRequests w1)) prompt (the (imageUrl sKf))
                          (imageUrlOf eKf) selectedModel of
                     Inr url \<Rightarrow>
                       updateShot (shot_id sh)
                         (\<lambda>s. s\<lparr>interval :=
                               Some (case interval s of
                                       Some iv \<Rightarrow> iv\<lparr>videoUrl := Some url,
                                                      interval_status := Completed\<rparr>
                                     | None \<Rightarrow> newInterval intervalId sKf eKf prompt (Some url)
                                                 Completed)\<rparr>) w2
                   | Inl err \<Rightarrow>
                       (let w3 = updateShot (shot_id sh)
                                   (\<lambda>s. s\<lparr>interval :=
                                         (case interval s of
                                            Some iv \<Rightarrow> Some (iv\<lparr>interval_status := Failed\<rparr>)
                                          | None \<Rightarrow> None)\<rparr>)
                                   (consoleError (Logged err) w2)
                        in if apiKeyErrorHandled e err then w3
                           else raiseAlert (VideoGenerationFailed (message err)) w3)))"

subsection \<open>Batch generation of start frames\<close>

definition hasStartImage :: "shot \<Rightarrow> bool" where
  "hasStartImage s = truthy (imageUrlOf (findKeyframe s Start))"

definition allStartFramesGenerated :: "projectState \<Rightarrow> bool" where
  "allStartFramesGenerated p = (shots p \<noteq> [] \<and> list_all hasStartImage (shots p))"

definition batchGenerateDelay :: nat where
  "batchGenerateDelay = 3000"

text \<open>
  \<^verbatim>\<open>shotsToProcess\<close>; \<open>None\<close> is the return after a declined \<^verbatim>\<open>window.confirm\<close>.
\<close>

definition shotsToProcess :: "env \<Rightarrow> projectState \<Rightarrow> shot list option" where
  "shotsToProcess e p =
     (if allStartFramesGenerated p
      then (if \<not> windowConfirm e then None else Some (shots p))
      else Some (filter (\<lambda>s. \<not> hasStartImage s) (shots p)))"

text \<open>
  The \<^verbatim>\<open>for\<close> loop, from index \<open>i\<close> on. The \<^verbatim>\<open>catch\<close> block runs when the promise of
  \<^verbatim>\<open>handleGenerateKeyframe\<close> rejects.
\<close>

fun batchLoop :: "env \<Rightarrow> projectState \<Rightarrow> nat \<Rightarrow> nat \<Rightarrow> shot list \<Rightarrow> world \<Rightarrow> world" where
  "batchLoop e p n i [] w = setBatchProgress None w"
| "batchLoop e p n i (sh # rest) w =
     (let w1 = (if i > 0 then delay batchGenerateDelay w else w);
          w2 = setBatchProgress
                 (Some \<lparr>current = i + 1, total = n,
                        progress_message = GeneratingShot (i + 1) n\<rparr>) w1
      in case handleGenerateKeyframe e p sh Start w2 of
           (None, w3) \<Rightarrow> batchLoop e p n (i + 1) rest w3
         | (Some err, w3) \<Rightarrow>
             (let w4 = consoleError (FailedToGenerateForShot (shot_id sh) err) w3
              in if apiKeyErrorHandled e err then setBatchProgress None w4
                 else batchLoop e p n (i + 1) rest w4))"

definition handleBatchGenerateImages :: "env \<Rightarrow> projectState \<Rightarrow> world \<Rightarrow> world" where
  "handleBatchGenerateImages e p w =
     (case shotsToProcess e p of
        None \<Rightarrow> w
      | Some todo \<Rightarrow>
          if todo = [] then w
          else batchLoop e p (length todo) 0 todo
                 (setBatchProgress
                    (Some \<lparr>current = 0, total = length todo,
                           progress_message =
                             (if allStartFramesGenerated p then RegeneratingAll
                              else GeneratingMissing)\<rparr>) w))"

subsection \<open>The reference resolver as the specification words it\<close>

text \<open>
  The scene's image first, when present; then one image at most for each character id, in
  the shot's order: the selected variation's image when there is one, else the base image.
\<close>

definition sceneReference :: "shot \<Rightarrow> scriptData \<Rightarrow> string list" where
  "sceneReference sh sd =
     (case find (\<lambda>s. scene_id s = sceneId sh) (scenes sd) of
        None \<Rightarrow> []
      | Some s \<Rightarrow> (case scene_referenceImage s of
                     None \<Rightarrow> []
                   | Some img \<Rightarrow> if img = [] then [] else [img]))"

definition selectedVariationImage :: "shot \<Rightarrow> character \<Rightarrow> string option" where
  "selectedVariationImage sh c =
     (case characterVariations sh of
        None \<Rightarrow> None
      | Some m \<Rightarrow>
          (case map_of m (character_id c) of
             None \<Rightarrow> None
           | Some varId \<Rightarrow>
               if varId = [] then None
               else (case variations c of
                       None \<Rightarrow> None
                     | Some vs \<Rightarrow>
                         (case find (\<lambda>v. variation_id v = varId) vs of
                            None \<Rightarrow> None
                          | Some v \<Rightarrow> variation_referenceImage v))))"

definition characterReference :: "shot \<Rightarrow> scriptData \<Rightarrow> string \<Rightarrow> string list" where
  "characterReference sh sd charId =
     (case find (\<lambda>c. character_id c = charId) (sd_characters sd) of
        None \<Rightarrow> []
      | Some c \<Rightarrow>
          if truthy (selectedVariationImage sh c) then [the (selectedVariationImage sh c)]
          else if truthy (character_referenceImage c) then [the (character_referenceImage c)]
          else [])"

definition resolveReferences :: "shot \<Rightarrow> scriptData option \<Rightarrow> string list" where
  "resolveReferences sh scriptData =
     (case scriptData of
        None \<Rightarrow> []
      | Some sd \<Rightarrow>
          sceneReference sh sd
          @ concat (map (characterReference sh sd)
                      (case characters sh of None \<Rightarrow> [] | Some cs \<Rightarrow> cs)))"

subsection \<open>Repeated regeneration\<close>

text \<open>
  Pressing the generate button \<open>n\<close> times on the shot with id \<open>sid\<close>: each press runs
  \<^verbatim>\<open>handleGenerateKeyframe\<close> on the shot and the project as rendered at that moment.
\<close>

fun regenerate :: "env \<Rightarrow> string \<Rightarrow> frameType \<Rightarrow> nat \<Rightarrow> world \<Rightarrow> world" where
  "regenerate e sid t 0 w = w"
| "regenerate e sid t (Suc n) w =
     (let w' = regenerate e sid t n w
      in case find (\<lambda>s. shot_id s = sid) (shots (project w')) of
           None \<Rightarrow> w'
         | Some sh \<Rightarrow> snd (handleGenerateKeyframe e (project w') sh t w'))"

text \<open>The prompt stored for the keyframe of role \<open>t\<close> of the shot with id \<open>sid\<close>.\<close>

definition storedPrompt :: "string \<Rightarrow> frameType \<Rightarrow> world \<Rightarrow> string option" where
  "storedPrompt sid t w =
     (case find (\<lambda>s. shot_id s = sid) (shots (project w)) of
        None \<Rightarrow> None
      | Some sh \<Rightarrow> map_option visualPrompt (findKeyframe sh t))"

subsection \<open>The batch loop of the older component\<close>

text \<open>
  The older, single-file component has the generation written out inside the loop of its
  \<^verbatim>\<open>handleBatchGenerateImages\<close>: the service is called in the loop's own \<^verbatim>\<open>try\<close> block,
  the finished keyframe is written into the local copy \<^verbatim>\<open>currentShots\<close>, and the project
  is set to that copy.
\<close>

fun legacyBatchLoop ::
  "env \<Rightarrow> projectState \<Rightarrow> nat \<Rightarrow> nat \<Rightarrow> shot list \<Rightarrow> shot list \<Rightarrow> world \<Rightarrow> world" where
  "legacyBatchLoop e p n i [] currentShots w = setBatchProgress None w"
| "legacyBatchLoop e p n i (sh # rest) currentShots w =
     (let w1 = (if i > 0 then delay 3000 w else w);
          w2 = setBatchProgress
                 (Some \<lparr>current = i + 1, total = n,
                        progress_message = GeneratingShot (i + 1) n\<rparr>) w1;
          existingKf = findKeyframe sh Start;
          prompt0 = (case existingKf of
                       None \<Rightarrow> actionSummary sh
                     | Some k \<Rightarrow> if visualPrompt k \<noteq> [] then visualPrompt k
                                 else actionSummary sh);
          kfId = keyframeIdFor sh Start (clock w2);
          prompt = prompt0 @ ''\<newline>\<newline>Visual Style: '' @ stylePromptOf (visualStyleOf p)
                   @ ''\<newline>\<newline>Visual Requirements: High definition, cinematic composition, 16:9 widescreen format.'';
          referenceImages = getRefImagesForShot sh (project_scriptData p);
          w3 = w2\<lparr>imageRequests := imageRequests w2 @ [(shot_id sh, prompt, referenceImages)]\<rparr>
      in case generateImage e (length (imageRequests w2)) prompt referenceImages of
           Inr url \<Rightarrow>
             (let currentShots' =
                    map (\<lambda>s. if shot_id s \<noteq> shot_id sh then s
                              else updateKeyframeInShot s Start
                                     (createKeyframe kfId Start prompt (Some url) Completed))
                      currentShots
              in legacyBatchLoop e p n (i + 1) rest currentShots'
                   (updateProject (\<lambda>prev. prev\<lparr>shots := currentShots'\<rparr>) w3))
         | Inl err \<Rightarrow>
             (let w4 = consoleError (FailedToGenerateForShot (shot_id sh) err) w3
              in if apiKeyErrorHandled e err then setBatchProgress None w4
                 else legacyBatchLoop e p n (i + 1) rest currentShots w4))"

definition legacyHandleBatchGenerateImages :: "env \<Rightarrow> projectState \<Rightarrow> world \<Rightarrow> world" where
  "legacyHandleBatchGenerateImages e p w =
     (case shotsToProcess e p of
        None \<Rightarrow> w
      | Some todo \<Rightarrow>
          if todo = [] then w
          else legacyBatchLoop e p (length todo) 0 todo (shots p)
                 (setBatchProgress
                    (Some \<lparr>current = 0, total = length todo,
                           progress_message =
                             (if allStartFramesGenerated p then RegeneratingAll
                              else GeneratingMissing)\<rparr>) w))"

subsection \<open>Keyframe operations\<close>

text \<open>
  The operations that write keyframes, as steps on the world. Generation is there as a
  whole and as its two parts, so that a sequence of steps can place other operations
  between the request and its answer. Each step carries what its closure captured.
\<close>

datatype keyframeOp =
    GenerateBegin projectState shot frameType
  | GenerateSettle env shot frameType string string "error + string"
  | Generate env projectState shot frameType
  | Upload shot frameType "uploadedFile option"
  | CopyPreviousEndFrame projectState "string option"
  | EditPrompt projectState "string option" "editModal option"

fun applyOp :: "keyframeOp \<Rightarrow> world \<Rightarrow> world" where
  "applyOp (GenerateBegin p sh t) w = snd (generateKeyframeBegin p sh t w)"
| "applyOp (GenerateSettle e sh t kfId prompt r) w =
     snd (generateKeyframeSettle e sh t kfId prompt r w)"
| "applyOp (Generate e p sh t) w = snd (handleGenerateKeyframe e p sh t w)"
| "applyOp (Upload sh t f) w = handleUploadKeyframeImage sh t f w"
| "applyOp (CopyPreviousEndFrame p a) w = handleCopyPreviousEndFrame p a w"
| "applyOp (EditPrompt p a em) w = handleSaveEdit p a em w"

definition runOps :: "keyframeOp list \<Rightarrow> world \<Rightarrow> world" where
  "runOps ops w = foldl (\<lambda>w' op. applyOp op w') w ops"

text \<open>\<^verbatim>\<open>shot.keyframes || []\<close>.\<close>

definition keyframesOf :: "shot \<Rightarrow> keyframe list" where
  "keyframesOf s = (case keyframes s of None \<Rightarrow> [] | Some kfs \<Rightarrow> kfs)"

text \<open>The invariant of a keyframe: it has an image exactly when it is completed.\<close>

definition keyframeConsistent :: "keyframe \<Rightarrow> bool" where
  "keyframeConsistent k \<longleftrightarrow> ((imageUrl k \<noteq> None) = (kf_status k = Completed))"

definition projectConsistent :: "projectState \<Rightarrow> bool" where
  "projectConsistent p \<longleftrightarrow> list_all (\<lambda>s. list_all keyframeConsistent (keyframesOf s)) (shots p)"

subsection \<open>Shots a run leaves alone\<close>

text \<open>What a run leaves alone: the shots whose id is outside \<open>S\<close>, position by position.\<close>

definition onlyTouches :: "string set \<Rightarrow> world \<Rightarrow> world \<Rightarrow> bool" where
  "onlyTouches S w w' \<longleftrightarrow>
     map shot_id (shots (project w')) = map shot_id (shots (project w))
     \<and> (\<forall>j < length (shots (project w)).
           shot_id (shots (project w) ! j) \<notin> S \<longrightarrow> shots (project w') ! j = shots (project w) ! j)"

subsection \<open>Nine-grid panel selection\<close>

text \<open>\<^verbatim>\<open>NINE_GRID.panelCount\<close> of \<^verbatim>\<open>constants.ts\<close>.\<close>

definition panelCount :: nat where
  "panelCount = 9"

text \<open>A rectangle of the composite image; lengths are rational, so that a third is exact.\<close>

record rect =
  rect_x :: rat
  rect_y :: rat
  rect_width :: rat
  rect_height :: rat

text \<open>
  Modelled from the spec: the helper that cuts the selected panel out of the composite
  image (what \<^verbatim>\<open>onSelectPanel\<close> of \<^verbatim>\<open>NineGridPreview.tsx\<close> leads to) is not among the
  sources; the preview itself only lays nine cells over the image in a three by three
  grid. Section 4.8 of the specification gives the rectangle: row \<open>index div 3\<close>, column
  \<open>index mod 3\<close>, each cell one third of the width and of the height.
\<close>

definition selectPanelRect :: "rat \<Rightarrow> rat \<Rightarrow> nat \<Rightarrow> rect" where
  "selectPanelRect width height panelIndex =
     (let row = panelIndex div 3;
          col = panelIndex mod 3;
          cellWidth = width / 3;
          cellHeight = height / 3
      in \<lparr>rect_x = of_nat col * cellWidth, rect_y = of_nat row * cellHeight,
          rect_width = cellWidth, rect_height = cellHeight\<rparr>)"

subsection \<open>Scenarios\<close>

text \<open>
  Concrete inputs: a shot without keyframes, the two adjacent shots of the continuity
  scenario (the first with a completed end keyframe \<open>img://end1\<close>), a world around them,
  a service that answers every request, and one that rejects every request with an error
  the credential handler reports as handled.
\<close>

definition blankShot :: "string \<Rightarrow> string \<Rightarrow> shot" where
  "blankShot sid summary =
     \<lparr>shot_id = sid, sceneId = ''scene1'', actionSummary = summary,
      cameraMovement = ''Pan Left Shot'', characters = Some [], characterVariations = None,
      keyframes = None, interval = None, videoModel = None\<rparr>"

definition scenarioS1 :: shot where
  "scenarioS1 =
     (blankShot ''S1'' ''A hero walks'')
       \<lparr>keyframes := Some [createKeyframe ''kf-S1-end-1'' End ''The hero stops''
                            (Some ''img://end1'') Completed]\<rparr>"

definition scenarioS2 :: shot where
  "scenarioS2 = blankShot ''S2'' ''The hero looks back''"

text \<open>
  The second shot after one generation of its start frame with the enhanced template.
\<close>

definition scenarioS2Generated :: shot where
  "scenarioS2Generated =
     scenarioS2
       \<lparr>keyframes := Some [createKeyframe ''kf-S2-start-1'' Start
                            (buildKeyframePromptEnhanced ''The hero looks back'' ''anime''
                               ''Pan Left Shot'' Start)
                            (Some ''img://1'') Completed]\<rparr>"

definition scenarioProject :: projectState where
  "scenarioProject =
     \<lparr>shots = [scenarioS1, scenarioS2], project_scriptData = None,
      visualStyle = Some ''anime'', language = Some ''English''\<rparr>"

definition worldOf :: "projectState \<Rightarrow> world" where
  "worldOf p =
     \<lparr>project = p, clock = 1700000000000, alerts = [], console = [], imageRequests = [],
      videoRequests = [], batchProgress = None\<rparr>"

definition answeringEnv :: env where
  "answeringEnv =
     \<lparr>generateImage = (\<lambda>n prompt refs. Inr ''img://1''),
      generateVideo = (\<lambda>n prompt startImage endImage model. Inr ''vid://1''),
      onApiKeyError = None, windowConfirm = True\<rparr>"

definition unauthorizedEnv :: env where
  "unauthorizedEnv =
     \<lparr>generateImage = (\<lambda>n prompt refs. Inl (Error ''401 invalid API key'')),
      generateVideo = (\<lambda>n prompt startImage endImage model. Inl (Error ''401 invalid API key'')),
      onApiKeyError = Some (\<lambda>err. True), windowConfirm = True\<rparr>"

definition scenarioS0 :: shot where
  "scenarioS0 =
     (blankShot ''S0'' ''Opening'')
       \<lparr>keyframes := Some [createKeyframe ''kf-S0-start-1'' Start ''Opening''
                            (Some ''img://start0'') Completed]\<rparr>"

definition halfDoneProject :: projectState where
  "halfDoneProject =
     \<lparr>shots = [scenarioS0, scenarioS2], project_scriptData = None,
      visualStyle = Some ''anime'', language = Some ''English''\<rparr>"

definition allDoneProject :: projectState where
  "allDoneProject =
     \<lparr>shots = [scenarioS0], project_scriptData = None,
      visualStyle = Some ''anime'', language = Some ''English''\<rparr>"

text \<open>A cast of three, one character listed twice and one with a selected variation.\<close>

definition scenarioScript :: scriptData where
  "scenarioScript =
     \<lparr>scenes = [\<lparr>scene_id = ''scene1'', scene_referenceImage = Some ''img://scene1''\<rparr>],
      sd_characters =
        [\<lparr>character_id = ''c1'', character_referenceImage = Some ''img://c1'',
          variations = Some [\<lparr>variation_id = ''v1'', variation_referenceImage = Some ''img://c1v1''\<rparr>]\<rparr>,
         \<lparr>character_id = ''c2'', character_referenceImage = Some ''img://c2'', variations = None\<rparr>,
         \<lparr>character_id = ''c3'', character_referenceImage = None, variations = None\<rparr>],
      sd_visualStyle = None, sd_language = None\<rparr>"

definition scenarioCast :: shot where
  "scenarioCast =
     (blankShot ''S3'' ''Two friends meet'')
       \<lparr>characters := Some [''c2'', ''c1'', ''c3'', ''c2''],
        characterVariations := Some [(''c1'', ''v1'')]\<rparr>"

section \<open>Properties\<close>

subsection \<open>Camera-movement guide\<close>

lemma includes_sublist: "includes_str s sub \<longleftrightarrow> sublist sub s"
  unfolding includes_str_def
  by (induction s) (auto simp: sublist_Cons_right)

lemma guides_nonempty: "\<forall>(k, g) \<in> set guides. start_guide g \<noteq> [] \<and> end_guide g \<noteq> []"
  by (simp add: guides_def)

lemma guideLoop_nonempty:
  "\<forall>(k, g) \<in> set tbl. start_guide g \<noteq> [] \<and> end_guide g \<noteq> [] \<Longrightarrow> guideLoop m ft tbl \<noteq> []"
  by (induction tbl) (auto simp: pickGuide_def genericGuide_def split: if_splits)

lemma guideLoop_unmatched:
  "\<forall>(k, g) \<in> set tbl. \<not> includes_str m k \<and> \<not> includes_str k m \<Longrightarrow> guideLoop m ft tbl = genericGuide ft"
  by (induction tbl) auto

lemma guideLoop_find:
  "guideLoop m ft tbl =
     (case find (\<lambda>(key, g). sublist key m \<or> sublist m key) tbl of
        None \<Rightarrow> genericGuide ft
      | Some (key, g) \<Rightarrow> pickGuide ft g)"
  by (induction tbl) (auto simp: includes_sublist split: if_splits)

text \<open>
  Claim C8. For every movement string (unrecognised and empty ones included) and either
  frame role, the guide lookup returns a non-empty instruction; it has no failing path.
  The search loop does so on every string, whatever lowercasing made of the movement.
  When no table entry matches, the result is the generic instruction of the role.
\<close>

theorem guide_total_nonempty:
  "getCameraMovementCompositionGuide movement frameType \<noteq> [] \<and>
   guideLoop lowered frameType guides \<noteq> [] \<and>
   ((\<forall>(key, g) \<in> set guides.
        \<not> includes_str (toLowerCase movement) key \<and> \<not> includes_str key (toLowerCase movement))
    \<longrightarrow> getCameraMovementCompositionGuide movement frameType = genericGuide frameType)"
  unfolding getCameraMovementCompositionGuide_def Let_def
  using guideLoop_nonempty[OF guides_nonempty] guideLoop_unmatched by blast

lemma lower_xyz: "toLowerCase ''XyZ'' = ''xyz''"
  by (simp add: lowerChar_def)

text \<open>The Kelvin sign lowers to the letter \<open>k\<close>, the dotted capital I to \<open>i\<close> and a dot.\<close>

lemma lower_kelvin_sign:
  "toLowerCase ([CHR 0xE2, CHR 0x84, CHR 0xAA] @ ''M'') = ''km''"
  "toLowerCase [CHR 0xC4, CHR 0xB0] = [CHR ''i'', CHR 0xCC, CHR 0x87]"
  by (simp_all add: lowerChar_def)

lemma xyz_unmatched: "\<forall>(key, g) \<in> set guides.
        \<not> includes_str (toLowerCase ''XyZ'') key \<and> \<not> includes_str key (toLowerCase ''XyZ'')"
  unfolding lower_xyz by (simp add: guides_def includes_str_def)

theorem guide_total_nonempty_witness:
  "getCameraMovementCompositionGuide ''XyZ'' End
     = ''Composition: Final frame composition showing the result of camera movement.''
   \<and> getCameraMovementCompositionGuide ''XyZ'' End \<noteq> []"
  using guide_total_nonempty[of "''XyZ''" End] xyz_unmatched
  by (simp add: genericGuide_def)

text \<open>
  Claim C10. An entry matches when the lowercased movement contains its key or its key
  contains the lowercased movement, and the first such entry in table order decides. The
  empty movement is contained in every key, so it takes the first entry,
  \<open>horizontal left shot\<close>, and not the generic instruction.
\<close>

theorem guide_bidirectional_match:
  "getCameraMovementCompositionGuide movement frameType =
     (case find (\<lambda>(key, g). sublist key (toLowerCase movement) \<or> sublist (toLowerCase movement) key)
             guides of
        None \<Rightarrow> genericGuide frameType
      | Some (key, g) \<Rightarrow> pickGuide frameType g)
   \<and> fst (hd guides) = ''horizontal left shot''
   \<and> getCameraMovementCompositionGuide [] frameType = pickGuide frameType (snd (hd guides))
   \<and> getCameraMovementCompositionGuide [] frameType \<noteq> genericGuide frameType"
proof -
  have a: "getCameraMovementCompositionGuide movement frameType =
     (case find (\<lambda>(key, g). sublist key (toLowerCase movement) \<or> sublist (toLowerCase movement) key)
             guides of
        None \<Rightarrow> genericGuide frameType
      | Some (key, g) \<Rightarrow> pickGuide frameType g)"
    by (simp add: getCameraMovementCompositionGuide_def guideLoop_find Let_def)
  have b: "fst (hd guides) = ''horizontal left shot''"
    by (simp add: guides_def)
  have c: "getCameraMovementCompositionGuide [] frameType = pickGuide frameType (snd (hd guides))"
    by (simp add: getCameraMovementCompositionGuide_def guides_def includes_str_def)
  have d: "pickGuide frameType (snd (hd guides)) \<noteq> genericGuide frameType"
    by (cases frameType) (simp_all add: guides_def pickGuide_def genericGuide_def)
  from a b c d show ?thesis by simp
qed

theorem guide_bidirectional_match_witness:
  "getCameraMovementCompositionGuide ''Zoom In'' End
     = ''Composition: Tight close-up on subject, filling frame with detail and intimacy.''
   \<and> getCameraMovementCompositionGuide ''a slow ZOOM IN SHOT, then hold'' End
     = ''Composition: Tight close-up on subject, filling frame with detail and intimacy.''"
proof -
  have l: "toLowerCase ''Zoom In'' = ''zoom in''"
    "toLowerCase ''a slow ZOOM IN SHOT, then hold'' = ''a slow zoom in shot, then hold''"
    by (simp_all add: lowerChar_def)
  have f1: "find (\<lambda>(key, g). sublist key ''zoom in'' \<or> sublist ''zoom in'' key) guides
          = Some (''zoom in shot'',
               \<lparr>start_guide = ''Composition: Wide establishing shot showing full scene context, subject smaller in frame.'',
                end_guide = ''Composition: Tight close-up on subject, filling frame with detail and intimacy.''\<rparr>)"
    by (simp add: guides_def includes_sublist[symmetric] includes_str_def)
  have f2: "find (\<lambda>(key, g). sublist key ''a slow zoom in shot, then hold''
                             \<or> sublist ''a slow zoom in shot, then hold'' key) guides
          = Some (''zoom in shot'',
               \<lparr>start_guide = ''Composition: Wide establishing shot showing full scene context, subject smaller in frame.'',
                end_guide = ''Composition: Tight close-up on subject, filling frame with detail and intimacy.''\<rparr>)"
    by (simp add: guides_def includes_sublist[symmetric] includes_str_def)
  from guide_bidirectional_match[of "''Zoom In''" End]
    guide_bidirectional_match[of "''a slow ZOOM IN SHOT, then hold''" End]
  show ?thesis
    unfolding l f1 f2 by (simp add: pickGuide_def)
qed

subsection \<open>Reference resolver\<close>

lemma find_character_id:
  "find (\<lambda>c. character_id c = charId) cs = Some c \<Longrightarrow> character_id c = charId"
  by (induction cs) (auto split: if_splits)

lemma pushCharacterRef_append:
  "pushCharacterRef sh sd acc charId = acc @ characterReference sh sd charId"
proof (cases "find (\<lambda>c. character_id c = charId) (sd_characters sd)")
  case None
  then show ?thesis by (simp add: pushCharacterRef_def characterReference_def)
next
  case (Some c)
  then have cid: "character_id c = charId" by (rule find_character_id)
  show ?thesis
    using Some cid
    by (auto simp: pushCharacterRef_def characterReference_def selectedVariationImage_def Let_def
        split: option.splits)
qed

lemma foldl_pushCharacterRef:
  "foldl (pushCharacterRef sh sd) acc cs = acc @ concat (map (characterReference sh sd) cs)"
  by (induction cs arbitrary: acc) (simp_all add: pushCharacterRef_append)

text \<open>
  Claim C6. The list built by the pushes of \<^verbatim>\<open>getRefImagesForShot\<close> is the scene's image
  (when present) followed by the images of the characters in the shot's order, each the
  selected variation's image when a variation is selected and has one, else the base
  image, a character with neither giving nothing. It is empty without script data.
  Nothing is removed: the result is the plain concatenation, so an image that occurs
  twice stays twice.
\<close>

theorem getRefImagesForShot_order:
  "getRefImagesForShot sh scriptData = resolveReferences sh scriptData
   \<and> getRefImagesForShot sh None = []
   \<and> getRefImagesForShot sh (Some sd)
       = sceneReference sh sd
         @ concat (map (characterReference sh sd)
                     (case characters sh of None \<Rightarrow> [] | Some cs \<Rightarrow> cs))"
proof -
  have "getRefImagesForShot sh sdo = resolveReferences sh sdo" for sdo
    by (auto simp: getRefImagesForShot_def resolveReferences_def sceneReference_def Let_def
        foldl_pushCharacterRef split: option.splits)
  then show ?thesis by (simp add: resolveReferences_def)
qed

theorem getRefImagesForShot_order_witness:
  "getRefImagesForShot scenarioCast (Some scenarioScript)
     = [''img://scene1'', ''img://c2'', ''img://c1v1'', ''img://c2'']"
proof -
  have "resolveReferences scenarioCast (Some scenarioScript)
          = [''img://scene1'', ''img://c2'', ''img://c1v1'', ''img://c2'']"
    by (simp add: resolveReferences_def sceneReference_def characterReference_def
        selectedVariationImage_def scenarioCast_def scenarioScript_def blankShot_def)
  with getRefImagesForShot_order[of scenarioCast "Some scenarioScript" scenarioScript]
  show ?thesis by (simp only:)
qed

subsection \<open>Searching for the style marker\<close>

lemma firstIndex_self: "firstIndex needle (needle @ rest) = Some 0"
proof (cases "needle @ rest")
  case Nil
  then show ?thesis by simp
next
  case (Cons a list)
  then have "prefix needle (a # list)" by (metis prefixI)
  with Cons show ?thesis by simp
qed

lemma firstIndex_append_exact:
  assumes "\<And>d. d \<noteq> [] \<Longrightarrow> suffix d base \<Longrightarrow> \<not> prefix needle (d @ needle @ rest)"
  shows "firstIndex needle (base @ needle @ rest) = Some (length base)"
  using assms
proof (induction base)
  case Nil
  then show ?case by (simp add: firstIndex_self)
next
  case (Cons c cs)
  have "\<not> prefix needle ((c # cs) @ needle @ rest)"
    using Cons.prems[of "c # cs"] by simp
  moreover have "firstIndex needle (cs @ needle @ rest) = Some (length cs)"
  proof (rule Cons.IH)
    fix d assume "d \<noteq> []" "suffix d cs"
    then show "\<not> prefix needle (d @ needle @ rest)"
      using Cons.prems[of d] by (simp add: suffix_Cons)
  qed
  ultimately show ?case by simp
qed

lemma prefix_nth: "prefix n xs \<Longrightarrow> i < length n \<Longrightarrow> xs ! i = n ! i"
  by (auto simp: prefix_def nth_append)

lemma no_self_overlap:
  assumes ne: "n \<noteq> []" and uniq: "last n \<notin> set (butlast n)"
    and pre: "prefix n (d @ n @ r)" and d: "d \<noteq> []"
  shows "length n \<le> length d"
proof (rule ccontr)
  assume "\<not> length n \<le> length d"
  then have lt: "length d < length n" by simp
  define i where "i = length n - 1"
  have i: "i < length n" using ne by (simp add: i_def)
  have dpos: "0 < length d" using d by simp
  have j: "i - length d < length n - 1" using lt dpos unfolding i_def by arith
  have "(d @ n @ r) ! i = n ! i" using pre i by (rule prefix_nth)
  moreover have "(d @ n @ r) ! i = n ! (i - length d)"
  proof -
    have "\<not> i < length d" using lt unfolding i_def by arith
    then have "(d @ n @ r) ! i = (n @ r) ! (i - length d)" by (simp add: nth_append)
    moreover have "i - length d < length n" using j by arith
    ultimately show ?thesis by (simp add: nth_append)
  qed
  moreover have "n ! i = last n" using ne by (simp add: i_def last_conv_nth)
  moreover have "n ! (i - length d) = butlast n ! (i - length d)"
    using j by (simp add: nth_butlast)
  moreover have "butlast n ! (i - length d) \<in> set (butlast n)"
    using j by simp
  ultimately show False using uniq by simp
qed

lemma styleMarker_last_unique:
  "styleMarker \<noteq> [] \<and> last styleMarker \<notin> set (butlast styleMarker)"
  by (simp add: styleMarker_def)

lemma firstIndex_styleMarker:
  assumes "\<not> sublist styleMarker base"
  shows "firstIndex styleMarker (base @ styleMarker @ rest) = Some (length base)"
proof (rule firstIndex_append_exact)
  fix d assume d: "d \<noteq> []" and suf: "suffix d base"
  show "\<not> prefix styleMarker (d @ styleMarker @ rest)"
  proof
    assume pre: "prefix styleMarker (d @ styleMarker @ rest)"
    then have "length styleMarker \<le> length d"
      using no_self_overlap styleMarker_last_unique d by blast
    with pre have "prefix styleMarker d"
      using prefix_length_prefix[of styleMarker "d @ styleMarker @ rest" d] by simp
    then have "sublist styleMarker d" by (rule prefix_imp_sublist)
    with suf have "sublist styleMarker base"
      by (meson sublist_order.order_trans suffix_imp_sublist)
    with assms show False by simp
  qed
qed

lemma buildKeyframePrompt_shape:
  "\<exists>rest. buildKeyframePrompt base style movement ft = base @ styleMarker @ rest"
  by (simp add: buildKeyframePrompt_def styleMarker_def Let_def)

subsection \<open>Keyframes of a shot\<close>

lemma findIndex_None: "findIndex P xs = None \<longleftrightarrow> find P xs = None"
  by (induction xs) auto

lemma findIndex_Some:
  "findIndex P xs = Some i \<Longrightarrow> i < length xs \<and> P (xs ! i) \<and> find P xs = Some (xs ! i)"
  by (induction xs arbitrary: i) (auto split: if_splits)

lemma find_update_hit:
  "findIndex P xs = Some i \<Longrightarrow> P y \<Longrightarrow> find P (xs[i := y]) = Some y"
  by (induction xs arbitrary: i) (auto split: if_splits)

lemma find_update_other:
  "findIndex P xs = Some i \<Longrightarrow> \<not> Q y \<Longrightarrow> \<not> Q (xs ! i) \<Longrightarrow> find Q (xs[i := y]) = find Q xs"
  by (induction xs arbitrary: i) (auto split: if_splits)

lemma find_append_miss: "find P xs = None \<Longrightarrow> find P (xs @ [y]) = (if P y then Some y else None)"
  by (induction xs) (auto split: if_splits)

lemma find_append_other: "\<not> Q y \<Longrightarrow> find Q (xs @ [y]) = find Q xs"
  by (induction xs) auto

lemma findKeyframe_update_same:
  "kf_type kf = t \<Longrightarrow> findKeyframe (updateKeyframeInShot s t kf) t = Some kf"
  by (auto simp: findKeyframe_def updateKeyframeInShot_def Let_def find_update_hit
      find_append_miss findIndex_None split: option.splits)

lemma findKeyframe_update_other:
  assumes "kf_type kf = t" "t' \<noteq> t"
  shows "findKeyframe (updateKeyframeInShot s t kf) t' = findKeyframe s t'"
proof (cases "findIndex (\<lambda>k. kf_type k = t) (case keyframes s of None \<Rightarrow> [] | Some kfs \<Rightarrow> kfs)")
  case None
  then show ?thesis using assms
    by (auto simp: findKeyframe_def updateKeyframeInShot_def Let_def find_append_other
        split: option.splits)
next
  case (Some i)
  from findIndex_Some[OF Some] have "kf_type ((case keyframes s of None \<Rightarrow> [] | Some kfs \<Rightarrow> kfs) ! i) = t"
    by simp
  then show ?thesis using assms Some
    by (auto simp: findKeyframe_def updateKeyframeInShot_def Let_def find_update_other
        split: option.splits)
qed

lemma updateKeyframeInShot_fields:
  "shot_id (updateKeyframeInShot s t kf) = shot_id s"
  "actionSummary (updateKeyframeInShot s t kf) = actionSummary s"
  "cameraMovement (updateKeyframeInShot s t kf) = cameraMovement s"
  "interval (updateKeyframeInShot s t kf) = interval s"
  "sceneId (updateKeyframeInShot s t kf) = sceneId s"
  "characters (updateKeyframeInShot s t kf) = characters s"
  "characterVariations (updateKeyframeInShot s t kf) = characterVariations s"
  "videoModel (updateKeyframeInShot s t kf) = videoModel s"
  by (simp_all add: updateKeyframeInShot_def Let_def split: option.splits)

text \<open>Updating by id in a list of shots with distinct ids changes one position.\<close>

lemma map_update_by_id:
  assumes "distinct (map shot_id xs)" "i < length xs"
  shows "map (\<lambda>s. if shot_id s = shot_id (xs ! i) then f s else s) xs = xs[i := f (xs ! i)]"
proof (rule nth_equalityI)
  show "length (map (\<lambda>s. if shot_id s = shot_id (xs ! i) then f s else s) xs) = length (xs[i := f (xs ! i)])"
    by simp
next
  fix j assume "j < length (map (\<lambda>s. if shot_id s = shot_id (xs ! i) then f s else s) xs)"
  then have j: "j < length xs" by simp
  have "shot_id (xs ! j) = shot_id (xs ! i) \<longleftrightarrow> j = i"
    using assms j by (metis length_map nth_eq_iff_index_eq nth_map)
  then show "map (\<lambda>s. if shot_id s = shot_id (xs ! i) then f s else s) xs ! j = xs[i := f (xs ! i)] ! j"
    using j by (auto simp: nth_list_update)
qed

lemma findIndex_distinct_id:
  assumes "distinct (map shot_id xs)" "i < length xs"
  shows "findIndex (\<lambda>s. Some (shot_id s) = Some (shot_id (xs ! i))) xs = Some i"
  using assms
proof (induction xs arbitrary: i)
  case Nil
  then show ?case by simp
next
  case (Cons x xs)
  show ?case
  proof (cases i)
    case 0
    then show ?thesis by simp
  next
    case (Suc j)
    with Cons.prems have j: "j < length xs" and d: "distinct (map shot_id xs)"
      and nx: "shot_id x \<notin> shot_id ` set xs" by auto
    from j have "shot_id (xs ! j) \<in> shot_id ` set xs" by simp
    with nx have "shot_id x \<noteq> shot_id (xs ! j)" by metis
    with Cons.IH[OF d j] Suc show ?thesis by simp
  qed
qed

text \<open>
  Claim C7. For a shot list with distinct ids and an index \<open>i > 0\<close> of it, copying
  succeeds exactly when the previous shot's end keyframe has an image (which is what
  completed means for a keyframe): then the only change is that shot \<open>i\<close> gets a start
  keyframe that is completed and carries the previous end keyframe's image and prompt.
  When the previous end keyframe is absent or has no image, the only effect is the alert.
  No service call is issued on any path.
\<close>

theorem copy_previous_end_frame:
  assumes idx: "0 < i" "i < length (shots p)"
    and ids: "distinct (map shot_id (shots p))"
    and cur: "project w = p"
  shows "(case findKeyframe (shots p ! (i - 1)) End of
            None \<Rightarrow> handleCopyPreviousEndFrame p (Some (shot_id (shots p ! i))) w
                      = raiseAlert PreviousEndFrameMissing w
          | Some prevEnd \<Rightarrow>
              if truthy (imageUrl prevEnd)
              then (\<exists>sh' kf'.
                      handleCopyPreviousEndFrame p (Some (shot_id (shots p ! i))) w
                        = w\<lparr>project := p\<lparr>shots := (shots p)[i := sh']\<rparr>\<rparr>
                      \<and> findKeyframe sh' Start = Some kf'
                      \<and> kf_status kf' = Completed
                      \<and> imageUrl kf' = imageUrl prevEnd
                      \<and> visualPrompt kf' = visualPrompt prevEnd
                      \<and> findKeyframe sh' End = findKeyframe (shots p ! i) End
                      \<and> interval sh' = interval (shots p ! i))
              else handleCopyPreviousEndFrame p (Some (shot_id (shots p ! i))) w
                     = raiseAlert PreviousEndFrameMissing w)
         \<and> imageRequests (handleCopyPreviousEndFrame p (Some (shot_id (shots p ! i))) w) = imageRequests w
         \<and> videoRequests (handleCopyPreviousEndFrame p (Some (shot_id (shots p ! i))) w) = videoRequests w"
proof -
  have fi: "findIndex (\<lambda>s. Some (shot_id s) = Some (shot_id (shots p ! i))) (shots p) = Some i"
    using ids idx(2) by (rule findIndex_distinct_id)
  show ?thesis
  proof (cases "findKeyframe (shots p ! (i - 1)) End")
    case None
    then show ?thesis using fi idx
      by (simp add: handleCopyPreviousEndFrame_def raiseAlert_def)
  next
    case (Some prevEnd)
    show ?thesis
    proof (cases "truthy (imageUrl prevEnd)")
      case False
      then show ?thesis using fi idx Some
        by (simp add: handleCopyPreviousEndFrame_def raiseAlert_def)
    next
      case True
      define kf where "kf = createKeyframe (keyframeIdFor (shots p ! i) Start (clock w)) Start
                              (visualPrompt prevEnd) (imageUrl prevEnd) Completed"
      define sh' where "sh' = updateKeyframeInShot (shots p ! i) Start kf"
      have kt: "kf_type kf = Start" by (simp add: kf_def createKeyframe_def)
      have run: "handleCopyPreviousEndFrame p (Some (shot_id (shots p ! i))) w
                  = w\<lparr>project := p\<lparr>shots := (shots p)[i := sh']\<rparr>\<rparr>"
        using fi idx Some True cur
        by (simp add: handleCopyPreviousEndFrame_def updateShot_def updateProject_def Let_def
            map_update_by_id[OF ids idx(2)] sh'_def kf_def)
      have "findKeyframe sh' Start = Some kf"
        unfolding sh'_def using kt by (rule findKeyframe_update_same)
      moreover have "findKeyframe sh' End = findKeyframe (shots p ! i) End"
        unfolding sh'_def using kt by (rule findKeyframe_update_other) simp
      moreover have "interval sh' = interval (shots p ! i)"
        by (simp add: sh'_def updateKeyframeInShot_fields)
      moreover have "kf_status kf = Completed" "imageUrl kf = imageUrl prevEnd"
        "visualPrompt kf = visualPrompt prevEnd"
        by (simp_all add: kf_def createKeyframe_def)
      ultimately show ?thesis using Some True run by auto
    qed
  qed
qed

theorem copy_previous_end_frame_witness:
  "\<exists>sh' kf'.
      handleCopyPreviousEndFrame scenarioProject (Some ''S2'') (worldOf scenarioProject)
        = (worldOf scenarioProject)\<lparr>project := scenarioProject\<lparr>shots := [scenarioS1, sh']\<rparr>\<rparr>
      \<and> findKeyframe sh' Start = Some kf'
      \<and> kf_status kf' = Completed
      \<and> imageUrl kf' = Some ''img://end1''
      \<and> visualPrompt kf' = ''The hero stops''"
proof -
  have h: "0 < (1::nat)" "1 < length (shots scenarioProject)"
    "distinct (map shot_id (shots scenarioProject))"
    "project (worldOf scenarioProject) = scenarioProject"
    by (simp_all add: scenarioProject_def scenarioS1_def scenarioS2_def blankShot_def worldOf_def)
  have pe: "findKeyframe (shots scenarioProject ! (1 - 1)) End
              = Some (createKeyframe ''kf-S1-end-1'' End ''The hero stops'' (Some ''img://end1'') Completed)"
    by (simp add: scenarioProject_def scenarioS1_def blankShot_def findKeyframe_def createKeyframe_def)
  have sid: "shot_id (shots scenarioProject ! 1) = ''S2''"
    by (simp add: scenarioProject_def scenarioS2_def blankShot_def)
  have upd: "(shots scenarioProject)[1 := sh'] = [scenarioS1, sh']" for sh'
    by (simp add: scenarioProject_def)
  have tr: "truthy (Some ''img://end1'') = True" by simp
  have img: "imageUrl (createKeyframe ''kf-S1-end-1'' End ''The hero stops'' (Some ''img://end1'') Completed) = Some ''img://end1''"
    "visualPrompt (createKeyframe ''kf-S1-end-1'' End ''The hero stops'' (Some ''img://end1'') Completed) = ''The hero stops''"
    by (simp_all add: createKeyframe_def)
  from copy_previous_end_frame[OF h]
  show ?thesis
    unfolding pe sid upd option.case img tr if_True by blast
qed

subsection \<open>Prompt extraction and regeneration\<close>

text \<open>
  A style name that is no key of the table but a member every object inherits is looked
  up all the same.
\<close>

lemma stylePromptOf_inherited:
  "stylePromptOf ''constructor'' = ''function Object() { [native code] }''"
  "stylePromptOf ''noir'' = ''noir''"
  by (simp_all add: stylePromptOf_def VISUAL_STYLE_PROMPTS_def inheritedMembers_def
      nativeFunctionText_def)

lemma extract_cuts_at_first_marker:
  assumes "b \<noteq> []" "\<not> sublist styleMarker b"
  shows "extractBasePrompt (b @ styleMarker @ r) fallback = b"
proof -
  have "firstIndex styleMarker (b @ styleMarker @ r) = Some (length b)"
    using assms(2) by (rule firstIndex_styleMarker)
  then show ?thesis
    using assms(1) by (simp add: extractBasePrompt_def indexOf_def substring0_def)
qed

lemma extract_build:
  assumes "base \<noteq> []" "\<not> sublist styleMarker base"
  shows "extractBasePrompt (buildKeyframePrompt base style movement ft) fallback = base"
proof -
  obtain rest where r: "buildKeyframePrompt base style movement ft = base @ styleMarker @ rest"
    using buildKeyframePrompt_shape by blast
  show ?thesis unfolding r using assms by (rule extract_cuts_at_first_marker)
qed

lemma build_nonempty: "base \<noteq> [] \<Longrightarrow> buildKeyframePrompt base style movement ft \<noteq> []"
  by (simp add: buildKeyframePrompt_def Let_def)

lemma find_map_id:
  "(\<And>s. shot_id (g s) = shot_id s) \<Longrightarrow>
   find (\<lambda>s. shot_id s = sid) (map g xs) = map_option g (find (\<lambda>s. shot_id s = sid) xs)"
  by (induction xs) auto

lemma find_shot_id: "find (\<lambda>s. shot_id s = sid) xs = Some sh \<Longrightarrow> shot_id sh = sid"
  by (induction xs) (auto split: if_splits)

lemma project_putKeyframe:
  "project (putKeyframe sid t kf w)
     = (project w)\<lparr>shots := map (\<lambda>s. if shot_id s \<noteq> sid then s else updateKeyframeInShot s t kf)
                                (shots (project w))\<rparr>"
  by (simp add: putKeyframe_def updateProject_def)

lemma find_putKeyframe:
  "find (\<lambda>s. shot_id s = sid) (shots (project (putKeyframe sid t kf w)))
     = map_option (\<lambda>s. updateKeyframeInShot s t kf) (find (\<lambda>s. shot_id s = sid) (shots (project w)))"
proof -
  have "find (\<lambda>s. shot_id s = sid)
          (map (\<lambda>s. if shot_id s \<noteq> sid then s else updateKeyframeInShot s t kf) (shots (project w)))
        = map_option (\<lambda>s. if shot_id s \<noteq> sid then s else updateKeyframeInShot s t kf)
            (find (\<lambda>s. shot_id s = sid) (shots (project w)))"
    by (rule find_map_id) (simp add: updateKeyframeInShot_fields)
  also have "\<dots> = map_option (\<lambda>s. updateKeyframeInShot s t kf) (find (\<lambda>s. shot_id s = sid) (shots (project w)))"
    by (cases "find (\<lambda>s. shot_id s = sid) (shots (project w))") (auto dest: find_shot_id)
  finally show ?thesis by (simp add: project_putKeyframe)
qed

text \<open>What one run of the handler leaves for the shot it was called on.\<close>


lemma visualStyleOf_shots: "visualStyleOf (p\<lparr>shots := xs\<rparr>) = visualStyleOf p"
  by (simp add: visualStyleOf_def)

lemma handleGenerateKeyframe_stores:
  assumes f: "find (\<lambda>s. shot_id s = sid) (shots (project w)) = Some sh"
  shows "\<exists>sh' k. find (\<lambda>s. shot_id s = sid) (shots (project (snd (handleGenerateKeyframe e p sh t w)))) = Some sh'
           \<and> actionSummary sh' = actionSummary sh \<and> cameraMovement sh' = cameraMovement sh
           \<and> visualStyleOf (project (snd (handleGenerateKeyframe e p sh t w))) = visualStyleOf (project w)
           \<and> findKeyframe sh' t = Some k \<and> visualPrompt k = keyframePromptFor p sh t"
proof -
  have sid: "shot_id sh = sid" using f by (rule find_shot_id)
  define kfId where "kfId = keyframeIdFor sh t (clock w)"
  define P where "P = keyframePromptFor p sh t"
  define w1 where "w1 = putKeyframe sid t (createKeyframe kfId t P None Generating) w"
  define w2 where "w2 = w1\<lparr>imageRequests := imageRequests w1 @ [(sid, P, getRefImagesForShot sh (project_scriptData p))]\<rparr>"
  have f1: "find (\<lambda>s. shot_id s = sid) (shots (project w2))
              = Some (updateKeyframeInShot sh t (createKeyframe kfId t P None Generating))"
    by (simp add: w2_def w1_def find_putKeyframe f)
  have vs2: "visualStyleOf (project w2) = visualStyleOf (project w)"
    by (simp add: w2_def w1_def project_putKeyframe visualStyleOf_shots)
  have step: "\<exists>sh' k. find (\<lambda>s. shot_id s = sid) (shots (project (putKeyframe sid t (createKeyframe kfId t P u st) w')))
                 = Some sh'
           \<and> actionSummary sh' = actionSummary sh \<and> cameraMovement sh' = cameraMovement sh
           \<and> visualStyleOf (project (putKeyframe sid t (createKeyframe kfId t P u st) w')) = visualStyleOf (project w)
           \<and> findKeyframe sh' t = Some k \<and> visualPrompt k = P"
    if "project w' = project w2" for w' u st
  proof -
    have "find (\<lambda>s. shot_id s = sid) (shots (project (putKeyframe sid t (createKeyframe kfId t P u st) w')))
            = Some (updateKeyframeInShot (updateKeyframeInShot sh t (createKeyframe kfId t P None Generating)) t
                      (createKeyframe kfId t P u st))"
      by (simp add: find_putKeyframe that f1)
    moreover have "findKeyframe (updateKeyframeInShot (updateKeyframeInShot sh t (createKeyframe kfId t P None Generating)) t
                      (createKeyframe kfId t P u st)) t = Some (createKeyframe kfId t P u st)"
      by (rule findKeyframe_update_same) (simp add: createKeyframe_def)
    moreover have "visualStyleOf (project (putKeyframe sid t (createKeyframe kfId t P u st) w')) = visualStyleOf (project w)"
      by (simp add: project_putKeyframe visualStyleOf_shots that vs2)
    ultimately show ?thesis
      by (simp add: updateKeyframeInShot_fields createKeyframe_def)
  qed
  have run: "snd (handleGenerateKeyframe e p sh t w)
         = (case generateImage e (length (imageRequests w)) P (getRefImagesForShot sh (project_scriptData p)) of
              Inr url \<Rightarrow> putKeyframe sid t (createKeyframe kfId t P (Some url) Completed) w2
            | Inl err \<Rightarrow>
                (if apiKeyErrorHandled e err
                 then putKeyframe sid t (createKeyframe kfId t P None Failed) (consoleError (Logged err) w2)
                 else raiseAlert (GenerationFailed (message err))
                        (putKeyframe sid t (createKeyframe kfId t P None Failed) (consoleError (Logged err) w2))))"
    by (simp add: handleGenerateKeyframe_def generateKeyframeBegin_def generateKeyframeSettle_def
        Let_def sid kfId_def P_def w1_def w2_def split: sum.splits)
  show ?thesis
  proof (cases "generateImage e (length (imageRequests w)) P (getRefImagesForShot sh (project_scriptData p))")
    case (Inr url)
    then show ?thesis using step[of w2 "Some url" Completed] run by (simp add: P_def)
  next
    case (Inl err)
    have c: "project (consoleError (Logged err) w2) = project w2" by (simp add: consoleError_def)
    have r: "project (raiseAlert a w') = project w'" for a w' by (simp add: raiseAlert_def)
    show ?thesis using step[OF c, of None Failed] run Inl by (simp add: P_def r)
  qed
qed


lemma basePromptFor_assembled:
  assumes "findKeyframe sh t = Some k" "visualPrompt k = buildKeyframePrompt base style movement ft"
    "base \<noteq> []" "\<not> sublist styleMarker base"
  shows "basePromptFor sh t = base"
  using assms by (simp add: basePromptFor_def build_nonempty extract_build)

lemma regenerate_settled:
  assumes base: "basePromptFor sh0 t \<noteq> []" "\<not> sublist styleMarker (basePromptFor sh0 t)"
    and f0: "find (\<lambda>s. shot_id s = sid) (shots (project w)) = Some sh0"
  shows "\<exists>sh k. find (\<lambda>s. shot_id s = sid) (shots (project (regenerate e sid t (Suc n) w))) = Some sh
        \<and> cameraMovement sh = cameraMovement sh0
        \<and> visualStyleOf (project (regenerate e sid t (Suc n) w)) = visualStyleOf (project w)
        \<and> findKeyframe sh t = Some k
        \<and> visualPrompt k = buildKeyframePrompt (basePromptFor sh0 t) (visualStyleOf (project w))
                              (cameraMovement sh0) t"
proof (induction n)
  case 0
  have "keyframePromptFor (project w) sh0 t
          = buildKeyframePrompt (basePromptFor sh0 t) (visualStyleOf (project w)) (cameraMovement sh0) t"
    by (simp add: keyframePromptFor_def)
  with handleGenerateKeyframe_stores[OF f0, of e "project w" t] show ?case
    by (auto simp: f0)
next
  case (Suc n)
  define w' where "w' = regenerate e sid t (Suc n) w"
  from Suc obtain sh k where
    f: "find (\<lambda>s. shot_id s = sid) (shots (project w')) = Some sh"
    and c: "cameraMovement sh = cameraMovement sh0"
    and v: "visualStyleOf (project w') = visualStyleOf (project w)"
    and k: "findKeyframe sh t = Some k"
    and P: "visualPrompt k = buildKeyframePrompt (basePromptFor sh0 t) (visualStyleOf (project w))
                              (cameraMovement sh0) t"
    unfolding w'_def by blast
  have "basePromptFor sh t = basePromptFor sh0 t"
    using k P base by (rule basePromptFor_assembled)
  then have kp: "keyframePromptFor (project w') sh t
          = buildKeyframePrompt (basePromptFor sh0 t) (visualStyleOf (project w)) (cameraMovement sh0) t"
    by (simp add: keyframePromptFor_def c v)
  have r: "regenerate e sid t (Suc (Suc n)) w = snd (handleGenerateKeyframe e (project w') sh t w')"
    by (subst regenerate.simps(2)) (simp only: Let_def w'_def[symmetric] f option.case)
  from handleGenerateKeyframe_stores[OF f, of e "project w'" t] obtain sh' k' where
    "find (\<lambda>s. shot_id s = sid) (shots (project (snd (handleGenerateKeyframe e (project w') sh t w'))))
       = Some sh'"
    "cameraMovement sh' = cameraMovement sh"
    "visualStyleOf (project (snd (handleGenerateKeyframe e (project w') sh t w'))) = visualStyleOf (project w')"
    "findKeyframe sh' t = Some k'" "visualPrompt k' = keyframePromptFor (project w') sh t"
    by blast
  then show ?case
    unfolding r kp c v by blast
qed

text \<open>
  The template of \<^verbatim>\<open>components/StageDirector/utils.ts\<close> writes the marker right after the
  base narrative. For a base narrative that is not empty and does not contain the marker
  \<open>\<newline>\<newline>Visual Style:\<close>, and for every style, camera movement and frame role,
  extraction from what this template assembles gives the base narrative back. Hence, for a
  shot whose base prompt (its action summary, or what extraction gives on the prompt its
  keyframe already stores) is such a text, each of any number of presses of the generate
  button stores the same assembled prompt, whatever the image service answers.
\<close>

lemma regeneration_keeps_base:
  assumes "base \<noteq> []" "\<not> sublist styleMarker base"
  shows "extractBasePrompt (buildKeyframePrompt base style movement ft) fallback = base
     \<and> (find (\<lambda>s. shot_id s = sid) (shots (project w)) = Some sh \<and> basePromptFor sh t = base
        \<longrightarrow> (\<forall>n. storedPrompt sid t (regenerate e sid t (Suc n) w)
                   = Some (buildKeyframePrompt base (visualStyleOf (project w)) (cameraMovement sh) t)))"
proof (intro conjI impI allI)
  show "extractBasePrompt (buildKeyframePrompt base style movement ft) fallback = base"
    using assms by (rule extract_build)
next
  fix n
  assume h: "find (\<lambda>s. shot_id s = sid) (shots (project w)) = Some sh \<and> basePromptFor sh t = base"
  then have b: "basePromptFor sh t \<noteq> []" "\<not> sublist styleMarker (basePromptFor sh t)"
    using assms by simp_all
  from regenerate_settled[OF b, of sid w e n] h
  show "storedPrompt sid t (regenerate e sid t (Suc n) w)
          = Some (buildKeyframePrompt base (visualStyleOf (project w)) (cameraMovement sh) t)"
    unfolding storedPrompt_def by auto
qed

lemma scenarioS2_summary_clean:
  "actionSummary scenarioS2 \<noteq> [] \<and> \<not> sublist styleMarker (actionSummary scenarioS2)"
  by (simp add: scenarioS2_def blankShot_def includes_sublist[symmetric] includes_str_def
      styleMarker_def)

lemma regeneration_keeps_base_example:
  "extractBasePrompt
     (buildKeyframePrompt ''The hero looks back'' ''anime'' ''Pan Left Shot'' Start) []
     = ''The hero looks back''
   \<and> storedPrompt ''S2'' Start (regenerate answeringEnv ''S2'' Start 3 (worldOf scenarioProject))
     = Some (buildKeyframePrompt ''The hero looks back'' ''anime'' ''Pan Left Shot'' Start)"
proof -
  have c: "''The hero looks back'' \<noteq> []" "\<not> sublist styleMarker ''The hero looks back''"
    using scenarioS2_summary_clean by (simp_all add: scenarioS2_def blankShot_def)
  have f: "find (\<lambda>s. shot_id s = ''S2'') (shots (project (worldOf scenarioProject))) = Some scenarioS2
           \<and> basePromptFor scenarioS2 Start = ''The hero looks back''"
    by (simp add: worldOf_def scenarioProject_def scenarioS1_def scenarioS2_def blankShot_def
        findKeyframe_def basePromptFor_def)
  have v: "visualStyleOf (project (worldOf scenarioProject)) = ''anime''"
    "cameraMovement scenarioS2 = ''Pan Left Shot''"
    by (simp_all add: worldOf_def scenarioProject_def visualStyleOf_def scenarioS2_def blankShot_def)
  have th: "extractBasePrompt
              (buildKeyframePrompt ''The hero looks back'' ''anime'' ''Pan Left Shot'' Start) []
              = ''The hero looks back''
     \<and> (find (\<lambda>s. shot_id s = ''S2'') (shots (project (worldOf scenarioProject))) = Some scenarioS2
          \<and> basePromptFor scenarioS2 Start = ''The hero looks back''
        \<longrightarrow> (\<forall>n. storedPrompt ''S2'' Start
                     (regenerate answeringEnv ''S2'' Start (Suc n) (worldOf scenarioProject))
                   = Some (buildKeyframePrompt ''The hero looks back''
                             (visualStyleOf (project (worldOf scenarioProject)))
                             (cameraMovement scenarioS2) Start)))"
    by (rule regeneration_keeps_base[OF c])
  have three: "(3::nat) = Suc 2" by simp
  from th f have "storedPrompt ''S2'' Start
                     (regenerate answeringEnv ''S2'' Start (Suc 2) (worldOf scenarioProject))
                   = Some (buildKeyframePrompt ''The hero looks back''
                             (visualStyleOf (project (worldOf scenarioProject)))
                             (cameraMovement scenarioS2) Start)"
    by blast
  with th show ?thesis by (simp only: v three)
qed

text \<open>
  With that template extraction still loses text at a base narrative that contains the
  marker itself, such as a narrative with a style paragraph of its own: the cut is made at
  the first occurrence, inside the narrative.
\<close>

lemma extract_marker_in_base:
  "extractBasePrompt
     (buildKeyframePrompt ''Intro\<newline>\<newline>Visual Style: noir'' ''anime'' ''Pan Left Shot'' Start) []
     = ''Intro''"
proof -
  obtain rest where
    "buildKeyframePrompt ''Intro\<newline>\<newline>Visual Style: noir'' ''anime'' ''Pan Left Shot'' Start
       = ''Intro\<newline>\<newline>Visual Style: noir'' @ styleMarker @ rest"
    using buildKeyframePrompt_shape by blast
  then have r: "buildKeyframePrompt ''Intro\<newline>\<newline>Visual Style: noir'' ''anime'' ''Pan Left Shot'' Start
       = ''Intro'' @ styleMarker @ ('' noir'' @ styleMarker @ rest)"
    by (simp add: styleMarker_def)
  have c: "''Intro'' \<noteq> []" "\<not> sublist styleMarker ''Intro''"
    by (simp_all add: includes_sublist[symmetric] includes_str_def styleMarker_def)
  show ?thesis unfolding r using c by (rule extract_cuts_at_first_marker)
qed

text \<open>
  At the empty base narrative the marker is found at index \<open>0\<close>, the test
  \<^verbatim>\<open>visualStyleIndex > 0\<close> rejects it, and the whole assembled prompt comes back as the
  base.
\<close>

lemma extract_empty_base:
  "extractBasePrompt (buildKeyframePrompt [] style movement ft) fallback
     = buildKeyframePrompt [] style movement ft"
proof -
  obtain rest where r: "buildKeyframePrompt [] style movement ft = [] @ styleMarker @ rest"
    using buildKeyframePrompt_shape by blast
  have "firstIndex styleMarker (styleMarker @ rest) = Some 0" by (rule firstIndex_self)
  then show ?thesis
    by (simp add: extractBasePrompt_def r indexOf_def styleMarker_def)
qed

text \<open>
  The scanner on the fixed sections of the enhanced template.
\<close>

lemma scan_Nil: "scan q [] = q" by (simp add: scan_def)
lemma scan_Cons: "scan q (c # cs) = scan (scanStep q c) cs" by (simp add: scan_def)
lemma scan_append: "scan q (a @ b) = scan (scan q a) b" by (simp add: scan_def)
lemma scan_cong: "q = q' \<Longrightarrow> scan q s = scan q' s" by simp

lemma scan_found_stays: "scan 3 s = 3"
  by (induction s) (simp_all add: scan_Nil scan_Cons)

lemma scan_marker_head: "scan q ''\<newline>\<newline>V'' = 3"
  by (simp add: scan_Nil scan_Cons)

lemma scan_sublist:
  assumes "sublist ''\<newline>\<newline>V'' s"
  shows "scan q s = 3"
proof -
  from assms obtain ps ss where "s = ps @ ''\<newline>\<newline>V'' @ ss"
    unfolding sublist_def by blast
  then show ?thesis
    by (simp only: scan_append scan_marker_head scan_found_stays)
qed

lemma marker_head_sublist: "sublist styleMarker s \<Longrightarrow> sublist ''\<newline>\<newline>V'' s"
proof -
  have "sublist ''\<newline>\<newline>V'' styleMarker"
    by (rule prefix_imp_sublist) (simp add: styleMarker_def)
  then show "sublist styleMarker s \<Longrightarrow> sublist ''\<newline>\<newline>V'' s"
    by (meson sublist_order.order_trans)
qed



lemma scan_single_line:
  "CHR ''\<newline>'' \<notin> set s \<Longrightarrow> q < 2 \<Longrightarrow> scan q s < 2"
  by (induction s arbitrary: q) (auto simp: scan_Nil scan_Cons)

lemma scan_styleHeader:
  "scan 0 enhancedStyleHeader = 1" "scan 1 enhancedStyleHeader = 1"
  unfolding enhancedStyleHeader_def
  by (simp_all add: scan_Nil scan_Cons scan_append cong: scan_cong)

lemma scan_movementHeader:
  "scan 0 enhancedMovementHeader = 1" "scan 1 enhancedMovementHeader = 1"
  unfolding enhancedMovementHeader_def
  by (simp_all add: scan_Nil scan_Cons scan_append cong: scan_cong)

lemma scan_roleName: "scan 0 (enhancedRoleName ft) = 0"
  by (cases ft; simp only: enhancedRoleName_def frameType.distinct if_True if_False simp_thms)
     (simp_all add: scan_Nil scan_Cons scan_append cong: scan_cong)

lemma scan_guideHeader: "scan 0 enhancedGuideHeader = 1"
  unfolding enhancedGuideHeader_def
  by (simp add: scan_Nil scan_Cons scan_append cong: scan_cong)

lemma scan_frameSpecificGuide: "scan 2 (frameSpecificGuide ft) = 0"
  by (cases ft; simp only: frameSpecificGuide_def frameType.distinct if_True if_False simp_thms)
     (simp_all add: scan_Nil scan_Cons scan_append cong: scan_cong)

lemma scan_requirements: "scan 0 enhancedRequirements = 0"
  unfolding enhancedRequirements_def
  by (simp add: scan_Nil scan_Cons scan_append cong: scan_cong)

lemma scan_small:
  "scan 0 '' ('' = 0" "scan 1 '' ('' = 0" "scan 0 '')'' = 0"
  "scan 0 ''\<newline>\<newline>'' = 2" "scan 1 ''\<newline>\<newline>'' = 2"
  by (simp_all add: scan_Nil scan_Cons)

lemma guides_single_line:
  "\<forall>(k, g) \<in> set guides. CHR ''\<newline>'' \<notin> set (start_guide g) \<and> CHR ''\<newline>'' \<notin> set (end_guide g)"
  by (simp add: guides_def)

lemma guideLoop_single_line:
  "\<forall>(k, g) \<in> set tbl. CHR ''\<newline>'' \<notin> set (start_guide g) \<and> CHR ''\<newline>'' \<notin> set (end_guide g)
   \<Longrightarrow> CHR ''\<newline>'' \<notin> set (guideLoop m ft tbl)"
  by (induction tbl) (auto simp: pickGuide_def genericGuide_def split: if_splits)

lemma guide_single_line: "CHR ''\<newline>'' \<notin> set (getCameraMovementCompositionGuide movement ft)"
  unfolding getCameraMovementCompositionGuide_def Let_def
  by (rule guideLoop_single_line[OF guides_single_line])

text \<open>
  Claim C2 fails on the code of the later \<^verbatim>\<open>utils.ts\<close>, whose enhanced
  \<^verbatim>\<open>buildKeyframePrompt\<close> the claim cites. Its template has no line that starts with
  \<open>Visual Style:\<close> after an empty line, while its \<^verbatim>\<open>extractBasePrompt\<close> still looks
  for \<open>\<newline>\<newline>Visual Style:\<close>. So the marker is never found in what the builder
  assembles: for every base narrative, style phrase and camera movement without line
  breaks, and for every frame role and fallback, extraction from the assembled prompt
  returns the whole assembled prompt, which is not the base narrative. On a shot whose
  keyframe stores that prompt, the prompt line of the handler therefore wraps the whole of
  it in the sections once more, and the prompt grows with every press of the generate
  button.
\<close>

theorem enhanced_prompt_keeps_layers:
  assumes "CHR ''\<newline>'' \<notin> set base" "CHR ''\<newline>'' \<notin> set (stylePromptOf style)"
    "CHR ''\<newline>'' \<notin> set movement"
  shows "extractBasePrompt (buildKeyframePromptEnhanced base style movement ft) fallback
           = buildKeyframePromptEnhanced base style movement ft
         \<and> buildKeyframePromptEnhanced base style movement ft \<noteq> base
         \<and> (findKeyframe sh t = Some k
              \<and> visualPrompt k = buildKeyframePromptEnhanced base style movement ft
            \<longrightarrow> keyframePromptForEnhanced p sh t
                  = buildKeyframePromptEnhanced (buildKeyframePromptEnhanced base style movement ft)
                      (visualStyleOf p) (cameraMovement sh) t
                \<and> length (visualPrompt k) < length (keyframePromptForEnhanced p sh t))"
proof -
  define full where "full = buildKeyframePromptEnhanced base style movement ft"
  define q1 where "q1 = scan 0 base"
  define q2 where "q2 = scan 1 (stylePromptOf style)"
  define q3 where "q3 = scan 1 movement"
  define q4 where "q4 = scan 1 (getCameraMovementCompositionGuide movement ft)"
  have b: "q1 = 0 \<or> q1 = 1" "q2 = 0 \<or> q2 = 1" "q3 = 0 \<or> q3 = 1" "q4 = 0 \<or> q4 = 1"
    using scan_single_line[OF assms(1), of 0] scan_single_line[OF assms(2), of 1]
      scan_single_line[OF assms(3), of 1] scan_single_line[OF guide_single_line, of 1 movement ft]
    unfolding q1_def q2_def q3_def q4_def by auto
  have s1: "scan q1 enhancedStyleHeader = 1" using b(1) scan_styleHeader by auto
  have s2: "scan q2 enhancedMovementHeader = 1" using b(2) scan_movementHeader by auto
  have s3: "scan q3 '' ('' = 0" using b(3) scan_small by auto
  have s4: "scan q4 ''\<newline>\<newline>'' = 2" using b(4) scan_small by auto
  have "scan 0 full = 0"
    unfolding full_def buildKeyframePromptEnhanced_def Let_def scan_append
      q1_def[symmetric] s1 q2_def[symmetric] s2 q3_def[symmetric] s3 scan_roleName scan_small(3)
      scan_guideHeader q4_def[symmetric] s4 scan_frameSpecificGuide scan_requirements ..
  then have "\<not> sublist styleMarker full"
    using scan_sublist[of full 0] marker_head_sublist[of full] by auto
  then have none: "firstIndex styleMarker full = None"
    using includes_sublist[of full styleMarker] by (simp add: includes_str_def)
  have ne: "enhancedStyleHeader \<noteq> []" by (simp add: enhancedStyleHeader_def)
  then have fne: "full \<noteq> []" "full \<noteq> base"
    by (simp_all add: full_def buildKeyframePromptEnhanced_def Let_def)
  have ex: "extractBasePrompt full fb = full" for fb
    using none fne by (simp add: extractBasePrompt_def indexOf_def)
  have grows: "length x < length (buildKeyframePromptEnhanced x s m r)" for x s m r
    using ne by (simp add: buildKeyframePromptEnhanced_def Let_def)
  have again: "keyframePromptForEnhanced p sh t
                 = buildKeyframePromptEnhanced full (visualStyleOf p) (cameraMovement sh) t
               \<and> length (visualPrompt k) < length (keyframePromptForEnhanced p sh t)"
    if h: "findKeyframe sh t = Some k \<and> visualPrompt k = full"
  proof -
    have "basePromptFor sh t = full"
      using h fne(1) by (simp add: basePromptFor_def ex)
    then have "keyframePromptForEnhanced p sh t
                 = buildKeyframePromptEnhanced full (visualStyleOf p) (cameraMovement sh) t"
      by (simp add: keyframePromptForEnhanced_def)
    then show ?thesis using h grows[of full] by simp
  qed
  show ?thesis
    unfolding full_def[symmetric] using ex fne(2) again by blast
qed

theorem enhanced_prompt_keeps_layers_witness:
  "extractBasePrompt
     (buildKeyframePromptEnhanced ''The hero looks back'' ''anime'' ''Pan Left Shot'' Start)
     ''The hero looks back''
     = buildKeyframePromptEnhanced ''The hero looks back'' ''anime'' ''Pan Left Shot'' Start
   \<and> buildKeyframePromptEnhanced ''The hero looks back'' ''anime'' ''Pan Left Shot'' Start
       \<noteq> ''The hero looks back''
   \<and> keyframePromptForEnhanced scenarioProject scenarioS2Generated Start
       = buildKeyframePromptEnhanced
           (buildKeyframePromptEnhanced ''The hero looks back'' ''anime'' ''Pan Left Shot'' Start)
           ''anime'' ''Pan Left Shot'' Start
   \<and> length (buildKeyframePromptEnhanced ''The hero looks back'' ''anime'' ''Pan Left Shot'' Start)
       < length (keyframePromptForEnhanced scenarioProject scenarioS2Generated Start)"
proof -
  define P1 where
    "P1 = buildKeyframePromptEnhanced ''The hero looks back'' ''anime'' ''Pan Left Shot'' Start"
  define k where "k = createKeyframe ''kf-S2-start-1'' Start P1 (Some ''img://1'') Completed"
  have c: "CHR ''\<newline>'' \<notin> set ''The hero looks back''"
    "CHR ''\<newline>'' \<notin> set (stylePromptOf ''anime'')"
    "CHR ''\<newline>'' \<notin> set ''Pan Left Shot''"
    by (simp_all add: stylePromptOf_def VISUAL_STYLE_PROMPTS_def)
  have f: "findKeyframe scenarioS2Generated Start = Some k \<and> visualPrompt k = P1"
    by (simp add: scenarioS2Generated_def findKeyframe_def k_def P1_def createKeyframe_def)
  have v: "visualStyleOf scenarioProject = ''anime''"
    "cameraMovement scenarioS2Generated = ''Pan Left Shot''"
    by (simp_all add: scenarioProject_def visualStyleOf_def scenarioS2Generated_def
        scenarioS2_def blankShot_def)
  have kp: "visualPrompt k = P1" using f by blast
  from enhanced_prompt_keeps_layers[OF c, of Start "''The hero looks back''"
      scenarioS2Generated Start k scenarioProject, folded P1_def] f
  have r: "extractBasePrompt P1 ''The hero looks back'' = P1 \<and> P1 \<noteq> ''The hero looks back''
        \<and> keyframePromptForEnhanced scenarioProject scenarioS2Generated Start
            = buildKeyframePromptEnhanced P1 (visualStyleOf scenarioProject)
                (cameraMovement scenarioS2Generated) Start
        \<and> length (visualPrompt k) < length (keyframePromptForEnhanced scenarioProject scenarioS2Generated Start)"
    by blast
  show ?thesis
    unfolding P1_def[symmetric] using r[unfolded v kp] by blast
qed

subsection \<open>Video generation\<close>

text \<open>
  Claim C1. When the shot's start keyframe is absent or has no image, video generation
  ends at the validation: the alert asking for a start frame is raised and nothing else
  changes. The project, and with it the interval of every shot, is as before, and no
  request reaches the video or the image service.
\<close>

theorem video_requires_start_frame:
  assumes "\<not> truthy (imageUrlOf (findKeyframe sh Start))"
  shows "handleGenerateVideo e p sh w = raiseAlert PleaseGenerateStartFrame w
     \<and> project (handleGenerateVideo e p sh w) = project w
     \<and> map interval (shots (project (handleGenerateVideo e p sh w))) = map interval (shots (project w))
     \<and> videoRequests (handleGenerateVideo e p sh w) = videoRequests w
     \<and> imageRequests (handleGenerateVideo e p sh w) = imageRequests w
     \<and> alerts (handleGenerateVideo e p sh w) = alerts w @ [PleaseGenerateStartFrame]"
proof -
  have "handleGenerateVideo e p sh w = raiseAlert PleaseGenerateStartFrame w"
    using assms by (simp add: handleGenerateVideo_def imageUrlOf_def Let_def split: option.splits)
  then show ?thesis by (simp add: raiseAlert_def)
qed

theorem video_requires_start_frame_witness:
  "handleGenerateVideo answeringEnv scenarioProject scenarioS1 (worldOf scenarioProject)
     = raiseAlert PleaseGenerateStartFrame (worldOf scenarioProject)
   \<and> videoRequests (handleGenerateVideo answeringEnv scenarioProject scenarioS1 (worldOf scenarioProject)) = []"
proof -
  have h: "\<not> truthy (imageUrlOf (findKeyframe scenarioS1 Start))"
    by (simp add: scenarioS1_def blankShot_def findKeyframe_def imageUrlOf_def createKeyframe_def)
  have e: "videoRequests (worldOf scenarioProject) = []" by (simp add: worldOf_def)
  from video_requires_start_frame[OF h, of answeringEnv scenarioProject "worldOf scenarioProject"]
  have a: "handleGenerateVideo answeringEnv scenarioProject scenarioS1 (worldOf scenarioProject)
             = raiseAlert PleaseGenerateStartFrame (worldOf scenarioProject)"
    and b: "videoRequests (handleGenerateVideo answeringEnv scenarioProject scenarioS1
                             (worldOf scenarioProject))
             = videoRequests (worldOf scenarioProject)"
    by blast+
  from b e have "videoRequests (handleGenerateVideo answeringEnv scenarioProject scenarioS1
                                  (worldOf scenarioProject)) = []"
    by (rule trans)
  with a show ?thesis by (rule conjI)
qed

subsection \<open>The keyframe invariant\<close>

lemma consistent_updateKeyframeInShot:
  assumes "list_all keyframeConsistent (keyframesOf s)" "keyframeConsistent kf"
  shows "list_all keyframeConsistent (keyframesOf (updateKeyframeInShot s t kf))"
proof -
  show ?thesis using assms
    by (auto simp: keyframesOf_def updateKeyframeInShot_def Let_def list_all_iff
        dest!: set_update_subset_insert[THEN subsetD] split: option.splits)
qed

lemma consistent_map_shots:
  assumes "projectConsistent p"
    "\<And>s. list_all keyframeConsistent (keyframesOf s) \<Longrightarrow> list_all keyframeConsistent (keyframesOf (f s))"
  shows "projectConsistent (p\<lparr>shots := map f (shots p)\<rparr>)"
  using assms by (auto simp: projectConsistent_def list_all_iff)

lemma consistent_putKeyframe:
  assumes "projectConsistent (project w)" "keyframeConsistent kf"
  shows "projectConsistent (project (putKeyframe sid t kf w))"
  unfolding putKeyframe_def updateProject_def
  using assms by (auto intro!: consistent_map_shots consistent_updateKeyframeInShot)

lemma consistent_updateShot:
  assumes "projectConsistent (project w)"
    "\<And>s. list_all keyframeConsistent (keyframesOf s) \<Longrightarrow> list_all keyframeConsistent (keyframesOf (f s))"
  shows "projectConsistent (project (updateShot sid f w))"
  unfolding updateShot_def updateProject_def
  using assms by (auto intro!: consistent_map_shots)

lemma consistent_createKeyframe:
  "keyframeConsistent (createKeyframe i t p None Generating)"
  "keyframeConsistent (createKeyframe i t p None Failed)"
  "keyframeConsistent (createKeyframe i t p (Some u) Completed)"
  by (simp_all add: keyframeConsistent_def createKeyframe_def)

lemma project_simps:
  "project (raiseAlert a w) = project w"
  "project (consoleError c w) = project w"
  "project (setBatchProgress b w) = project w"
  "project (delay ms w) = project w"
  "project (w\<lparr>imageRequests := ir\<rparr>) = project w"
  by (simp_all add: raiseAlert_def consoleError_def setBatchProgress_def delay_def)

lemma consistent_begin:
  "projectConsistent (project w) \<Longrightarrow> projectConsistent (project (snd (generateKeyframeBegin p sh t w)))"
  by (simp add: generateKeyframeBegin_def Let_def project_simps consistent_putKeyframe
      consistent_createKeyframe)

lemma consistent_settle:
  "projectConsistent (project w) \<Longrightarrow>
   projectConsistent (project (snd (generateKeyframeSettle e sh t kfId prompt r w)))"
  by (cases r)
     (simp_all add: generateKeyframeSettle_def Let_def project_simps consistent_putKeyframe
       consistent_createKeyframe)

lemma consistent_generate:
  "projectConsistent (project w) \<Longrightarrow>
   projectConsistent (project (snd (handleGenerateKeyframe e p sh t w)))"
  unfolding handleGenerateKeyframe_def
  using consistent_begin[of w p sh t]
  by (cases "generateKeyframeBegin p sh t w") (auto intro: consistent_settle)

lemma consistent_upload:
  "projectConsistent (project w) \<Longrightarrow> projectConsistent (project (handleUploadKeyframeImage sh t f w))"
  by (auto simp: handleUploadKeyframeImage_def Let_def project_simps consistent_putKeyframe
      consistent_createKeyframe split: option.splits sum.splits)

lemma truthy_Some: "truthy u \<Longrightarrow> \<exists>x. u = Some x"
  by (cases u) auto

lemma consistent_copy:
  "projectConsistent (project w) \<Longrightarrow> projectConsistent (project (handleCopyPreviousEndFrame p a w))"
  by (auto simp: handleCopyPreviousEndFrame_def Let_def project_simps
      intro!: consistent_updateShot consistent_updateKeyframeInShot
      dest!: truthy_Some simp: consistent_createKeyframe split: option.splits)

lemma consistent_edit:
  "projectConsistent (project w) \<Longrightarrow> projectConsistent (project (handleSaveEdit p a em w))"
proof -
  have k: "keyframeConsistent (kf\<lparr>visualPrompt := v\<rparr>) = keyframeConsistent kf" for kf v
    by (simp add: keyframeConsistent_def)
  have e: "list_all keyframeConsistent
             (keyframesOf (s\<lparr>keyframes :=
                Some (case keyframes s of
                        None \<Rightarrow> []
                      | Some kfs \<Rightarrow> map (\<lambda>kf. if c kf then kf\<lparr>visualPrompt := v\<rparr> else kf) kfs)\<rparr>))"
    if "list_all keyframeConsistent (keyframesOf s)" for s c v
    using that by (cases "keyframes s") (auto simp: keyframesOf_def list_all_iff k)
  have o: "keyframesOf (s\<lparr>actionSummary := v\<rparr>) = keyframesOf s"
    "keyframesOf (s\<lparr>interval := iv\<rparr>) = keyframesOf s" for s v iv
    by (simp_all add: keyframesOf_def)
  assume "projectConsistent (project w)"
  then show ?thesis
    by (auto simp: handleSaveEdit_def Let_def o
        intro!: consistent_updateShot e split: option.splits editKind.splits)
qed

lemma consistent_applyOp:
  "projectConsistent (project w) \<Longrightarrow> projectConsistent (project (applyOp op w))"
  by (cases op)
     (simp_all add: consistent_begin consistent_settle consistent_generate consistent_upload
       consistent_copy consistent_edit)

lemma consistent_runOps:
  "projectConsistent (project w) \<Longrightarrow> projectConsistent (project (runOps ops w))"
  unfolding runOps_def
  by (induction ops arbitrary: w) (simp_all add: consistent_applyOp)

text \<open>
  Claim C3. Starting from a project in which every keyframe has an image exactly when it
  is completed (a fresh project has no images and no completed keyframe), every sequence
  of generate, upload, copy-previous-end-frame and edit steps, with the two parts of a
  generation placed anywhere in it, leaves a project in which, for every shot and every
  keyframe of it, \<open>imageUrl\<close> is defined if and only if the status is completed.
\<close>

theorem keyframe_image_iff_completed:
  assumes "projectConsistent (project w)"
  shows "\<forall>s \<in> set (shots (project (runOps ops w))). \<forall>k \<in> set (keyframesOf s).
           (imageUrl k \<noteq> None) = (kf_status k = Completed)"
  using consistent_runOps[OF assms, of ops]
  by (simp add: projectConsistent_def list_all_iff keyframeConsistent_def)

theorem keyframe_image_iff_completed_witness:
  "list_all (\<lambda>s. list_all (\<lambda>k. (imageUrl k \<noteq> None) = (kf_status k = Completed)) (keyframesOf s))
     (shots (project (runOps
        [GenerateBegin scenarioProject scenarioS2 Start,
         Upload scenarioS2 Start (Some \<lparr>file_type = ''image/png'', readAsDataURL = Inr ''data:1''\<rparr>),
         GenerateSettle unauthorizedEnv scenarioS2 Start ''kf-S2-start-1'' ''p''
           (Inl (Error ''401 invalid API key'')),
         CopyPreviousEndFrame scenarioProject (Some ''S2''),
         EditPrompt scenarioProject (Some ''S2'')
           (Some \<lparr>edit_kind = KeyframeEdit, edit_value = ''new'', edit_frameType = Some Start\<rparr>),
         Generate answeringEnv scenarioProject scenarioS1 End]
        (worldOf scenarioProject))))"
proof -
  have h: "projectConsistent (project (worldOf scenarioProject))"
    by (simp add: projectConsistent_def worldOf_def scenarioProject_def scenarioS1_def
        scenarioS2_def blankShot_def keyframesOf_def keyframeConsistent_def createKeyframe_def)
  show ?thesis
    unfolding list_all_iff by (rule keyframe_image_iff_completed[OF h])
qed

subsection \<open>Batch generation\<close>

lemma handleGenerateKeyframe_never_rejects: "fst (handleGenerateKeyframe e p sh t w) = None"
  by (simp add: handleGenerateKeyframe_def generateKeyframeBegin_def generateKeyframeSettle_def
      Let_def split: sum.splits)

lemma onlyTouches_refl: "project w' = project w \<Longrightarrow> onlyTouches S w w'"
  by (simp add: onlyTouches_def)

lemma onlyTouches_trans:
  assumes "onlyTouches S w w'" "onlyTouches S w' w''"
  shows "onlyTouches S w w''"
proof -
  have len: "length (shots (project w')) = length (shots (project w))"
    using assms(1) unfolding onlyTouches_def by (metis length_map)
  show ?thesis
    unfolding onlyTouches_def
  proof (intro conjI allI impI)
    show "map shot_id (shots (project w'')) = map shot_id (shots (project w))"
      using assms by (simp add: onlyTouches_def)
  next
    fix j assume j: "j < length (shots (project w))" and n: "shot_id (shots (project w) ! j) \<notin> S"
    have a: "shots (project w') ! j = shots (project w) ! j"
      using assms(1) j n by (simp add: onlyTouches_def)
    have "shots (project w'') ! j = shots (project w') ! j"
      using assms(2) j n a len by (simp add: onlyTouches_def)
    with a show "shots (project w'') ! j = shots (project w) ! j" by simp
  qed
qed

lemma onlyTouches_mono: "onlyTouches S w w' \<Longrightarrow> S \<subseteq> T \<Longrightarrow> onlyTouches T w w'"
  by (auto simp: onlyTouches_def)

lemma onlyTouches_putKeyframe: "onlyTouches {sid} w (putKeyframe sid t kf w)"
  by (simp add: onlyTouches_def project_putKeyframe updateKeyframeInShot_fields)

lemma onlyTouches_cong:
  "project a = project a' \<Longrightarrow> project b = project b' \<Longrightarrow> onlyTouches S a b = onlyTouches S a' b'"
  by (simp add: onlyTouches_def)

lemma imageRequests_putKeyframe: "imageRequests (putKeyframe sid t kf w) = imageRequests w"
  by (simp add: putKeyframe_def updateProject_def)

lemma handleGenerateKeyframe_effect:
  "onlyTouches {shot_id sh} w (snd (handleGenerateKeyframe e p sh t w))
   \<and> map fst (imageRequests (snd (handleGenerateKeyframe e p sh t w)))
       = map fst (imageRequests w) @ [shot_id sh]"
proof -
  define kfId where "kfId = keyframeIdFor sh t (clock w)"
  define P where "P = keyframePromptFor p sh t"
  define w1 where "w1 = putKeyframe (shot_id sh) t (createKeyframe kfId t P None Generating) w"
  define w2 where "w2 = w1\<lparr>imageRequests := imageRequests w1 @ [(shot_id sh, P, getRefImagesForShot sh (project_scriptData p))]\<rparr>"
  have t1: "onlyTouches {shot_id sh} w w2"
    using onlyTouches_putKeyframe[of "shot_id sh" w t "createKeyframe kfId t P None Generating"]
    by (simp add: w2_def w1_def onlyTouches_def)
  have r2: "map fst (imageRequests w2) = map fst (imageRequests w) @ [shot_id sh]"
    by (simp add: w2_def w1_def imageRequests_putKeyframe)
  have step: "onlyTouches {shot_id sh} w (putKeyframe (shot_id sh) t kf w')
              \<and> map fst (imageRequests (putKeyframe (shot_id sh) t kf w')) = map fst (imageRequests w) @ [shot_id sh]"
    if "project w' = project w2" "imageRequests w' = imageRequests w2" for w' kf
  proof -
    have "onlyTouches {shot_id sh} w2 (putKeyframe (shot_id sh) t kf w')"
      using onlyTouches_putKeyframe[of "shot_id sh" w' t kf] that(1) by (simp add: onlyTouches_def)
    with t1 have "onlyTouches {shot_id sh} w (putKeyframe (shot_id sh) t kf w')"
      by (rule onlyTouches_trans)
    then show ?thesis by (simp add: imageRequests_putKeyframe that(2) r2)
  qed
  have al: "onlyTouches S w (raiseAlert a w') = onlyTouches S w w'"
    "imageRequests (raiseAlert a w') = imageRequests w'" for S a w'
    by (simp_all add: onlyTouches_def raiseAlert_def)
  have run: "snd (handleGenerateKeyframe e p sh t w)
         = (case generateImage e (length (imageRequests w)) P (getRefImagesForShot sh (project_scriptData p)) of
              Inr url \<Rightarrow> putKeyframe (shot_id sh) t (createKeyframe kfId t P (Some url) Completed) w2
            | Inl err \<Rightarrow>
                (if apiKeyErrorHandled e err
                 then putKeyframe (shot_id sh) t (createKeyframe kfId t P None Failed) (consoleError (Logged err) w2)
                 else raiseAlert (GenerationFailed (message err))
                        (putKeyframe (shot_id sh) t (createKeyframe kfId t P None Failed) (consoleError (Logged err) w2))))"
    by (simp add: handleGenerateKeyframe_def generateKeyframeBegin_def generateKeyframeSettle_def
        Let_def kfId_def P_def w1_def w2_def split: sum.splits)
  show ?thesis
  proof (cases "generateImage e (length (imageRequests w)) P (getRefImagesForShot sh (project_scriptData p))")
    case (Inr url)
    then show ?thesis using step[of w2] run by simp
  next
    case (Inl err)
    have c: "project (consoleError (Logged err) w2) = project w2"
      "imageRequests (consoleError (Logged err) w2) = imageRequests w2"
      by (simp_all add: consoleError_def)
    show ?thesis using step[OF c] run Inl by (simp add: al)
  qed
qed

lemma batchLoop_effect:
  "onlyTouches (shot_id ` set todo) w (batchLoop e p n i todo w)
   \<and> map fst (imageRequests (batchLoop e p n i todo w))
       = map fst (imageRequests w) @ map shot_id todo"
proof (induction todo arbitrary: w i)
  case Nil
  show ?case by (simp add: onlyTouches_def setBatchProgress_def)
next
  case (Cons sh rest)
  define w2 where "w2 = setBatchProgress
                 (Some \<lparr>current = i + 1, total = n, progress_message = GeneratingShot (i + 1) n\<rparr>)
                 (if i > 0 then delay batchGenerateDelay w else w)"
  define w3 where "w3 = snd (handleGenerateKeyframe e p sh Start w2)"
  have pw2: "project w2 = project w" "imageRequests w2 = imageRequests w"
    by (simp_all add: w2_def setBatchProgress_def delay_def)
  have hg: "handleGenerateKeyframe e p sh Start w2 = (None, w3)"
    using handleGenerateKeyframe_never_rejects[of e p sh Start w2]
    by (simp add: w3_def prod_eq_iff)
  have run: "batchLoop e p n i (sh # rest) w = batchLoop e p n (i + 1) rest w3"
    by (simp only: batchLoop.simps Let_def w2_def[symmetric] hg prod.case option.case)
  from handleGenerateKeyframe_effect[of sh w2 e p Start]
  have e1: "onlyTouches {shot_id sh} w w3"
    and r1: "map fst (imageRequests w3) = map fst (imageRequests w) @ [shot_id sh]"
    by (simp_all add: w3_def pw2 onlyTouches_def)
  from Cons.IH[of w3 "i + 1"]
  have e2: "onlyTouches (shot_id ` set rest) w3 (batchLoop e p n (i + 1) rest w3)"
    and r2: "map fst (imageRequests (batchLoop e p n (i + 1) rest w3))
               = map fst (imageRequests w3) @ map shot_id rest"
    by simp_all
  have "onlyTouches (shot_id ` set (sh # rest)) w (batchLoop e p n (i + 1) rest w3)"
    by (rule onlyTouches_trans[OF onlyTouches_mono[OF e1] onlyTouches_mono[OF e2]]) auto
  then show ?case unfolding run using r2 r1 by simp
qed


lemma hasStartImage_not_selected:
  assumes "distinct (map shot_id xs)" "j < length xs" "hasStartImage (xs ! j)"
  shows "shot_id (xs ! j) \<notin> shot_id ` set (filter (\<lambda>s. \<not> hasStartImage s) xs)"
proof
  assume "shot_id (xs ! j) \<in> shot_id ` set (filter (\<lambda>s. \<not> hasStartImage s) xs)"
  then obtain s where s: "s \<in> set xs" "\<not> hasStartImage s" "shot_id s = shot_id (xs ! j)" by auto
  then obtain k where k: "k < length xs" "xs ! k = s" by (auto simp: in_set_conv_nth)
  with s assms have "k = j"
    by (metis length_map nth_eq_iff_index_eq nth_map)
  with k s assms(3) show False by simp
qed

text \<open>
  Claim C5. When some shot lacks a start image (fill-missing mode), the batch selects
  exactly the shots without a start image, in project order, and issues its image
  requests for these and no others. In a project with distinct shot ids, every shot that
  has a start image is the same after the batch as before and no request is issued for
  it. When every shot has a start image and the user confirms (regenerate-all mode), the
  batch selects all shots. A completed start keyframe is read as the code tests it: the
  keyframe has a non-empty image.
\<close>

theorem batch_fill_missing:
  "(\<not> allStartFramesGenerated p \<longrightarrow>
       shotsToProcess e p = Some (filter (\<lambda>s. \<not> hasStartImage s) (shots p))
       \<and> map fst (imageRequests (handleBatchGenerateImages e p w))
           = map fst (imageRequests w) @ map shot_id (filter (\<lambda>s. \<not> hasStartImage s) (shots p)))
   \<and> (\<not> allStartFramesGenerated p \<and> project w = p \<and> distinct (map shot_id (shots p)) \<longrightarrow>
       length (shots (project (handleBatchGenerateImages e p w))) = length (shots p)
       \<and> (\<forall>j < length (shots p). hasStartImage (shots p ! j) \<longrightarrow>
             shots (project (handleBatchGenerateImages e p w)) ! j = shots p ! j
             \<and> shot_id (shots p ! j)
                 \<notin> set (drop (length (imageRequests w))
                           (map fst (imageRequests (handleBatchGenerateImages e p w))))))
   \<and> (allStartFramesGenerated p \<and> windowConfirm e \<longrightarrow>
       shotsToProcess e p = Some (shots p)
       \<and> map fst (imageRequests (handleBatchGenerateImages e p w))
           = map fst (imageRequests w) @ map shot_id (shots p))"
proof -
  define todo where "todo = filter (\<lambda>s. \<not> hasStartImage s) (shots p)"
  have eff: "onlyTouches (shot_id ` set xs) w (handleBatchGenerateImages e p w)
             \<and> map fst (imageRequests (handleBatchGenerateImages e p w))
                 = map fst (imageRequests w) @ map shot_id xs"
    if "shotsToProcess e p = Some xs" for xs
  proof (cases "xs = []")
    case True
    with that show ?thesis by (simp add: handleBatchGenerateImages_def onlyTouches_def)
  next
    case False
    define w0 where "w0 = setBatchProgress
                    (Some \<lparr>current = 0, total = length xs,
                           progress_message =
                             (if allStartFramesGenerated p then RegeneratingAll
                              else GeneratingMissing)\<rparr>) w"
    have pw: "project w0 = project w" "imageRequests w0 = imageRequests w"
      by (simp_all add: w0_def setBatchProgress_def)
    have run: "handleBatchGenerateImages e p w = batchLoop e p (length xs) 0 xs w0"
      using that False by (simp add: handleBatchGenerateImages_def w0_def)
    from batchLoop_effect[of xs w0 e p "length xs" 0] show ?thesis
      by (simp add: run pw onlyTouches_def)
  qed
  have sel: "shotsToProcess e p = Some todo" if "\<not> allStartFramesGenerated p"
    using that by (simp add: shotsToProcess_def todo_def)
  have selAll: "shotsToProcess e p = Some (shots p)" if "allStartFramesGenerated p" "windowConfirm e"
    using that by (simp add: shotsToProcess_def)
  have A: "shotsToProcess e p = Some todo
       \<and> map fst (imageRequests (handleBatchGenerateImages e p w))
           = map fst (imageRequests w) @ map shot_id todo" if "\<not> allStartFramesGenerated p"
    using eff[OF sel[OF that]] sel[OF that] by simp
  have C: "shotsToProcess e p = Some (shots p)
       \<and> map fst (imageRequests (handleBatchGenerateImages e p w))
           = map fst (imageRequests w) @ map shot_id (shots p)"
    if "allStartFramesGenerated p \<and> windowConfirm e"
    using eff[OF selAll] selAll that by simp
  have B: "length (shots (project (handleBatchGenerateImages e p w))) = length (shots p)
       \<and> (\<forall>j < length (shots p). hasStartImage (shots p ! j) \<longrightarrow>
             shots (project (handleBatchGenerateImages e p w)) ! j = shots p ! j
             \<and> shot_id (shots p ! j)
                 \<notin> set (drop (length (imageRequests w))
                           (map fst (imageRequests (handleBatchGenerateImages e p w)))))"
    if h: "\<not> allStartFramesGenerated p \<and> project w = p \<and> distinct (map shot_id (shots p))"
  proof -
    from h have n: "\<not> allStartFramesGenerated p" and pw: "project w = p"
      and d: "distinct (map shot_id (shots p))" by simp_all
    from eff[OF sel[OF n]]
    have ot: "onlyTouches (shot_id ` set todo) w (handleBatchGenerateImages e p w)"
      and rq: "map fst (imageRequests (handleBatchGenerateImages e p w))
                 = map fst (imageRequests w) @ map shot_id todo" by simp_all
    have len: "length (shots (project (handleBatchGenerateImages e p w))) = length (shots p)"
      using ot pw unfolding onlyTouches_def by (metis length_map)
    have dr: "drop (length (imageRequests w)) (map fst (imageRequests (handleBatchGenerateImages e p w)))
                = map shot_id todo"
      by (simp add: rq)
    have "shots (project (handleBatchGenerateImages e p w)) ! j = shots p ! j
          \<and> shot_id (shots p ! j) \<notin> set (map shot_id todo)"
      if "j < length (shots p)" "hasStartImage (shots p ! j)" for j
    proof -
      have ns: "shot_id (shots p ! j) \<notin> shot_id ` set todo"
        unfolding todo_def using d that by (rule hasStartImage_not_selected)
      with ot pw that(1) show ?thesis by (simp add: onlyTouches_def)
    qed
    with len dr show ?thesis by simp
  qed
  from A B C show ?thesis unfolding todo_def by blast
qed

lemma sel_half: "\<not> allStartFramesGenerated halfDoneProject"
  "filter (\<lambda>s. \<not> hasStartImage s) (shots halfDoneProject) = [scenarioS2]"
  "hasStartImage (shots halfDoneProject ! 0)"
  "distinct (map shot_id (shots halfDoneProject))"
  "project (worldOf halfDoneProject) = halfDoneProject"
  "imageRequests (worldOf halfDoneProject) = []"
  by (simp_all add: allStartFramesGenerated_def halfDoneProject_def hasStartImage_def
      scenarioS0_def scenarioS2_def blankShot_def findKeyframe_def imageUrlOf_def
      createKeyframe_def worldOf_def)

lemma sel_all: "allStartFramesGenerated allDoneProject" "windowConfirm answeringEnv"
  by (simp_all add: allStartFramesGenerated_def allDoneProject_def hasStartImage_def
      scenarioS0_def blankShot_def findKeyframe_def imageUrlOf_def
      createKeyframe_def answeringEnv_def)

theorem batch_fill_missing_witness:
  "shotsToProcess answeringEnv halfDoneProject = Some [scenarioS2]
   \<and> map fst (imageRequests (handleBatchGenerateImages answeringEnv halfDoneProject
                                (worldOf halfDoneProject))) = [''S2'']
   \<and> shots (project (handleBatchGenerateImages answeringEnv halfDoneProject
                        (worldOf halfDoneProject))) ! 0 = scenarioS0
   \<and> shotsToProcess answeringEnv allDoneProject = Some [scenarioS0]"
proof -
  note t1 = batch_fill_missing[of halfDoneProject answeringEnv "worldOf halfDoneProject"]
  note t2 = batch_fill_missing[of allDoneProject answeringEnv "worldOf allDoneProject"]
  have a: "shotsToProcess answeringEnv halfDoneProject = Some [scenarioS2]"
    "map fst (imageRequests (handleBatchGenerateImages answeringEnv halfDoneProject
                                (worldOf halfDoneProject))) = [] @ map shot_id [scenarioS2]"
    using t1 sel_half by simp_all
  have b: "shots (project (handleBatchGenerateImages answeringEnv halfDoneProject
                        (worldOf halfDoneProject))) ! 0 = shots halfDoneProject ! 0"
    using t1 sel_half by (simp add: halfDoneProject_def)
  have c: "shotsToProcess answeringEnv allDoneProject = Some (shots allDoneProject)"
    using t2 sel_all by simp
  show ?thesis using a b c
    by (simp add: halfDoneProject_def allDoneProject_def scenarioS2_def blankShot_def)
qed

lemma unauth: "generateImage unauthorizedEnv n pr refs = Inl (Error ''401 invalid API key'')"
  "apiKeyErrorHandled unauthorizedEnv err"
  by (simp_all add: unauthorizedEnv_def apiKeyErrorHandled_def)

text \<open>
  Claim C4 fails on the code. With a service that rejects every request and a credential
  handler that reports each error as handled, the batch over two shots without start
  frames does not stop at the first error: \<^verbatim>\<open>handleGenerateKeyframe\<close> catches it and
  resolves, the \<^verbatim>\<open>catch\<close> block of the loop never runs, and the request for the second
  shot is issued as well.
\<close>

theorem batch_continues_after_handled_error:
  "map fst (imageRequests (handleBatchGenerateImages unauthorizedEnv scenarioProject
                             (worldOf scenarioProject))) = [''S1'', ''S2'']
   \<and> console (handleBatchGenerateImages unauthorizedEnv scenarioProject (worldOf scenarioProject))
       = [Logged (Error ''401 invalid API key''), Logged (Error ''401 invalid API key'')]
   \<and> alerts (handleBatchGenerateImages unauthorizedEnv scenarioProject (worldOf scenarioProject)) = []"
  by (simp add: handleBatchGenerateImages_def shotsToProcess_def allStartFramesGenerated_def
      scenarioProject_def hasStartImage_def scenarioS1_def scenarioS2_def blankShot_def
      findKeyframe_def imageUrlOf_def createKeyframe_def worldOf_def Let_def
      handleGenerateKeyframe_def generateKeyframeBegin_def generateKeyframeSettle_def unauth
      putKeyframe_def updateProject_def consoleError_def setBatchProgress_def delay_def
      raiseAlert_def)

text \<open>
  The loop of the older component calls the service itself, so its \<^verbatim>\<open>catch\<close> block does
  run: on the same input it stops after the first request. It also leaves alone every
  shot that has a start image.
\<close>

lemma legacy_batch_stops_at_handled_error:
  "map fst (imageRequests (legacyHandleBatchGenerateImages unauthorizedEnv scenarioProject
                             (worldOf scenarioProject))) = [''S1'']
   \<and> batchProgress (legacyHandleBatchGenerateImages unauthorizedEnv scenarioProject
                      (worldOf scenarioProject)) = None
   \<and> project (legacyHandleBatchGenerateImages unauthorizedEnv scenarioProject
                (worldOf scenarioProject)) = scenarioProject"
  by (simp add: legacyHandleBatchGenerateImages_def shotsToProcess_def allStartFramesGenerated_def
      scenarioProject_def hasStartImage_def scenarioS1_def scenarioS2_def blankShot_def
      findKeyframe_def imageUrlOf_def createKeyframe_def worldOf_def Let_def unauth
      consoleError_def setBatchProgress_def)

lemma legacyBatchLoop_effect:
  assumes "shots (project w) = cur"
  shows "onlyTouches (shot_id ` set todo) w (legacyBatchLoop e p n i todo cur w)
     \<and> (\<exists>k. map fst (imageRequests (legacyBatchLoop e p n i todo cur w))
              = map fst (imageRequests w) @ take k (map shot_id todo))"
  using assms
proof (induction todo arbitrary: w cur i)
  case Nil
  show ?case by (simp add: onlyTouches_def setBatchProgress_def)
next
  case (Cons sh rest)
  define w2 where "w2 = setBatchProgress
                 (Some \<lparr>current = i + 1, total = n, progress_message = GeneratingShot (i + 1) n\<rparr>)
                 (if i > 0 then delay 3000 w else w)"
  define prompt where "prompt =
      (case findKeyframe sh Start of
         None \<Rightarrow> actionSummary sh
       | Some k \<Rightarrow> if visualPrompt k \<noteq> [] then visualPrompt k else actionSummary sh)
      @ ''\<newline>\<newline>Visual Style: '' @ stylePromptOf (visualStyleOf p)
      @ ''\<newline>\<newline>Visual Requirements: High definition, cinematic composition, 16:9 widescreen format.''"
  define refs where "refs = getRefImagesForShot sh (project_scriptData p)"
  define w3 where "w3 = w2\<lparr>imageRequests := imageRequests w2 @ [(shot_id sh, prompt, refs)]\<rparr>"
  define r where "r = generateImage e (length (imageRequests w2)) prompt refs"
  define kf where "kf url = createKeyframe (keyframeIdFor sh Start (clock w2)) Start prompt
                              (Some url) Completed" for url
  have pw: "project w3 = project w"
    "map fst (imageRequests w3) = map fst (imageRequests w) @ [shot_id sh]"
    by (simp_all add: w3_def w2_def setBatchProgress_def delay_def)
  have run: "legacyBatchLoop e p n i (sh # rest) cur w
      = (case r of
           Inr url \<Rightarrow>
             (let cur' = map (\<lambda>s. if shot_id s \<noteq> shot_id sh then s
                              else updateKeyframeInShot s Start (kf url)) cur
              in legacyBatchLoop e p n (i + 1) rest cur'
                   (updateProject (\<lambda>prev. prev\<lparr>shots := cur'\<rparr>) w3))
         | Inl err \<Rightarrow>
             (let w4 = consoleError (FailedToGenerateForShot (shot_id sh) err) w3
              in if apiKeyErrorHandled e err then setBatchProgress None w4
                 else legacyBatchLoop e p n (i + 1) rest cur w4))"
    by (simp only: legacyBatchLoop.simps Let_def w2_def[symmetric] prompt_def[symmetric]
        refs_def[symmetric] w3_def[symmetric] r_def[symmetric] kf_def[symmetric])
  have tail: "onlyTouches (shot_id ` set (sh # rest)) w (legacyBatchLoop e p n (i + 1) rest cur' w')
     \<and> (\<exists>k. map fst (imageRequests (legacyBatchLoop e p n (i + 1) rest cur' w'))
              = map fst (imageRequests w) @ take k (map shot_id (sh # rest)))"
    if c: "shots (project w') = cur'" and o: "onlyTouches {shot_id sh} w w'"
      and q: "map fst (imageRequests w') = map fst (imageRequests w) @ [shot_id sh]" for w' cur'
  proof -
    from Cons.IH[OF c, of "i + 1"] obtain k where
      e2: "onlyTouches (shot_id ` set rest) w' (legacyBatchLoop e p n (i + 1) rest cur' w')"
      and p2: "map fst (imageRequests (legacyBatchLoop e p n (i + 1) rest cur' w'))
                 = map fst (imageRequests w') @ take k (map shot_id rest)"
      by blast
    have ot: "onlyTouches (shot_id ` set (sh # rest)) w (legacyBatchLoop e p n (i + 1) rest cur' w')"
      by (rule onlyTouches_trans[OF onlyTouches_mono[OF o] onlyTouches_mono[OF e2]]) auto
    have "map fst (imageRequests (legacyBatchLoop e p n (i + 1) rest cur' w'))
            = map fst (imageRequests w) @ take (Suc k) (map shot_id (sh # rest))"
      using p2 q by simp
    with ot show ?thesis by blast
  qed
  show ?case
  proof (cases r)
    case (Inr url)
    define cur' where "cur' = map (\<lambda>s. if shot_id s \<noteq> shot_id sh then s
                              else updateKeyframeInShot s Start (kf url)) cur"
    define w' where "w' = updateProject (\<lambda>prev. prev\<lparr>shots := cur'\<rparr>) w3"
    have c: "shots (project w') = cur'" by (simp add: w'_def updateProject_def)
    have o: "onlyTouches {shot_id sh} w w'"
      using Cons.prems
      by (simp add: onlyTouches_def c cur'_def updateKeyframeInShot_fields comp_def)
    have q: "map fst (imageRequests w') = map fst (imageRequests w) @ [shot_id sh]"
      by (simp add: w'_def updateProject_def pw)
    from tail[OF c o q] show ?thesis
      unfolding run Inr by (simp add: Let_def cur'_def[symmetric] w'_def[symmetric])
  next
    case (Inl err)
    define w4 where "w4 = consoleError (FailedToGenerateForShot (shot_id sh) err) w3"
    have c: "shots (project w4) = cur" using Cons.prems by (simp add: w4_def consoleError_def pw)
    have o: "onlyTouches {shot_id sh} w w4"
      by (rule onlyTouches_refl) (simp add: w4_def consoleError_def pw)
    have q: "map fst (imageRequests w4) = map fst (imageRequests w) @ [shot_id sh]"
      by (simp add: w4_def consoleError_def pw)
    show ?thesis
    proof (cases "apiKeyErrorHandled e err")
      case True
      have "onlyTouches (shot_id ` set (sh # rest)) w (setBatchProgress None w4)"
        by (rule onlyTouches_refl) (simp add: setBatchProgress_def w4_def consoleError_def pw)
      moreover have "map fst (imageRequests (setBatchProgress None w4))
                       = map fst (imageRequests w) @ take 1 (map shot_id (sh # rest))"
        by (simp add: setBatchProgress_def q)
      ultimately show ?thesis
        unfolding run Inl by (simp only: sum.case Let_def w4_def[symmetric] True if_True) blast
    next
      case False
      from tail[OF c o q] show ?thesis
        unfolding run Inl by (simp only: sum.case Let_def w4_def[symmetric] False if_False)
    qed
  qed
qed

lemma older_loop_spares_completed:
  assumes "\<not> allStartFramesGenerated p" "project w = p" "distinct (map shot_id (shots p))"
    "j < length (shots p)" "hasStartImage (shots p ! j)"
  shows "shots (project (legacyHandleBatchGenerateImages e p w)) ! j = shots p ! j
     \<and> shot_id (shots p ! j)
         \<notin> set (drop (length (imageRequests w))
                   (map fst (imageRequests (legacyHandleBatchGenerateImages e p w))))"
proof -
  define todo where "todo = filter (\<lambda>s. \<not> hasStartImage s) (shots p)"
  have sel: "shotsToProcess e p = Some todo"
    using assms(1) by (simp add: shotsToProcess_def todo_def)
  have ns: "shot_id (shots p ! j) \<notin> shot_id ` set todo"
    unfolding todo_def using assms(3,4,5) by (rule hasStartImage_not_selected)
  show ?thesis
  proof (cases "todo = []")
    case True
    then show ?thesis using sel assms(2) by (simp add: legacyHandleBatchGenerateImages_def)
  next
    case False
    define w0 where "w0 = setBatchProgress
                    (Some \<lparr>current = 0, total = length todo,
                           progress_message =
                             (if allStartFramesGenerated p then RegeneratingAll
                              else GeneratingMissing)\<rparr>) w"
    have pw: "project w0 = p" "imageRequests w0 = imageRequests w"
      using assms(2) by (simp_all add: w0_def setBatchProgress_def)
    have run: "legacyHandleBatchGenerateImages e p w
                 = legacyBatchLoop e p (length todo) 0 todo (shots p) w0"
      using sel False by (simp add: legacyHandleBatchGenerateImages_def w0_def)
    from legacyBatchLoop_effect[of w0 "shots p" todo e p "length todo" 0] pw obtain k where
      ot: "onlyTouches (shot_id ` set todo) w0 (legacyHandleBatchGenerateImages e p w)"
      and rq: "map fst (imageRequests (legacyHandleBatchGenerateImages e p w))
                 = map fst (imageRequests w) @ take k (map shot_id todo)"
      unfolding run by auto
    have "shots (project (legacyHandleBatchGenerateImages e p w)) ! j = shots p ! j"
      using ot ns assms(4) pw by (simp add: onlyTouches_def)
    moreover have "shot_id (shots p ! j) \<notin> set (take k (map shot_id todo))"
      using ns by (auto dest: in_set_takeD)
    ultimately show ?thesis by (simp add: rq)
  qed
qed

subsection \<open>Nine-grid panel selection\<close>

lemma third_bounds:
  fixes W :: rat
  assumes "0 \<le> W" "c < (3::nat)"
  shows "0 \<le> of_nat c * (W / 3) \<and> of_nat c * (W / 3) + W / 3 \<le> W"
proof -
  have "c \<le> 2" using assms(2) by simp
  then have c2: "(of_nat c :: rat) \<le> 2" by (metis of_nat_le_iff of_nat_numeral)
  have c0: "(0::rat) \<le> of_nat c" by simp
  have "of_nat c * (W / 3) \<le> 2 * (W / 3)"
    using c2 assms(1) by (intro mult_right_mono) simp_all
  then show ?thesis using c0 assms(1) by (simp add: field_simps)
qed

text \<open>
  Claim C9. The rectangle of a panel depends on the index alone (and the size of the
  image): for an index from 0 to 8 it lies in row \<open>index div 3\<close> and column
  \<open>index mod 3\<close>, both below 3, is one third of the image wide and high, and lies
  within the image. Index 4 gives the rectangle from one third to two thirds of the width
  and of the height.
\<close>

theorem nine_grid_panel_rect:
  assumes "panelIndex < panelCount"
  shows "selectPanelRect W H panelIndex
           = \<lparr>rect_x = of_nat (panelIndex mod 3) * (W / 3),
              rect_y = of_nat (panelIndex div 3) * (H / 3),
              rect_width = W / 3, rect_height = H / 3\<rparr>
     \<and> panelIndex div 3 < 3 \<and> panelIndex mod 3 < 3
     \<and> (0 \<le> W \<and> 0 \<le> H \<longrightarrow>
          0 \<le> rect_x (selectPanelRect W H panelIndex)
          \<and> rect_x (selectPanelRect W H panelIndex) + rect_width (selectPanelRect W H panelIndex) \<le> W
          \<and> 0 \<le> rect_y (selectPanelRect W H panelIndex)
          \<and> rect_y (selectPanelRect W H panelIndex) + rect_height (selectPanelRect W H panelIndex) \<le> H)
     \<and> selectPanelRect W H 4
           = \<lparr>rect_x = W / 3, rect_y = H / 3, rect_width = W / 3, rect_height = H / 3\<rparr>
     \<and> rect_x (selectPanelRect W H 4) + rect_width (selectPanelRect W H 4) = 2 * W / 3
     \<and> rect_y (selectPanelRect W H 4) + rect_height (selectPanelRect W H 4) = 2 * H / 3"
proof -
  have r: "panelIndex div 3 < 3" and c: "panelIndex mod 3 < 3"
    using assms by (simp_all add: panelCount_def)
  have d: "selectPanelRect W H panelIndex
           = \<lparr>rect_x = of_nat (panelIndex mod 3) * (W / 3),
              rect_y = of_nat (panelIndex div 3) * (H / 3),
              rect_width = W / 3, rect_height = H / 3\<rparr>"
    by (simp add: selectPanelRect_def Let_def)
  have b: "0 \<le> rect_x (selectPanelRect W H panelIndex)
          \<and> rect_x (selectPanelRect W H panelIndex) + rect_width (selectPanelRect W H panelIndex) \<le> W
          \<and> 0 \<le> rect_y (selectPanelRect W H panelIndex)
          \<and> rect_y (selectPanelRect W H panelIndex) + rect_height (selectPanelRect W H panelIndex) \<le> H"
    if "0 \<le> W \<and> 0 \<le> H"
    using third_bounds[of W "panelIndex mod 3"] third_bounds[of H "panelIndex div 3"] that r c
    by (simp add: d)
  have m: "selectPanelRect W H 4
           = \<lparr>rect_x = W / 3, rect_y = H / 3, rect_width = W / 3, rect_height = H / 3\<rparr>"
    by (simp add: selectPanelRect_def Let_def)
  from d r c b m show ?thesis by simp
qed

theorem nine_grid_panel_rect_witness:
  "selectPanelRect 1920 1080 5
     = \<lparr>rect_x = 1280, rect_y = 360, rect_width = 640, rect_height = 360\<rparr>
   \<and> selectPanelRect 1920 1080 4
     = \<lparr>rect_x = 640, rect_y = 360, rect_width = 640, rect_height = 360\<rparr>"
proof -
  have h: "(5::nat) < panelCount" by (simp add: panelCount_def)
  have w: "(0::rat) \<le> 1920 \<and> (0::rat) \<le> 1080" by simp
  from nine_grid_panel_rect[OF h, of 1920 1080] w
  show ?thesis by simp
qed

end
